theory Spec2Isabelle
  imports Complex_Main "HOL-Library.Word"
begin

section \<open>Scalars: C++ float as exact reals with the IEEE special values\<close>

text \<open>
  Every scalar of the ray tracer is a C++ \<^verbatim>\<open>float\<close>. The code relies on the special
  values: a ray carries \<^verbatim>\<open>+infinity\<close> until something is hit, a plane parallel to the
  ray divides by zero, and \<^verbatim>\<open>infinity * 0\<close> is a NaN that fails every comparison.
  The model keeps these values and computes exactly on the finite ones (no rounding,
  no overflow, no signed zero: a zero divisor counts as \<^verbatim>\<open>+0\<close>).
\<close>

datatype fl = Fin real | PInf | NInf | NaN

fun fneg :: "fl \<Rightarrow> fl" where
  "fneg (Fin a) = Fin (- a)"
| "fneg PInf = NInf"
| "fneg NInf = PInf"
| "fneg NaN = NaN"

fun fadd :: "fl \<Rightarrow> fl \<Rightarrow> fl" where
  "fadd (Fin a) (Fin b) = Fin (a + b)"
| "fadd NaN _ = NaN"
| "fadd _ NaN = NaN"
| "fadd PInf NInf = NaN"
| "fadd NInf PInf = NaN"
| "fadd PInf _ = PInf"
| "fadd _ PInf = PInf"
| "fadd NInf _ = NInf"
| "fadd _ NInf = NInf"

fun fmul :: "fl \<Rightarrow> fl \<Rightarrow> fl" where
  "fmul (Fin a) (Fin b) = Fin (a * b)"
| "fmul NaN _ = NaN"
| "fmul _ NaN = NaN"
| "fmul PInf (Fin b) = (if b = 0 then NaN else if 0 < b then PInf else NInf)"
| "fmul NInf (Fin b) = (if b = 0 then NaN else if 0 < b then NInf else PInf)"
| "fmul (Fin a) PInf = (if a = 0 then NaN else if 0 < a then PInf else NInf)"
| "fmul (Fin a) NInf = (if a = 0 then NaN else if 0 < a then NInf else PInf)"
| "fmul PInf PInf = PInf"
| "fmul PInf NInf = NInf"
| "fmul NInf PInf = NInf"
| "fmul NInf NInf = PInf"

fun fdiv :: "fl \<Rightarrow> fl \<Rightarrow> fl" where
  "fdiv (Fin a) (Fin b) =
     (if b \<noteq> 0 then Fin (a / b)
      else if a = 0 then NaN else if 0 < a then PInf else NInf)"
| "fdiv NaN _ = NaN"
| "fdiv _ NaN = NaN"
| "fdiv (Fin a) PInf = Fin 0"
| "fdiv (Fin a) NInf = Fin 0"
| "fdiv PInf (Fin b) = (if 0 \<le> b then PInf else NInf)"
| "fdiv NInf (Fin b) = (if 0 \<le> b then NInf else PInf)"
| "fdiv PInf PInf = NaN"
| "fdiv PInf NInf = NaN"
| "fdiv NInf PInf = NaN"
| "fdiv NInf NInf = NaN"

fun flt :: "fl \<Rightarrow> fl \<Rightarrow> bool" where
  "flt (Fin a) (Fin b) = (a < b)"
| "flt NaN _ = False"
| "flt _ NaN = False"
| "flt _ NInf = False"
| "flt PInf _ = False"
| "flt NInf _ = True"
| "flt _ PInf = True"

fun fle :: "fl \<Rightarrow> fl \<Rightarrow> bool" where
  "fle (Fin a) (Fin b) = (a \<le> b)"
| "fle NaN _ = False"
| "fle _ NaN = False"
| "fle NInf _ = True"
| "fle _ PInf = True"
| "fle _ NInf = False"
| "fle PInf _ = False"

fun fsqrt :: "fl \<Rightarrow> fl" where
  "fsqrt (Fin a) = (if 0 \<le> a then Fin (sqrt a) else NaN)"
| "fsqrt PInf = PInf"
| "fsqrt NInf = NaN"
| "fsqrt NaN = NaN"

fun fabs :: "fl \<Rightarrow> fl" where
  "fabs (Fin a) = Fin \<bar>a\<bar>"
| "fabs PInf = PInf"
| "fabs NInf = PInf"
| "fabs NaN = NaN"

instantiation fl :: "{zero, one, plus, minus, uminus, times, inverse, abs, ord}"
begin

definition zero_fl :: fl where "zero_fl = Fin 0"
definition one_fl :: fl where "one_fl = Fin 1"
definition plus_fl :: "fl \<Rightarrow> fl \<Rightarrow> fl" where "plus_fl a b = fadd a b"
definition uminus_fl :: "fl \<Rightarrow> fl" where "uminus_fl a = fneg a"
definition minus_fl :: "fl \<Rightarrow> fl \<Rightarrow> fl" where "minus_fl a b = fadd a (fneg b)"
definition times_fl :: "fl \<Rightarrow> fl \<Rightarrow> fl" where "times_fl a b = fmul a b"
definition divide_fl :: "fl \<Rightarrow> fl \<Rightarrow> fl" where "divide_fl a b = fdiv a b"
definition inverse_fl :: "fl \<Rightarrow> fl" where "inverse_fl a = fdiv (Fin 1) a"
definition abs_fl :: "fl \<Rightarrow> fl" where "abs_fl a = fabs a"
definition less_fl :: "fl \<Rightarrow> fl \<Rightarrow> bool" where "less_fl a b = flt a b"
definition less_eq_fl :: "fl \<Rightarrow> fl \<Rightarrow> bool" where "less_eq_fl a b = fle a b"

instance ..

end

lemmas fl_ops [simp] =
  zero_fl_def one_fl_def plus_fl_def uminus_fl_def minus_fl_def times_fl_def
  divide_fl_def inverse_fl_def abs_fl_def less_fl_def less_eq_fl_def

text \<open>The constant \<^verbatim>\<open>std::numeric_limits<float>::infinity()\<close>.\<close>

definition infinity :: fl where
  "infinity = PInf"

text \<open>
  \<^verbatim>\<open>std::min(a, b)\<close> is \<^verbatim>\<open>(b < a) ? b : a\<close> and \<^verbatim>\<open>std::max(a, b)\<close> is
  \<^verbatim>\<open>(a < b) ? b : a\<close>; with a NaN the first argument comes back.
\<close>

definition std_min :: "fl \<Rightarrow> fl \<Rightarrow> fl" where
  "std_min a b = (if b < a then b else a)"

definition std_max :: "fl \<Rightarrow> fl \<Rightarrow> fl" where
  "std_max a b = (if a < b then b else a)"

text \<open>\<^verbatim>\<open>pow(x, 2)\<close> and \<^verbatim>\<open>pow(x, 3)\<close>: repeated products, also on the special values.\<close>

definition pow2 :: "fl \<Rightarrow> fl" where
  "pow2 x = x * x"

definition pow3 :: "fl \<Rightarrow> fl" where
  "pow3 x = x * x * x"

section \<open>Vectors\<close>

datatype vec2 = Vec2 fl fl
datatype vec3 = Vec3 fl fl fl
datatype vec4 = Vec4 fl fl fl fl

fun v3x :: "vec3 \<Rightarrow> fl" where "v3x (Vec3 x y z) = x"
fun v3y :: "vec3 \<Rightarrow> fl" where "v3y (Vec3 x y z) = y"
fun v3z :: "vec3 \<Rightarrow> fl" where "v3z (Vec3 x y z) = z"

fun v3add :: "vec3 \<Rightarrow> vec3 \<Rightarrow> vec3" where
  "v3add (Vec3 a b c) (Vec3 x y z) = Vec3 (a + x) (b + y) (c + z)"

fun v3sub :: "vec3 \<Rightarrow> vec3 \<Rightarrow> vec3" where
  "v3sub (Vec3 a b c) (Vec3 x y z) = Vec3 (a - x) (b - y) (c - z)"

fun v3neg :: "vec3 \<Rightarrow> vec3" where
  "v3neg (Vec3 x y z) = Vec3 (- x) (- y) (- z)"

fun v3scale :: "fl \<Rightarrow> vec3 \<Rightarrow> vec3" where
  "v3scale s (Vec3 x y z) = Vec3 (s * x) (s * y) (s * z)"

section \<open>Ray\<close>

record Ray =
  m_dir :: vec3
  m_pos :: vec3
  m_tIntersect :: fl
  d1 :: fl
  d2 :: fl
  d3 :: fl
  p1 :: fl
  p2 :: fl
  p3 :: fl

text \<open>The constructor \<^verbatim>\<open>Ray::Ray(dir, pos)\<close>; \<^verbatim>\<open>m_tIntersect\<close> starts at infinity.\<close>

definition Ray_ctor :: "vec3 \<Rightarrow> vec3 \<Rightarrow> Ray" where
  "Ray_ctor dir pos =
     \<lparr> m_dir = dir, m_pos = pos, m_tIntersect = infinity,
       d1 = v3x dir, d2 = v3y dir, d3 = v3z dir,
       p1 = v3x pos, p2 = v3y pos, p3 = v3z pos \<rparr>"

definition setIntersectionT :: "Ray \<Rightarrow> fl \<Rightarrow> Ray" where
  "setIntersectionT r t = r\<lparr> m_tIntersect := t \<rparr>"

definition Ray_getIntersectionT :: "Ray \<Rightarrow> fl" where
  "Ray_getIntersectionT r = m_tIntersect r"

definition getPos :: "Ray \<Rightarrow> fl \<Rightarrow> vec3" where
  "getPos r t = v3add (m_pos r) (v3scale t (m_dir r))"

definition getIntersectionPoint :: "Ray \<Rightarrow> vec3" where
  "getIntersectionPoint r = getPos r (m_tIntersect r)"

definition getDir :: "Ray \<Rightarrow> vec3" where
  "getDir r = m_dir r"

definition getOrigin :: "Ray \<Rightarrow> vec3" where
  "getOrigin r = m_pos r"

section \<open>Primitive: root finding\<close>

datatype Plane = XY | XZ | YZ

definition solveQuadratic :: "fl \<Rightarrow> fl \<Rightarrow> fl \<Rightarrow> fl" where
  "solveQuadratic A B C =
     (let discriminant = pow2 B - Fin 4 * A * C in
      if discriminant \<ge> Fin 0 then
        (let t1 = (- B - fsqrt discriminant) / (Fin 2 * A);
             t2 = (- B + fsqrt discriminant) / (Fin 2 * A)
         in if t1 > Fin 0 \<and> t1 < t2 then t1
            else if t2 > Fin 0 \<and> t2 < t1 then t2
            else infinity)
      else infinity)"

definition solveQuadraticBothSolutions :: "fl \<Rightarrow> fl \<Rightarrow> fl \<Rightarrow> fl \<times> fl" where
  "solveQuadraticBothSolutions A B C =
     (let discriminant = pow2 B - Fin 4 * A * C in
      if discriminant \<ge> Fin 0 then
        (let t1 = (- B - fsqrt discriminant) / (Fin 2 * A);
             t2 = (- B + fsqrt discriminant) / (Fin 2 * A)
         in (t1, t2))
      else (infinity, infinity))"

definition intersectPlane :: "vec3 \<Rightarrow> vec3 \<Rightarrow> Plane \<Rightarrow> fl \<Rightarrow> fl" where
  "intersectPlane rayDir rayPos plane planeOffset =
     (let intersectionT =
            (case plane of
               XY \<Rightarrow> (planeOffset - v3z rayPos) / v3z rayDir
             | XZ \<Rightarrow> (planeOffset - v3y rayPos) / v3y rayDir
             | YZ \<Rightarrow> (planeOffset - v3x rayPos) / v3x rayDir)
      in if intersectionT > Fin 0 then intersectionT else infinity)"

text \<open>
  \<^verbatim>\<open>std::min_element\<close> keeps the first element that no later one is \<^verbatim>\<open><\<close> of.
\<close>

fun min_element :: "fl \<Rightarrow> fl list \<Rightarrow> fl" where
  "min_element smallest [] = smallest"
| "min_element smallest (x # xs) = min_element (if x < smallest then x else smallest) xs"

definition getSmallest :: "fl list \<Rightarrow> fl" where
  "getSmallest list = (case list of [] \<Rightarrow> infinity | x # xs \<Rightarrow> min_element x xs)"

definition isInSquare :: "fl \<Rightarrow> fl \<Rightarrow> fl \<Rightarrow> bool" where
  "isInSquare x y sideLength =
     (\<bar>x\<bar> \<le> sideLength / Fin 2 \<and> \<bar>y\<bar> \<le> sideLength / Fin 2)"

section \<open>The four shapes\<close>

text \<open>
  The subclasses of \<^verbatim>\<open>Primitive\<close> with their own fields: \<^verbatim>\<open>Sphere(radius)\<close>,
  \<^verbatim>\<open>Cone(baseRadius, height)\<close>, \<^verbatim>\<open>Cube(sideLength)\<close>, \<^verbatim>\<open>Cylinder(height, radius)\<close>.
\<close>

datatype Shape = Sphere fl | Cone fl fl | Cube fl | Cylinder fl fl

definition Sphere_getIntersectionT :: "fl \<Rightarrow> Ray \<Rightarrow> fl" where
  "Sphere_getIntersectionT m_radius objSpaceRay =
     (let rayDir = getDir objSpaceRay; rayPos = getOrigin objSpaceRay;
          dx = v3x rayDir; dy = v3y rayDir; dz = v3z rayDir;
          px = v3x rayPos; py = v3y rayPos; pz = v3z rayPos;
          A = pow2 dx + pow2 dy + pow2 dz;
          B = Fin 2 * px * dx + Fin 2 * py * dy + Fin 2 * pz * dz;
          C = pow2 px + pow2 py + pow2 pz - pow2 m_radius
      in solveQuadratic A B C)"

definition Cone_getIntersectionT :: "fl \<Rightarrow> fl \<Rightarrow> Ray \<Rightarrow> fl" where
  "Cone_getIntersectionT m_baseRadius m_height objSpaceRay =
     (let rayDir = getDir objSpaceRay; rayPos = getOrigin objSpaceRay;
          dx = v3x rayDir; dy = v3y rayDir; dz = v3z rayDir;
          px = v3x rayPos; py = v3y rayPos; pz = v3z rayPos;
          A = pow2 dx + pow2 dz - (Fin 1 / Fin 4) * pow2 dy;
          B = Fin 2 * px * dx + Fin 2 * pz * dz - (Fin 1 / Fin 2) * py * dy
                + (Fin 1 / Fin 4) * dy;
          C = pow2 px + pow2 pz - (Fin 1 / Fin 4) * pow2 py + (Fin 1 / Fin 4) * py
                - (Fin 1 / Fin 16);
          (t1, t2) = solveQuadraticBothSolutions A B C;
          list1 =
            (if t1 < infinity \<or> t2 < infinity then
               (let yIntersect1 = v3y (getPos objSpaceRay t1);
                    yIntersect2 = v3y (getPos objSpaceRay t2)
                in (if yIntersect1 \<ge> - m_height / Fin 2 \<and> yIntersect1 \<le> m_height / Fin 2
                    then [t1] else [])
                 @ (if yIntersect2 \<ge> - m_height / Fin 2 \<and> yIntersect2 \<le> m_height / Fin 2
                    then [t2] else []))
             else []);
          currT = (Fin (- 0.5) - py) / dy;
          list2 =
            (if currT < infinity then
               (let xIntersect = v3x (getPos objSpaceRay currT);
                    zIntersect = v3z (getPos objSpaceRay currT)
                in if pow2 xIntersect + pow2 zIntersect \<le> pow2 m_baseRadius
                   then [currT] else [])
             else [])
      in getSmallest (list1 @ list2))"

definition Cube_getIntersectionT :: "fl \<Rightarrow> Ray \<Rightarrow> fl" where
  "Cube_getIntersectionT m_sideLength objSpaceRay =
     (let rayDir = getDir objSpaceRay; rayPos = getOrigin objSpaceRay;
          currT1 = std_min (intersectPlane rayDir rayPos XY (Fin 0.5))
                           (intersectPlane rayDir rayPos XY (Fin (- 0.5)));
          intersectionPoint1 = getPos objSpaceRay currT1;
          list1 = (if currT1 < infinity
                      \<and> isInSquare (v3x intersectionPoint1) (v3y (getPos objSpaceRay currT1)) (Fin 1)
                   then [currT1] else []);
          currT2 = std_min (intersectPlane rayDir rayPos XZ (Fin 0.5))
                           (intersectPlane rayDir rayPos XZ (Fin (- 0.5)));
          intersectionPoint2 = getPos objSpaceRay currT2;
          list2 = (if currT2 < infinity
                      \<and> isInSquare (v3x intersectionPoint2) (v3z (getPos objSpaceRay currT2)) (Fin 1)
                   then [currT2] else []);
          currT3 = std_min (intersectPlane rayDir rayPos YZ (Fin 0.5))
                           (intersectPlane rayDir rayPos YZ (Fin (- 0.5)));
          intersectionPoint3 = getPos objSpaceRay currT3;
          list3 = (if currT3 < infinity
                      \<and> isInSquare (v3y intersectionPoint3) (v3z (getPos objSpaceRay currT3)) (Fin 1)
                   then [currT3] else [])
      in getSmallest (list1 @ list2 @ list3))"

definition Cylinder_getIntersectionT :: "fl \<Rightarrow> fl \<Rightarrow> Ray \<Rightarrow> fl" where
  "Cylinder_getIntersectionT m_height m_radius objSpaceRay =
     (let rayDir = getDir objSpaceRay; rayPos = getOrigin objSpaceRay;
          dx = v3x rayDir; dz = v3z rayDir;
          px = v3x rayPos; pz = v3z rayPos;
          currT1 = std_min (intersectPlane rayDir rayPos XZ (Fin 0.5))
                           (intersectPlane rayDir rayPos XZ (Fin (- 0.5)));
          xIntersect = v3x (getPos objSpaceRay currT1);
          zIntersect = v3z (getPos objSpaceRay currT1);
          list1 = (if pow2 xIntersect + pow2 zIntersect \<le> pow2 m_radius
                   then [currT1] else []);
          A = pow2 dx + pow2 dz;
          B = Fin 2 * (dx * px + dz * pz);
          C = pow2 px + pow2 pz - pow2 m_radius;
          currT2 = solveQuadratic A B C;
          list2 =
            (if currT2 < infinity then
               (let yIntersect = v3y (getPos objSpaceRay currT2)
                in if yIntersect \<ge> - m_height / Fin 2 \<and> yIntersect \<le> m_height / Fin 2
                   then [currT2] else [])
             else [])
      in getSmallest (list1 @ list2))"

text \<open>The virtual call \<^verbatim>\<open>Primitive::getIntersectionT\<close>, dispatched on the subclass.\<close>

fun getIntersectionT :: "Shape \<Rightarrow> Ray \<Rightarrow> fl" where
  "getIntersectionT (Sphere radius) r = Sphere_getIntersectionT radius r"
| "getIntersectionT (Cone baseRadius height) r = Cone_getIntersectionT baseRadius height r"
| "getIntersectionT (Cube sideLength) r = Cube_getIntersectionT sideLength r"
| "getIntersectionT (Cylinder height radius) r = Cylinder_getIntersectionT height radius r"

section \<open>More scalar operations\<close>

text \<open>The comparison \<^verbatim>\<open>==\<close> on floats: a NaN equals nothing.\<close>

fun feq :: "fl \<Rightarrow> fl \<Rightarrow> bool" where
  "feq NaN _ = False"
| "feq _ NaN = False"
| "feq a b = (a = b)"

text \<open>
  The library functions \<^verbatim>\<open>acos\<close>, \<^verbatim>\<open>asinf\<close>, \<^verbatim>\<open>tan\<close>, \<^verbatim>\<open>atan2\<close>, \<^verbatim>\<open>floor\<close> and
  \<^verbatim>\<open>std::pow\<close>: the real function on finite arguments of the domain, and the results
  the C standard fixes for the other arguments.
\<close>

fun facos :: "fl \<Rightarrow> fl" where
  "facos (Fin a) = (if - 1 \<le> a \<and> a \<le> 1 then Fin (arccos a) else NaN)"
| "facos _ = NaN"

fun fasin :: "fl \<Rightarrow> fl" where
  "fasin (Fin a) = (if - 1 \<le> a \<and> a \<le> 1 then Fin (arcsin a) else NaN)"
| "fasin _ = NaN"

fun ftan :: "fl \<Rightarrow> fl" where
  "ftan (Fin a) = Fin (tan a)"
| "ftan _ = NaN"

fun ffloor :: "fl \<Rightarrow> fl" where
  "ffloor (Fin a) = Fin (of_int \<lfloor>a\<rfloor>)"
| "ffloor x = x"

definition atan2_real :: "real \<Rightarrow> real \<Rightarrow> real" where
  "atan2_real y x =
     (if 0 < x then arctan (y / x)
      else if x < 0 then (if 0 \<le> y then arctan (y / x) + pi else arctan (y / x) - pi)
      else if 0 < y then pi / 2
      else if y < 0 then - (pi / 2)
      else 0)"

fun fatan2 :: "fl \<Rightarrow> fl \<Rightarrow> fl" where
  "fatan2 (Fin y) (Fin x) = Fin (atan2_real y x)"
| "fatan2 NaN _ = NaN"
| "fatan2 _ NaN = NaN"
| "fatan2 (Fin y) PInf = Fin 0"
| "fatan2 (Fin y) NInf = (if 0 \<le> y then Fin pi else Fin (- pi))"
| "fatan2 PInf (Fin x) = Fin (pi / 2)"
| "fatan2 NInf (Fin x) = Fin (- (pi / 2))"
| "fatan2 PInf PInf = Fin (pi / 4)"
| "fatan2 PInf NInf = Fin (3 * pi / 4)"
| "fatan2 NInf PInf = Fin (- (pi / 4))"
| "fatan2 NInf NInf = Fin (- (3 * pi / 4))"

definition is_int :: "real \<Rightarrow> bool" where
  "is_int y = (of_int \<lfloor>y\<rfloor> = y)"

definition is_odd_int :: "real \<Rightarrow> bool" where
  "is_odd_int y = (is_int y \<and> odd \<lfloor>y\<rfloor>)"

fun fpow :: "fl \<Rightarrow> fl \<Rightarrow> fl" where
  "fpow (Fin x) (Fin y) =
     (if y = 0 \<or> x = 1 then Fin 1
      else if x = 0 then (if 0 < y then Fin 0 else PInf)
      else if 0 < x then Fin (x powr y)
      else if is_odd_int y then Fin (- (\<bar>x\<bar> powr y))
      else if is_int y then Fin (\<bar>x\<bar> powr y)
      else NaN)"
| "fpow NaN (Fin y) = (if y = 0 then Fin 1 else NaN)"
| "fpow (Fin x) NaN = (if x = 1 then Fin 1 else NaN)"
| "fpow (Fin x) PInf =
     (if \<bar>x\<bar> = 1 then Fin 1 else if \<bar>x\<bar> < 1 then Fin 0 else PInf)"
| "fpow (Fin x) NInf =
     (if \<bar>x\<bar> = 1 then Fin 1 else if x = 0 then PInf
      else if \<bar>x\<bar> < 1 then PInf else Fin 0)"
| "fpow PInf (Fin y) = (if y = 0 then Fin 1 else if 0 < y then PInf else Fin 0)"
| "fpow NInf (Fin y) =
     (if y = 0 then Fin 1
      else if 0 < y then (if is_odd_int y then NInf else PInf)
      else Fin 0)"
| "fpow PInf PInf = PInf"
| "fpow PInf NInf = Fin 0"
| "fpow NInf PInf = PInf"
| "fpow NInf NInf = Fin 0"
| "fpow NaN _ = NaN"
| "fpow _ NaN = NaN"

text \<open>\<^verbatim>\<open>std::clamp(v, lo, hi)\<close> is \<^verbatim>\<open>(v < lo) ? lo : (hi < v) ? hi : v\<close>.\<close>

definition std_clamp :: "fl \<Rightarrow> fl \<Rightarrow> fl \<Rightarrow> fl" where
  "std_clamp v lo hi = (if v < lo then lo else if hi < v then hi else v)"

text \<open>
  \<^verbatim>\<open>glm::min(x, y)\<close> is \<^verbatim>\<open>(y < x) ? y : x\<close>, \<^verbatim>\<open>glm::max(x, y)\<close> is
  \<^verbatim>\<open>(x < y) ? y : x\<close>, and \<^verbatim>\<open>glm::clamp(x, lo, hi)\<close> is \<^verbatim>\<open>min(max(x, lo), hi)\<close>.
\<close>

definition glm_clamp :: "fl \<Rightarrow> fl \<Rightarrow> fl \<Rightarrow> fl" where
  "glm_clamp x lo hi = std_min (std_max x lo) hi"

section \<open>More vectors, and matrices\<close>

text \<open>
  The glm library is not among the repository's sources. Its functions are modelled by
  the formulas of the library: \<^verbatim>\<open>dot\<close>, \<^verbatim>\<open>length = sqrt(dot(v, v))\<close>,
  \<^verbatim>\<open>normalize(v) = v * (1 / sqrt(dot(v, v)))\<close>, \<^verbatim>\<open>reflect(I, N) = I - N * dot(N, I) * 2\<close>,
  \<^verbatim>\<open>cross\<close>, and the inverses by cofactors scaled with the reciprocal determinant.
  Matrices are stored by columns, as glm does.
\<close>

fun v2x :: "vec2 \<Rightarrow> fl" where "v2x (Vec2 x y) = x"
fun v2y :: "vec2 \<Rightarrow> fl" where "v2y (Vec2 x y) = y"

fun v4x :: "vec4 \<Rightarrow> fl" where "v4x (Vec4 x y z w) = x"
fun v4y :: "vec4 \<Rightarrow> fl" where "v4y (Vec4 x y z w) = y"
fun v4z :: "vec4 \<Rightarrow> fl" where "v4z (Vec4 x y z w) = z"
fun v4w :: "vec4 \<Rightarrow> fl" where "v4w (Vec4 x y z w) = w"

text \<open>The conversions \<^verbatim>\<open>vec3(v4)\<close> and \<^verbatim>\<open>vec4(v3, w)\<close>.\<close>

fun vec3_of :: "vec4 \<Rightarrow> vec3" where
  "vec3_of (Vec4 x y z w) = Vec3 x y z"

fun vec4_of :: "vec3 \<Rightarrow> fl \<Rightarrow> vec4" where
  "vec4_of (Vec3 x y z) w = Vec4 x y z w"

fun v2add_scalar :: "vec2 \<Rightarrow> fl \<Rightarrow> vec2" where
  "v2add_scalar (Vec2 x y) s = Vec2 (x + s) (y + s)"

fun v2div_scalar :: "vec2 \<Rightarrow> fl \<Rightarrow> vec2" where
  "v2div_scalar (Vec2 x y) s = Vec2 (x / s) (y / s)"

fun v2clamp :: "vec2 \<Rightarrow> fl \<Rightarrow> fl \<Rightarrow> vec2" where
  "v2clamp (Vec2 x y) lo hi = Vec2 (glm_clamp x lo hi) (glm_clamp y lo hi)"

fun v3dot :: "vec3 \<Rightarrow> vec3 \<Rightarrow> fl" where
  "v3dot (Vec3 a b c) (Vec3 x y z) = a * x + b * y + c * z"

definition v3length :: "vec3 \<Rightarrow> fl" where
  "v3length v = fsqrt (v3dot v v)"

definition v3normalize :: "vec3 \<Rightarrow> vec3" where
  "v3normalize v = v3scale (Fin 1 / fsqrt (v3dot v v)) v"

definition v3reflect :: "vec3 \<Rightarrow> vec3 \<Rightarrow> vec3" where
  "v3reflect I N = v3sub I (v3scale (v3dot N I * Fin 2) N)"

fun v3cross :: "vec3 \<Rightarrow> vec3 \<Rightarrow> vec3" where
  "v3cross (Vec3 a b c) (Vec3 x y z) =
     Vec3 (b * z - y * c) (c * x - z * a) (a * y - x * b)"

fun v4add :: "vec4 \<Rightarrow> vec4 \<Rightarrow> vec4" where
  "v4add (Vec4 a b c d) (Vec4 x y z w) = Vec4 (a + x) (b + y) (c + z) (d + w)"

fun v4sub :: "vec4 \<Rightarrow> vec4 \<Rightarrow> vec4" where
  "v4sub (Vec4 a b c d) (Vec4 x y z w) = Vec4 (a - x) (b - y) (c - z) (d - w)"

fun v4neg :: "vec4 \<Rightarrow> vec4" where
  "v4neg (Vec4 x y z w) = Vec4 (- x) (- y) (- z) (- w)"

fun v4scale :: "fl \<Rightarrow> vec4 \<Rightarrow> vec4" where
  "v4scale s (Vec4 x y z w) = Vec4 (s * x) (s * y) (s * z) (s * w)"

fun v4mul :: "vec4 \<Rightarrow> vec4 \<Rightarrow> vec4" where
  "v4mul (Vec4 a b c d) (Vec4 x y z w) = Vec4 (a * x) (b * y) (c * z) (d * w)"

fun v4dot :: "vec4 \<Rightarrow> vec4 \<Rightarrow> fl" where
  "v4dot (Vec4 a b c d) (Vec4 x y z w) = a * x + b * y + c * z + d * w"

definition v4normalize :: "vec4 \<Rightarrow> vec4" where
  "v4normalize v = v4scale (Fin 1 / fsqrt (v4dot v v)) v"

datatype mat3 = Mat3 vec3 vec3 vec3
datatype mat4 = Mat4 vec4 vec4 vec4 vec4

fun m3mulv :: "mat3 \<Rightarrow> vec3 \<Rightarrow> vec3" where
  "m3mulv (Mat3 c0 c1 c2) (Vec3 x y z) =
     v3add (v3add (v3scale x c0) (v3scale y c1)) (v3scale z c2)"

fun m4mulv :: "mat4 \<Rightarrow> vec4 \<Rightarrow> vec4" where
  "m4mulv (Mat4 c0 c1 c2 c3) (Vec4 x y z w) =
     v4add (v4add (v4scale x c0) (v4scale y c1)) (v4add (v4scale z c2) (v4scale w c3))"

fun m3transpose :: "mat3 \<Rightarrow> mat3" where
  "m3transpose (Mat3 (Vec3 a0 a1 a2) (Vec3 b0 b1 b2) (Vec3 c0 c1 c2)) =
     Mat3 (Vec3 a0 b0 c0) (Vec3 a1 b1 c1) (Vec3 a2 b2 c2)"

text \<open>The upper left 3x3 block, built in the constructor from the first three columns.\<close>

fun mat3_of :: "mat4 \<Rightarrow> mat3" where
  "mat3_of (Mat4 c0 c1 c2 c3) = Mat3 (vec3_of c0) (vec3_of c1) (vec3_of c2)"

text \<open>\<^verbatim>\<open>glm::inverse\<close> of a 3x3 matrix; \<open>mij\<close> is row \<open>j\<close> of column \<open>i\<close>.\<close>

definition m3inverse :: "mat3 \<Rightarrow> mat3" where
  "m3inverse m =
     (case m of Mat3 (Vec3 m00 m01 m02) (Vec3 m10 m11 m12) (Vec3 m20 m21 m22) \<Rightarrow>
      let OneOverDeterminant = Fin 1 /
            (m00 * (m11 * m22 - m21 * m12)
             - m10 * (m01 * m22 - m21 * m02)
             + m20 * (m01 * m12 - m11 * m02))
      in Mat3
           (Vec3 ((m11 * m22 - m21 * m12) * OneOverDeterminant)
                 (- (m01 * m22 - m21 * m02) * OneOverDeterminant)
                 ((m01 * m12 - m11 * m02) * OneOverDeterminant))
           (Vec3 (- (m10 * m22 - m20 * m12) * OneOverDeterminant)
                 ((m00 * m22 - m20 * m02) * OneOverDeterminant)
                 (- (m00 * m12 - m10 * m02) * OneOverDeterminant))
           (Vec3 ((m10 * m21 - m20 * m11) * OneOverDeterminant)
                 (- (m00 * m21 - m20 * m01) * OneOverDeterminant)
                 ((m00 * m11 - m10 * m01) * OneOverDeterminant)))"

text \<open>
  \<^verbatim>\<open>glm::inverse\<close> of a 4x4 matrix: the eighteen 2x2 minors, the four cofactor
  columns with alternating signs, the determinant as the product of the first column
  with the first row of cofactors, and the scaling by its reciprocal.
\<close>

definition m4cofactors :: "mat4 \<Rightarrow> mat4" where
  "m4cofactors m =
     (case m of Mat4 (Vec4 m00 m01 m02 m03) (Vec4 m10 m11 m12 m13)
                     (Vec4 m20 m21 m22 m23) (Vec4 m30 m31 m32 m33) \<Rightarrow>
      let Coef00 = m22 * m33 - m32 * m23;
          Coef02 = m12 * m33 - m32 * m13;
          Coef03 = m12 * m23 - m22 * m13;
          Coef04 = m21 * m33 - m31 * m23;
          Coef06 = m11 * m33 - m31 * m13;
          Coef07 = m11 * m23 - m21 * m13;
          Coef08 = m21 * m32 - m31 * m22;
          Coef10 = m11 * m32 - m31 * m12;
          Coef11 = m11 * m22 - m21 * m12;
          Coef12 = m20 * m33 - m30 * m23;
          Coef14 = m10 * m33 - m30 * m13;
          Coef15 = m10 * m23 - m20 * m13;
          Coef16 = m20 * m32 - m30 * m22;
          Coef18 = m10 * m32 - m30 * m12;
          Coef19 = m10 * m22 - m20 * m12;
          Coef20 = m20 * m31 - m30 * m21;
          Coef22 = m10 * m31 - m30 * m11;
          Coef23 = m10 * m21 - m20 * m11;
          Fac0 = Vec4 Coef00 Coef00 Coef02 Coef03;
          Fac1 = Vec4 Coef04 Coef04 Coef06 Coef07;
          Fac2 = Vec4 Coef08 Coef08 Coef10 Coef11;
          Fac3 = Vec4 Coef12 Coef12 Coef14 Coef15;
          Fac4 = Vec4 Coef16 Coef16 Coef18 Coef19;
          Fac5 = Vec4 Coef20 Coef20 Coef22 Coef23;
          Vec0 = Vec4 m10 m00 m00 m00;
          Vec1 = Vec4 m11 m01 m01 m01;
          Vec2 = Vec4 m12 m02 m02 m02;
          Vec3 = Vec4 m13 m03 m03 m03;
          Inv0 = v4add (v4sub (v4mul Vec1 Fac0) (v4mul Vec2 Fac1)) (v4mul Vec3 Fac2);
          Inv1 = v4add (v4sub (v4mul Vec0 Fac0) (v4mul Vec2 Fac3)) (v4mul Vec3 Fac4);
          Inv2 = v4add (v4sub (v4mul Vec0 Fac1) (v4mul Vec1 Fac3)) (v4mul Vec3 Fac5);
          Inv3 = v4add (v4sub (v4mul Vec0 Fac2) (v4mul Vec1 Fac4)) (v4mul Vec2 Fac5);
          SignA = Vec4 (Fin 1) (Fin (- 1)) (Fin 1) (Fin (- 1));
          SignB = Vec4 (Fin (- 1)) (Fin 1) (Fin (- 1)) (Fin 1)
      in Mat4 (v4mul Inv0 SignA) (v4mul Inv1 SignB) (v4mul Inv2 SignA) (v4mul Inv3 SignB))"

definition m4determinant :: "mat4 \<Rightarrow> fl" where
  "m4determinant m =
     (case m of Mat4 c0 c1 c2 c3 \<Rightarrow>
      case m4cofactors m of Mat4 i0 i1 i2 i3 \<Rightarrow>
      case v4mul c0 (Vec4 (v4x i0) (v4x i1) (v4x i2) (v4x i3)) of
        Vec4 dx dy dz dw \<Rightarrow> (dx + dy) + (dz + dw))"

fun m4scale :: "mat4 \<Rightarrow> fl \<Rightarrow> mat4" where
  "m4scale (Mat4 c0 c1 c2 c3) s =
     Mat4 (v4scale s c0) (v4scale s c1) (v4scale s c2) (v4scale s c3)"

definition m4inverse :: "mat4 \<Rightarrow> mat4" where
  "m4inverse m = m4scale (m4cofactors m) (Fin 1 / m4determinant m)"

section \<open>Scene data\<close>

text \<open>
  The header \<^verbatim>\<open>scenedata.h\<close> is not among the repository's sources. The records below
  carry the fields that the code reads, under the names it reads them by; the fields of
  the light and camera descriptions carry a prefix, as several structs share
  \<^verbatim>\<open>pos\<close> and \<^verbatim>\<open>type\<close>. A \<^verbatim>\<open>SceneColor\<close> is a \<^verbatim>\<open>glm::vec4\<close>. The repeat counts of a
  texture map are the integers that \<^verbatim>\<open>getTextureColorAtUV\<close> receives.
\<close>

type_synonym SceneColor = vec4

datatype LightType = LIGHT_POINT | LIGHT_DIRECTIONAL | LIGHT_SPOT

datatype PrimitiveType =
  PRIMITIVE_SPHERE | PRIMITIVE_CONE | PRIMITIVE_CUBE | PRIMITIVE_CYLINDER

record SceneFileMap =
  isUsed :: bool
  filename :: string
  repeatU :: int
  repeatV :: int

record SceneMaterial =
  cAmbient :: SceneColor
  cDiffuse :: SceneColor
  cSpecular :: SceneColor
  cReflective :: SceneColor
  shininess :: fl
  blend :: fl
  textureMap :: SceneFileMap

record ScenePrimitive =
  prim_type :: PrimitiveType
  material :: SceneMaterial

record RenderShapeData =
  primitive :: ScenePrimitive
  ctm :: mat4

record SceneLightData =
  l_type :: LightType
  l_color :: SceneColor
  l_function :: vec3
  l_pos :: vec4
  l_dir :: vec4
  l_penumbra :: fl
  l_angle :: fl

record SceneGlobalData =
  ka :: fl
  kd :: fl
  ks :: fl

record SceneCameraData =
  cam_pos :: vec4
  cam_look :: vec4
  cam_up :: vec4
  cam_heightAngle :: fl
  cam_aperture :: fl
  cam_focalLength :: fl

section \<open>Colours\<close>

text \<open>The struct \<^verbatim>\<open>RGBA\<close> of four bytes; \<^verbatim>\<open>a\<close> defaults to 255.\<close>

record RGBA =
  r8 :: "8 word"
  g8 :: "8 word"
  b8 :: "8 word"
  a8 :: "8 word"

text \<open>
  What the C++ standard leaves undefined is a fault of the model: the read of a local
  variable that was never assigned, an integer remainder by zero, the conversion of a
  float outside the target's range (or of a NaN) to an integer, and an index outside
  its array.
\<close>

datatype fault = UninitializedRead | DivisionByZero | FloatToIntUndefined | IndexOutOfRange

definition truncate_real :: "real \<Rightarrow> int" where
  "truncate_real a = (if 0 \<le> a then \<lfloor>a\<rfloor> else \<lceil>a\<rceil>)"

text \<open>The conversions of a float to \<^verbatim>\<open>uint8_t\<close> and to \<^verbatim>\<open>int\<close> (32 bits).\<close>

definition to_uint8 :: "fl \<Rightarrow> fault + 8 word" where
  "to_uint8 x =
     (case x of
        Fin a \<Rightarrow> (if - 1 < a \<and> a < 256 then Inr (word_of_int (truncate_real a))
                  else Inl FloatToIntUndefined)
      | _ \<Rightarrow> Inl FloatToIntUndefined)"

definition to_int :: "fl \<Rightarrow> fault + int" where
  "to_int x =
     (case x of
        Fin a \<Rightarrow> (if - 2147483649 < a \<and> a < 2147483648 then Inr (truncate_real a)
                  else Inl FloatToIntUndefined)
      | _ \<Rightarrow> Inl FloatToIntUndefined)"

definition toRGBA :: "vec4 \<Rightarrow> fault + RGBA" where
  "toRGBA illumination =
     (case to_uint8 (Fin 255 * std_clamp (v4x illumination) (Fin 0) (Fin 1)) of
        Inl e \<Rightarrow> Inl e
      | Inr r \<Rightarrow>
     (case to_uint8 (Fin 255 * std_clamp (v4y illumination) (Fin 0) (Fin 1)) of
        Inl e \<Rightarrow> Inl e
      | Inr g \<Rightarrow>
     (case to_uint8 (Fin 255 * std_clamp (v4z illumination) (Fin 0) (Fin 1)) of
        Inl e \<Rightarrow> Inl e
      | Inr b \<Rightarrow> Inr \<lparr> r8 = r, g8 = g, b8 = b, a8 = 255 \<rparr>)))"

definition RGBAtoSceneColor :: "RGBA \<Rightarrow> SceneColor" where
  "RGBAtoSceneColor c =
     Vec4 (Fin (real (unat (r8 c))) / Fin 255)
          (Fin (real (unat (g8 c))) / Fin 255)
          (Fin (real (unat (b8 c))) / Fin 255)
          (Fin (real (unat (a8 c))) / Fin 255)"

section \<open>Texture\<close>

record Texture =
  m_imgData :: "RGBA list"
  m_width :: int
  m_height :: int
  m_filename :: string

text \<open>The defaulted constructor \<^verbatim>\<open>Texture()\<close>: no pixels, width and height 0.\<close>

definition Texture_default :: Texture where
  "Texture_default = \<lparr> m_imgData = [], m_width = 0, m_height = 0, m_filename = [] \<rparr>"

text \<open>The remainder \<^verbatim>\<open>%\<close> of C++ truncates towards zero; by zero it is undefined.\<close>

definition c_rem :: "int \<Rightarrow> int \<Rightarrow> fault + int" where
  "c_rem x y = (if y = 0 then Inl DivisionByZero else Inr (sgn x * (\<bar>x\<bar> mod \<bar>y\<bar>)))"

definition UVtoImgCoord :: "Texture \<Rightarrow> vec2 \<Rightarrow> int \<Rightarrow> int \<Rightarrow> fault + int \<times> int" where
  "UVtoImgCoord tex UV repU repV =
     (let U = v2x UV; V = v2y UV; height = m_height tex; width = m_width tex in
      case to_int (ffloor ((Fin 1 - V) * Fin (of_int repV) * Fin (of_int height))) of
        Inl e \<Rightarrow> Inl e
      | Inr fr \<Rightarrow>
      case c_rem fr height of
        Inl e \<Rightarrow> Inl e
      | Inr mr \<Rightarrow>
      case to_int (ffloor (U * Fin (of_int repU) * Fin (of_int width))) of
        Inl e \<Rightarrow> Inl e
      | Inr fc \<Rightarrow>
      case c_rem fc width of
        Inl e \<Rightarrow> Inl e
      | Inr mc \<Rightarrow> Inr (min mr (height - 1), min mc (width - 1)))"

definition getTextureColorAtUV :: "Texture \<Rightarrow> vec2 \<Rightarrow> int \<Rightarrow> int \<Rightarrow> fault + RGBA" where
  "getTextureColorAtUV tex UV repU repV =
     (case UVtoImgCoord tex UV repU repV of
        Inl e \<Rightarrow> Inl e
      | Inr (row, col) \<Rightarrow>
          (let i = row * m_width tex + col in
           if 0 \<le> i \<and> i < int (length (m_imgData tex))
           then Inr (m_imgData tex ! nat i) else Inl IndexOutOfRange))"

section \<open>Primitive\<close>

record Primitive =
  m_CTM :: mat4
  m_inverseCTM :: mat4
  m_objToWorldNormalTransformation :: mat3
  m_primitiveInfo :: ScenePrimitive
  m_texture :: Texture
  m_textureInfo :: SceneFileMap
  shape :: Shape

text \<open>
  \<^verbatim>\<open>std::map::operator[]\<close> inserts a default-constructed value under a key that is
  not there yet, and returns the stored value.
\<close>

definition map_index :: "(string \<rightharpoonup> Texture) \<Rightarrow> string \<Rightarrow> Texture \<times> (string \<rightharpoonup> Texture)" where
  "map_index textureDictionary key =
     (case textureDictionary key of
        Some t \<Rightarrow> (t, textureDictionary)
      | None \<Rightarrow> (Texture_default, textureDictionary(key \<mapsto> Texture_default)))"

text \<open>
  The base constructor \<^verbatim>\<open>Primitive::Primitive(shapeData, textureDictionary)\<close>, run by
  the constructor of a subclass whose own fields are the \<open>Shape\<close>. The dictionary is
  passed by reference and comes back.
\<close>

definition Primitive_ctor ::
  "RenderShapeData \<Rightarrow> (string \<rightharpoonup> Texture) \<Rightarrow> Shape \<Rightarrow> Primitive \<times> (string \<rightharpoonup> Texture)" where
  "Primitive_ctor shapeData textureDictionary sh =
     (let CTM33 = mat3_of (ctm shapeData);
          (tex, dict') =
             map_index textureDictionary (filename (textureMap (material (primitive shapeData))))
      in (\<lparr> m_CTM = ctm shapeData,
            m_inverseCTM = m4inverse (ctm shapeData),
            m_objToWorldNormalTransformation = m3transpose (m3inverse CTM33),
            m_primitiveInfo = primitive shapeData,
            m_texture = tex,
            m_textureInfo = textureMap (material (primitive shapeData)),
            shape = sh \<rparr>, dict'))"

definition applyCTM :: "Primitive \<Rightarrow> vec3 \<Rightarrow> bool \<Rightarrow> vec3" where
  "applyCTM P objSpacePoint isVector =
     vec3_of (m4mulv (m_CTM P) (vec4_of objSpacePoint (if isVector then Fin 0 else Fin 1)))"

definition applyInverseCTM :: "Primitive \<Rightarrow> vec3 \<Rightarrow> bool \<Rightarrow> vec3" where
  "applyInverseCTM P worldSpacePoint isVector =
     vec3_of (m4mulv (m_inverseCTM P) (vec4_of worldSpacePoint (if isVector then Fin 0 else Fin 1)))"

definition Sphere_getObjSpaceNormal :: "vec3 \<Rightarrow> vec3" where
  "Sphere_getObjSpaceNormal objSpacePoint =
     Vec3 (Fin 2 * v3x objSpacePoint) (Fin 2 * v3y objSpacePoint) (Fin 2 * v3z objSpacePoint)"

definition Cone_getObjSpaceNormal :: "fl \<Rightarrow> vec3 \<Rightarrow> vec3" where
  "Cone_getObjSpaceNormal height objSpacePoint =
     (let px = v3x objSpacePoint; py = v3y objSpacePoint; pz = v3z objSpacePoint in
      if \<bar>py + height / Fin 2\<bar> < Fin 0.0001 then Vec3 (Fin 0) (Fin (- 1)) (Fin 0)
      else Vec3 (Fin 2 * px) (Fin 0.25 - Fin 0.5 * py) (Fin 2 * pz))"

definition Cube_getObjSpaceNormal :: "vec3 \<Rightarrow> vec3" where
  "Cube_getObjSpaceNormal objSpacePoint =
     (let px = v3x objSpacePoint; py = v3y objSpacePoint; pz = v3z objSpacePoint in
      if \<bar>px - Fin 0.5\<bar> < Fin 0.001 then Vec3 (Fin 1) (Fin 0) (Fin 0)
      else if \<bar>px + Fin 0.5\<bar> < Fin 0.0001 then Vec3 (Fin (- 1)) (Fin 0) (Fin 0)
      else if \<bar>py - Fin 0.5\<bar> < Fin 0.0001 then Vec3 (Fin 0) (Fin 1) (Fin 0)
      else if \<bar>py + Fin 0.5\<bar> < Fin 0.0001 then Vec3 (Fin 0) (Fin (- 1)) (Fin 0)
      else if \<bar>pz - Fin 0.5\<bar> < Fin 0.0001 then Vec3 (Fin 0) (Fin 0) (Fin 1)
      else Vec3 (Fin 0) (Fin 0) (Fin (- 1)))"

definition Cylinder_getObjSpaceNormal :: "vec3 \<Rightarrow> vec3" where
  "Cylinder_getObjSpaceNormal objSpacePoint =
     (let px = v3x objSpacePoint; py = v3y objSpacePoint; pz = v3z objSpacePoint in
      if \<bar>py - Fin 0.5\<bar> < Fin 0.0001 then Vec3 (Fin 0) (Fin 1) (Fin 0)
      else if \<bar>py + Fin 0.5\<bar> < Fin 0.0001 then Vec3 (Fin 0) (Fin (- 1)) (Fin 0)
      else Vec3 (Fin 2 * px) (Fin 0) (Fin 2 * pz))"

fun getObjSpaceNormal :: "Shape \<Rightarrow> vec3 \<Rightarrow> vec3" where
  "getObjSpaceNormal (Sphere radius) p = Sphere_getObjSpaceNormal p"
| "getObjSpaceNormal (Cone baseRadius height) p = Cone_getObjSpaceNormal height p"
| "getObjSpaceNormal (Cube sideLength) p = Cube_getObjSpaceNormal p"
| "getObjSpaceNormal (Cylinder height radius) p = Cylinder_getObjSpaceNormal p"

definition getWorldSpaceNormal :: "Primitive \<Rightarrow> vec3 \<Rightarrow> vec3" where
  "getWorldSpaceNormal P objSpacePoint =
     (let objSpaceNormal = getObjSpaceNormal (shape P) objSpacePoint
      in v3normalize (m3mulv (m_objToWorldNormalTransformation P) objSpaceNormal))"

definition getMaterial :: "Primitive \<Rightarrow> SceneMaterial" where
  "getMaterial P = material (m_primitiveInfo P)"

subsection \<open>Texture mapping\<close>

definition getCircleU :: "fl \<Rightarrow> fl \<Rightarrow> fl" where
  "getCircleU x y =
     (let theta = fatan2 y x in
      if theta < Fin 0 then - theta / (Fin 2 * Fin pi)
      else Fin 1 - theta / (Fin 2 * Fin pi))"

definition Sphere_XYZtoUV :: "fl \<Rightarrow> vec3 \<Rightarrow> vec2" where
  "Sphere_XYZtoUV radius XYZ =
     (let V = fasin (v3y XYZ / radius) / Fin pi + Fin 0.5;
          U = (if feq V (Fin 0) \<or> feq V (Fin 1) then Fin 0.5
               else getCircleU (v3x XYZ) (v3z XYZ))
      in Vec2 U V)"

definition Cone_XYZtoUV :: "fl \<Rightarrow> vec3 \<Rightarrow> vec2" where
  "Cone_XYZtoUV height XYZ =
     (if \<bar>v3y XYZ + height / Fin 2\<bar> < Fin 0.0001
      then v2add_scalar (Vec2 (v3x XYZ) (v3z XYZ)) (Fin 0.5)
      else (let u = (if feq (v3y XYZ) (height / Fin 2) then Fin 0.5
                     else getCircleU (v3x XYZ) (v3z XYZ))
            in Vec2 u (v3y XYZ + Fin 0.5)))"

definition Cube_XYZtoUV :: "fl \<Rightarrow> vec3 \<Rightarrow> vec2" where
  "Cube_XYZtoUV sideLength XYZ =
     (let X = v3x XYZ; Y = v3y XYZ; Z = v3z XYZ in
      if \<bar>X - Fin 0.5\<bar> < Fin 0.001
      then v2add_scalar (v2div_scalar (Vec2 (- Z) Y) sideLength) (Fin 1 / Fin 2)
      else if \<bar>X + Fin 0.5\<bar> < Fin 0.0001
      then v2add_scalar (v2div_scalar (Vec2 Z Y) sideLength) (Fin 1 / Fin 2)
      else if \<bar>Y - Fin 0.5\<bar> < Fin 0.0001
      then v2add_scalar (v2div_scalar (Vec2 X (- Z)) sideLength) (Fin 1 / Fin 2)
      else if \<bar>Y + Fin 0.5\<bar> < Fin 0.0001
      then v2add_scalar (v2div_scalar (Vec2 X Z) sideLength) (Fin 1 / Fin 2)
      else if \<bar>Z - Fin 0.5\<bar> < Fin 0.0001
      then v2add_scalar (v2div_scalar (Vec2 X Y) sideLength) (Fin 1 / Fin 2)
      else v2add_scalar (v2div_scalar (Vec2 (- X) Y) sideLength) (Fin 1 / Fin 2))"

definition Cylinder_XYZtoUV :: "vec3 \<Rightarrow> vec2" where
  "Cylinder_XYZtoUV XYZ =
     (let X = v3x XYZ; Y = v3y XYZ; Z = v3z XYZ in
      if \<bar>Y - Fin 0.5\<bar> < Fin 0.0001 then v2add_scalar (Vec2 X (- Z)) (Fin 0.5)
      else if \<bar>Y + Fin 0.5\<bar> < Fin 0.0001 then v2add_scalar (Vec2 X Z) (Fin 0.5)
      else Vec2 (getCircleU X Z) (Y + Fin 0.5))"

fun XYZtoUV :: "Shape \<Rightarrow> vec3 \<Rightarrow> vec2" where
  "XYZtoUV (Sphere radius) p = Sphere_XYZtoUV radius p"
| "XYZtoUV (Cone baseRadius height) p = Cone_XYZtoUV height p"
| "XYZtoUV (Cube sideLength) p = Cube_XYZtoUV sideLength p"
| "XYZtoUV (Cylinder height radius) p = Cylinder_XYZtoUV p"

definition getTexture :: "Primitive \<Rightarrow> vec3 \<Rightarrow> fault + SceneColor" where
  "getTexture P surfacePointObjSpace =
     (if \<not> isUsed (m_textureInfo P) then Inr (Vec4 (Fin 0) (Fin 0) (Fin 0) (Fin 1))
      else
        (let UV = v2clamp (XYZtoUV (shape P) surfacePointObjSpace) (Fin 0) (Fin 1) in
         case getTextureColorAtUV (m_texture P) UV
                (repeatU (m_textureInfo P)) (repeatV (m_textureInfo P)) of
           Inl e \<Rightarrow> Inl e
         | Inr c \<Rightarrow> Inr (RGBAtoSceneColor c)))"

section \<open>Light\<close>

record Light =
  m_lightData :: SceneLightData
  m_type :: LightType
  c1 :: fl
  c2 :: fl
  c3 :: fl

definition Light_ctor :: "SceneLightData \<Rightarrow> Light" where
  "Light_ctor lightData =
     \<lparr> m_lightData = lightData, m_type = l_type lightData,
       c1 = v3x (l_function lightData),
       c2 = v3y (l_function lightData),
       c3 = v3z (l_function lightData) \<rparr>"

definition getLightData :: "Light \<Rightarrow> SceneLightData" where
  "getLightData L = m_lightData L"

definition getType :: "Light \<Rightarrow> LightType" where
  "getType L = m_type L"

text \<open>
  The direction towards the light. The directional branch normalises the four
  components of \<^verbatim>\<open>-dir\<close> and the \<^verbatim>\<open>vec3\<close> return type drops the fourth.
\<close>

definition getDirToLight :: "Light \<Rightarrow> vec3 \<Rightarrow> vec3" where
  "getDirToLight L currPosition =
     (case m_type L of
        LIGHT_POINT \<Rightarrow> v3normalize (v3sub (vec3_of (l_pos (m_lightData L))) currPosition)
      | LIGHT_SPOT \<Rightarrow> v3normalize (v3sub (vec3_of (l_pos (m_lightData L))) currPosition)
      | LIGHT_DIRECTIONAL \<Rightarrow> vec3_of (v4normalize (v4neg (l_dir (m_lightData L)))))"

definition smoothFallOff :: "Light \<Rightarrow> fl \<Rightarrow> fl" where
  "smoothFallOff L x =
     (if m_type L \<noteq> LIGHT_SPOT then Fin 0
      else
        (let totalConeAngle = l_angle (m_lightData L);
             innerConeAngle = totalConeAngle - l_penumbra (m_lightData L);
             scaledX = (x - innerConeAngle) / (totalConeAngle - innerConeAngle)
         in Fin (- 2) * pow3 scaledX + Fin 3 * pow2 scaledX))"

text \<open>
  The angle that \<^verbatim>\<open>getColor\<close> computes for a spot light, between the direction of
  the spot and the vector from the light to the position.
\<close>

definition spotTheta :: "Light \<Rightarrow> vec3 \<Rightarrow> fl" where
  "spotTheta L currPosition =
     (let spotlightDir = v3normalize (vec3_of (l_dir (m_lightData L)));
          lightToIntersection = v3sub currPosition (vec3_of (l_pos (m_lightData L)));
          distToLight = v3length lightToIntersection
      in facos (v3dot lightToIntersection spotlightDir / distToLight))"

definition getColor :: "Light \<Rightarrow> vec3 \<Rightarrow> SceneColor" where
  "getColor L currPosition =
     (if m_type L = LIGHT_SPOT then
        (let theta = spotTheta L currPosition
         in if theta > l_angle (m_lightData L)
            then Vec4 (Fin 0) (Fin 0) (Fin 0) (Fin 1)
            else if theta \<ge> l_angle (m_lightData L) - l_penumbra (m_lightData L)
            then vec4_of (v3scale (Fin 1 - smoothFallOff L theta)
                                  (vec3_of (l_color (m_lightData L)))) (Fin 1)
            else l_color (m_lightData L))
      else l_color (m_lightData L))"

definition attenuationFn :: "Light \<Rightarrow> fl \<Rightarrow> fl" where
  "attenuationFn L distToLight =
     std_min (Fin 1) (Fin 1 / (c1 L + distToLight * c2 L + pow2 distToLight * c3 L))"

section \<open>Camera\<close>

record Camera =
  m_aspectRatio :: fl
  m_heightAngle :: fl
  m_widthAngle :: fl
  m_focalLength :: fl
  m_aperature :: fl
  m_camPos :: vec4
  m_look :: vec4
  m_up :: vec4
  m_u :: vec3
  m_v :: vec3
  m_w :: vec3

definition constructBasisVectors :: "Camera \<Rightarrow> Camera" where
  "constructBasisVectors cam =
     (let look = vec3_of (m_look cam);
          up = vec3_of (m_up cam);
          w = v3normalize (v3neg look);
          vertical = v3sub up (v3scale (v3dot up w) w);
          v = v3normalize vertical
      in cam\<lparr> m_w := w, m_v := v, m_u := v3cross v w \<rparr>)"

text \<open>
  The constructor \<^verbatim>\<open>Camera(cameraData, imgWidth, imgHeight)\<close>. The basis vectors are
  not initialised before \<^verbatim>\<open>constructBasisVectors\<close> assigns all three; the model starts
  them at zero.
\<close>

definition Camera_ctor :: "SceneCameraData \<Rightarrow> fl \<Rightarrow> fl \<Rightarrow> Camera" where
  "Camera_ctor cameraData imgWidth imgHeight =
     constructBasisVectors
       \<lparr> m_aspectRatio = imgWidth / imgHeight,
         m_heightAngle = cam_heightAngle cameraData,
         m_widthAngle = cam_heightAngle cameraData * (imgWidth / imgHeight),
         m_focalLength = cam_focalLength cameraData,
         m_aperature = cam_aperture cameraData,
         m_camPos = cam_pos cameraData,
         m_look = cam_look cameraData,
         m_up = cam_up cameraData,
         m_u = Vec3 (Fin 0) (Fin 0) (Fin 0),
         m_v = Vec3 (Fin 0) (Fin 0) (Fin 0),
         m_w = Vec3 (Fin 0) (Fin 0) (Fin 0) \<rparr>"

definition getCameraMatrix :: "Camera \<Rightarrow> mat4" where
  "getCameraMatrix cam =
     Mat4 (vec4_of (m_u cam) (Fin 0)) (vec4_of (m_v cam) (Fin 0))
          (vec4_of (m_w cam) (Fin 0)) (m_camPos cam)"

definition getHeightAngle :: "Camera \<Rightarrow> fl" where
  "getHeightAngle cam = m_heightAngle cam"

definition getWidthAngle :: "Camera \<Rightarrow> fl" where
  "getWidthAngle cam = m_widthAngle cam"

definition Camera_getPos :: "Camera \<Rightarrow> vec3" where
  "Camera_getPos cam = vec3_of (m_camPos cam)"

section \<open>The scene\<close>

text \<open>
  The struct \<^verbatim>\<open>RenderData\<close> of the parser, with the fields \<^verbatim>\<open>globalData\<close>,
  \<^verbatim>\<open>cameraData\<close>, \<^verbatim>\<open>lights\<close> and \<^verbatim>\<open>shapes\<close>.
\<close>

record RenderData =
  rd_globalData :: SceneGlobalData
  rd_cameraData :: SceneCameraData
  rd_lights :: "SceneLightData list"
  rd_shapes :: "RenderShapeData list"

record RayTraceScene =
  m_imgWidth :: int
  m_imgHeight :: int
  m_renderData :: RenderData
  m_camera :: Camera
  m_primitiveList :: "Primitive list"
  m_lights :: "Light list"
  m_textureDictionary :: "string \<rightharpoonup> Texture"

text \<open>
  The constructor \<^verbatim>\<open>RayTraceScene(width, height, metaData)\<close>. Loading an image file
  into a \<^verbatim>\<open>Texture\<close> is input, so the loader \<open>load\<close> is a parameter. The second loop
  builds one primitive per shape, in the order of the shapes.
\<close>

fun buildTextures ::
  "(string \<Rightarrow> Texture) \<Rightarrow> RenderShapeData list \<Rightarrow> (string \<rightharpoonup> Texture) \<Rightarrow> (string \<rightharpoonup> Texture)" where
  "buildTextures load [] dict = dict"
| "buildTextures load (shapeData # rest) dict =
     buildTextures load rest
       (if isUsed (textureMap (material (primitive shapeData)))
           \<and> dict (filename (textureMap (material (primitive shapeData)))) = None
        then dict(filename (textureMap (material (primitive shapeData)))
                    \<mapsto> load (filename (textureMap (material (primitive shapeData)))))
        else dict)"

definition makePrimitive ::
  "RenderShapeData \<Rightarrow> (string \<rightharpoonup> Texture) \<Rightarrow> Primitive \<times> (string \<rightharpoonup> Texture)" where
  "makePrimitive shapeData dict =
     (case prim_type (primitive shapeData) of
        PRIMITIVE_SPHERE \<Rightarrow> Primitive_ctor shapeData dict (Sphere (Fin 0.5))
      | PRIMITIVE_CONE \<Rightarrow> Primitive_ctor shapeData dict (Cone (Fin 0.5) (Fin 1))
      | PRIMITIVE_CUBE \<Rightarrow> Primitive_ctor shapeData dict (Cube (Fin 1))
      | PRIMITIVE_CYLINDER \<Rightarrow> Primitive_ctor shapeData dict (Cylinder (Fin 1) (Fin 0.5)))"

fun buildPrimitives ::
  "RenderShapeData list \<Rightarrow> Primitive list \<Rightarrow> (string \<rightharpoonup> Texture)
     \<Rightarrow> Primitive list \<times> (string \<rightharpoonup> Texture)" where
  "buildPrimitives [] acc dict = (acc, dict)"
| "buildPrimitives (shapeData # rest) acc dict =
     (case makePrimitive shapeData dict of
        (P, dict') \<Rightarrow> buildPrimitives rest (acc @ [P]) dict')"

definition RayTraceScene_ctor ::
  "(string \<Rightarrow> Texture) \<Rightarrow> int \<Rightarrow> int \<Rightarrow> RenderData \<Rightarrow> RayTraceScene" where
  "RayTraceScene_ctor load w h metaData =
     (case buildPrimitives (rd_shapes metaData) []
             (buildTextures load (rd_shapes metaData) Map.empty) of
        (prims, dict) \<Rightarrow>
          \<lparr> m_imgWidth = w, m_imgHeight = h, m_renderData = metaData,
            m_camera = Camera_ctor (rd_cameraData metaData) (Fin (of_int w)) (Fin (of_int h)),
            m_primitiveList = prims,
            m_lights = map Light_ctor (rd_lights metaData),
            m_textureDictionary = dict \<rparr>)"

definition RayTraceScene_width :: "RayTraceScene \<Rightarrow> int" where
  "RayTraceScene_width scene = m_imgWidth scene"

definition RayTraceScene_height :: "RayTraceScene \<Rightarrow> int" where
  "RayTraceScene_height scene = m_imgHeight scene"

definition getGlobalData :: "RayTraceScene \<Rightarrow> SceneGlobalData" where
  "getGlobalData scene = rd_globalData (m_renderData scene)"

definition getCamera :: "RayTraceScene \<Rightarrow> Camera" where
  "getCamera scene = m_camera scene"

definition getPrimitives :: "RayTraceScene \<Rightarrow> Primitive list" where
  "getPrimitives scene = m_primitiveList scene"

definition getLights :: "RayTraceScene \<Rightarrow> Light list" where
  "getLights scene = m_lights scene"

section \<open>RayTracer\<close>

record Config =
  enableShadow :: bool
  enableReflection :: bool
  enableRefraction :: bool
  enableTextureMap :: bool
  enableTextureFilter :: bool
  enableParallelism :: bool
  enableSuperSample :: bool
  enableAcceleration :: bool
  enableDepthOfField :: bool

record RayTracer =
  m_config :: Config
  m_primitives :: "Primitive list"
  m_globalData :: SceneGlobalData
  m_maxRecursionDepth :: int

text \<open>
  The constructor stores the configuration. \<^verbatim>\<open>m_globalData\<close> has no initialiser; its
  first content \<open>gd0\<close> is a parameter, and \<open>render\<close> overwrites it before any use.
\<close>

definition RayTracer_ctor :: "Config \<Rightarrow> SceneGlobalData \<Rightarrow> RayTracer" where
  "RayTracer_ctor config gd0 =
     \<lparr> m_config = config, m_primitives = [], m_globalData = gd0, m_maxRecursionDepth = 4 \<rparr>"

definition getViewPlaneCoords :: "int \<Rightarrow> int \<Rightarrow> fl \<Rightarrow> RayTraceScene \<Rightarrow> vec3" where
  "getViewPlaneCoords row col k scene =
     (let camera = getCamera scene;
          viewplaneWidth = Fin 2 * k * ftan (getWidthAngle camera / Fin 2);
          viewplaneHeight = Fin 2 * k * ftan (getHeightAngle camera / Fin 2);
          xNormalized = (Fin (of_int col) + Fin 0.5) / Fin (of_int (RayTraceScene_width scene))
                          - Fin 0.5;
          yNormalized = (Fin (of_int (RayTraceScene_height scene)) - Fin (of_int row) - Fin 0.5)
                          / Fin (of_int (RayTraceScene_height scene)) - Fin 0.5
      in Vec3 (xNormalized * viewplaneWidth) (yNormalized * viewplaneHeight) (- k))"

subsection \<open>The nearest-hit scan of traceRay\<close>

text \<open>
  The loop of \<^verbatim>\<open>traceRay\<close> over the primitives. Its state is the world-space ray,
  passed by reference, and the two locals \<^verbatim>\<open>intersectedPrimitiveIdx\<close> and
  \<^verbatim>\<open>objSpaceIntersection\<close>, which are declared without a value: \<open>None\<close> until the
  loop assigns them.
\<close>

type_synonym scan_state = "Ray \<times> nat option \<times> vec3 option"

text \<open>
  The object-space ray built for one primitive, and the parameter its shape returns;
  neither reads the \<^verbatim>\<open>tHit\<close> of the world-space ray.
\<close>

definition objSpaceRayOf :: "Primitive \<Rightarrow> Ray \<Rightarrow> Ray" where
  "objSpaceRayOf currPrimitive worldSpaceRay =
     Ray_ctor (applyInverseCTM currPrimitive (getDir worldSpaceRay) True)
              (applyInverseCTM currPrimitive (getOrigin worldSpaceRay) False)"

definition currTOf :: "Primitive \<Rightarrow> Ray \<Rightarrow> fl" where
  "currTOf currPrimitive worldSpaceRay =
     getIntersectionT (shape currPrimitive) (objSpaceRayOf currPrimitive worldSpaceRay)"

definition scanStep :: "Primitive \<Rightarrow> nat \<Rightarrow> scan_state \<Rightarrow> scan_state" where
  "scanStep currPrimitive i st =
     (case st of (worldSpaceRay, intersectedPrimitiveIdx, objSpaceIntersection) \<Rightarrow>
      let objSpaceRay = objSpaceRayOf currPrimitive worldSpaceRay;
          currT = currTOf currPrimitive worldSpaceRay
      in if currT > Fin 0 \<and> currT < Ray_getIntersectionT worldSpaceRay
         then (setIntersectionT worldSpaceRay currT, Some i, Some (getPos objSpaceRay currT))
         else (worldSpaceRay, intersectedPrimitiveIdx, objSpaceIntersection))"

fun scanPrimitives :: "Primitive list \<Rightarrow> nat \<Rightarrow> scan_state \<Rightarrow> scan_state" where
  "scanPrimitives [] i st = st"
| "scanPrimitives (currPrimitive # rest) i st =
     scanPrimitives rest (Suc i) (scanStep currPrimitive i st)"

subsection \<open>Shading\<close>

text \<open>
  A ghost record counts calls while a result is computed: the calls of \<^verbatim>\<open>phong\<close>, the
  reflection rays and the shadow rays handed to \<^verbatim>\<open>traceRay\<close>. It is not data of the
  program; it is what the claims about calls are stated on.
\<close>

record Calls =
  phongCalls :: nat
  reflectionRays :: nat
  shadowRays :: nat

definition noCalls :: Calls where
  "noCalls = \<lparr> phongCalls = 0, reflectionRays = 0, shadowRays = 0 \<rparr>"

definition addCalls :: "Calls \<Rightarrow> Calls \<Rightarrow> Calls" where
  "addCalls x y =
     \<lparr> phongCalls = phongCalls x + phongCalls y,
       reflectionRays = reflectionRays x + reflectionRays y,
       shadowRays = shadowRays x + shadowRays y \<rparr>"

definition black :: RGBA where
  "black = \<lparr> r8 = 0, g8 = 0, b8 = 0, a8 = 255 \<rparr>"

text \<open>The body of the loop over the lights, up to the shadow ray.\<close>

definition distToLightOf :: "Light \<Rightarrow> vec3 \<Rightarrow> fl" where
  "distToLightOf light intersectionPosition =
     (if getType light = LIGHT_DIRECTIONAL then infinity
      else v3length (v3sub (vec3_of (l_pos (getLightData light))) intersectionPosition))"

definition shadowRayOf :: "Light \<Rightarrow> vec3 \<Rightarrow> Ray" where
  "shadowRayOf light intersectionPosition =
     (let directionToLight = getDirToLight light intersectionPosition;
          shadowRayOrigin = v3add intersectionPosition (v3scale (Fin 0.001) directionToLight)
      in Ray_ctor directionToLight shadowRayOrigin)"

text \<open>
  The rest of the loop body, after \<^verbatim>\<open>traceRay\<close> has stored the nearest hit in the
  shadow ray: \<^verbatim>\<open>continue\<close> when the light is occluded, otherwise the diffuse and the
  specular term.
\<close>

definition lightContribution ::
  "Light \<Rightarrow> Ray \<Rightarrow> vec3 \<Rightarrow> vec3 \<Rightarrow> vec3 \<Rightarrow> SceneMaterial \<Rightarrow> SceneColor \<Rightarrow> SceneGlobalData
     \<Rightarrow> vec4 \<Rightarrow> vec4" where
  "lightContribution light shadowRayWorldSpace intersectionPosition normal directionToCamera
       mat textureColor gd totalIllumination =
     (let directionToLight = getDirToLight light intersectionPosition;
          distToLight = distToLightOf light intersectionPosition;
          f_att = (if getType light = LIGHT_DIRECTIONAL then Fin 1
                   else attenuationFn light distToLight)
      in if Ray_getIntersectionT shadowRayWorldSpace < distToLight then totalIllumination
         else
           (let NdotL = v3dot normal directionToLight in
            if NdotL > Fin 0 then
              (let lightColor = getColor light intersectionPosition;
                   diffuseColor = v4add (v4scale (blend mat) textureColor)
                                    (v4scale (Fin 1 - blend mat) (v4scale (kd gd) (cDiffuse mat)));
                   total1 = v4add totalIllumination
                              (v4scale NdotL (v4scale f_att (v4mul lightColor diffuseColor)));
                   reflectedLightDirection = v3reflect (v3neg directionToLight) normal;
                   RdotV = std_max (Fin 0) (v3dot reflectedLightDirection directionToCamera)
               in v4add total1
                    (v4scale (fpow RdotV (shininess mat))
                       (v4scale f_att (v4mul (v4scale (ks gd) lightColor) (cSpecular mat)))))
            else totalIllumination))"

definition reflectionRayOf :: "vec3 \<Rightarrow> vec3 \<Rightarrow> vec3 \<Rightarrow> Ray" where
  "reflectionRayOf intersectionPosition normal directionToCamera =
     (let reflectedViewDirection = v3reflect (v3neg directionToCamera) normal
      in Ray_ctor reflectedViewDirection
           (v3add intersectionPosition (v3scale (Fin 0.0001) reflectedViewDirection)))"

definition addReflection :: "SceneGlobalData \<Rightarrow> SceneMaterial \<Rightarrow> RGBA \<Rightarrow> vec4 \<Rightarrow> vec4" where
  "addReflection gd mat reflected totalIllumination =
     v4add totalIllumination
       (v4mul (v4scale (ks gd) (cReflective mat)) (RGBAtoSceneColor reflected))"

definition ambientTerm :: "SceneGlobalData \<Rightarrow> SceneMaterial \<Rightarrow> vec4" where
  "ambientTerm gd mat =
     v4add (Vec4 (Fin 0) (Fin 0) (Fin 0) (Fin 1)) (v4scale (ka gd) (cAmbient mat))"

definition finishPhong :: "vec4 \<Rightarrow> Calls \<Rightarrow> fault + RGBA \<times> Calls" where
  "finishPhong totalIllumination n =
     (case toRGBA totalIllumination of Inl e \<Rightarrow> Inl e | Inr returnValue \<Rightarrow> Inr (returnValue, n))"

definition calledPhong :: Calls where
  "calledPhong = \<lparr> phongCalls = 1, reflectionRays = 0, shadowRays = 0 \<rparr>"

definition spawnedReflection :: Calls where
  "spawnedReflection = \<lparr> phongCalls = 0, reflectionRays = 1, shadowRays = 0 \<rparr>"

definition spawnedShadow :: Calls where
  "spawnedShadow = \<lparr> phongCalls = 0, reflectionRays = 0, shadowRays = 1 \<rparr>"

text \<open>
  The arguments that the shading branch of \<^verbatim>\<open>traceRay\<close> computes for \<^verbatim>\<open>phong\<close>:
  intersection point, normal, direction to the camera, material and texture colour.
  They read the two locals of the scan; a local that was never assigned is the fault
  \<open>UninitializedRead\<close>.
\<close>

definition hitData ::
  "Primitive list \<Rightarrow> nat option \<Rightarrow> vec3 option \<Rightarrow> Ray
     \<Rightarrow> fault + vec3 \<times> vec3 \<times> vec3 \<times> SceneMaterial \<times> SceneColor" where
  "hitData primitives intersectedPrimitiveIdx objSpaceIntersection worldSpaceRay =
     (case intersectedPrimitiveIdx of
        None \<Rightarrow> Inl UninitializedRead
      | Some i \<Rightarrow>
     (case objSpaceIntersection of
        None \<Rightarrow> Inl UninitializedRead
      | Some p \<Rightarrow>
          if i < length primitives then
            (let worldNormal = getWorldSpaceNormal (primitives ! i) p;
                 worldIntersection = getIntersectionPoint worldSpaceRay;
                 dirToCamera = v3neg (getDir worldSpaceRay)
             in case getTexture (primitives ! i) p of
                  Inl e \<Rightarrow> Inl e
                | Inr tex \<Rightarrow>
                    Inr (worldIntersection, worldNormal, dirToCamera,
                         getMaterial (primitives ! i), tex))
          else Inl IndexOutOfRange))"

text \<open>
  \<^verbatim>\<open>traceRay\<close> and \<^verbatim>\<open>phong\<close> call each other; \<open>phongLights\<close> is the loop of \<^verbatim>\<open>phong\<close>
  over the lights, with the lights still to visit and the illumination so far. The
  ray is passed by reference, so \<open>traceRay\<close> returns it next to the colour. Shadow and
  reflection rays are traced against the member \<^verbatim>\<open>m_primitives\<close>.
\<close>

function
  traceRay :: "RayTracer \<Rightarrow> Ray \<Rightarrow> Primitive list \<Rightarrow> Light list \<Rightarrow> int
                 \<Rightarrow> fault + RGBA \<times> Ray \<times> Calls"
and
  phong :: "RayTracer \<Rightarrow> vec3 \<Rightarrow> vec3 \<Rightarrow> vec3 \<Rightarrow> SceneMaterial \<Rightarrow> SceneColor \<Rightarrow> Light list
              \<Rightarrow> SceneGlobalData \<Rightarrow> int \<Rightarrow> fault + RGBA \<times> Calls"
and
  phongLights :: "RayTracer \<Rightarrow> vec3 \<Rightarrow> vec3 \<Rightarrow> vec3 \<Rightarrow> SceneMaterial \<Rightarrow> SceneColor \<Rightarrow> Light list
              \<Rightarrow> SceneGlobalData \<Rightarrow> Light list \<Rightarrow> vec4 \<Rightarrow> fault + vec4 \<times> Calls"
where
  "traceRay T worldSpaceRay0 primitives lights currRecursionDepth =
     (case scanPrimitives primitives 0 (worldSpaceRay0, None, None) of
        (worldSpaceRay, intersectedPrimitiveIdx, objSpaceIntersection) \<Rightarrow>
          if currRecursionDepth \<noteq> - 1
             \<and> Ray_getIntersectionT worldSpaceRay > Fin 0
             \<and> Ray_getIntersectionT worldSpaceRay < infinity
          then
            (case hitData primitives intersectedPrimitiveIdx objSpaceIntersection worldSpaceRay of
               Inl e \<Rightarrow> Inl e
             | Inr (worldIntersection, worldNormal, dirToCamera, mat, tex) \<Rightarrow>
                 (case phong T worldIntersection worldNormal dirToCamera mat tex lights
                         (m_globalData T) currRecursionDepth of
                    Inl e \<Rightarrow> Inl e
                  | Inr (c, n) \<Rightarrow> Inr (c, worldSpaceRay, n)))
          else Inr (black, worldSpaceRay, noCalls))"
| "phong T intersectionPosition normal0 directionToCamera0 mat textureColor lights gd
       currRecursionDepth =
     (case phongLights T intersectionPosition (v3normalize normal0)
             (v3normalize directionToCamera0) mat textureColor lights gd lights
             (ambientTerm gd mat) of
        Inl e \<Rightarrow> Inl e
      | Inr (totalIllumination, n) \<Rightarrow>
          if currRecursionDepth < m_maxRecursionDepth T then
            (case traceRay T
                    (reflectionRayOf intersectionPosition (v3normalize normal0)
                       (v3normalize directionToCamera0))
                    (m_primitives T) lights (currRecursionDepth + 1) of
               Inl e \<Rightarrow> Inl e
             | Inr (c, reflectionRay, n') \<Rightarrow>
                 finishPhong (addReflection gd mat c totalIllumination)
                   (addCalls calledPhong (addCalls n (addCalls spawnedReflection n'))))
          else finishPhong totalIllumination (addCalls calledPhong n))"
| "phongLights T intersectionPosition normal directionToCamera mat textureColor lights gd
       [] totalIllumination = Inr (totalIllumination, noCalls)"
| "phongLights T intersectionPosition normal directionToCamera mat textureColor lights gd
       (light # rest) totalIllumination =
     (case traceRay T (shadowRayOf light intersectionPosition) (m_primitives T) lights (- 1) of
        Inl e \<Rightarrow> Inl e
      | Inr (c, shadowRayWorldSpace, n) \<Rightarrow>
          (case phongLights T intersectionPosition normal directionToCamera mat textureColor
                  lights gd rest
                  (lightContribution light shadowRayWorldSpace intersectionPosition normal
                     directionToCamera mat textureColor gd totalIllumination) of
             Inl e \<Rightarrow> Inl e
           | Inr (total', n') \<Rightarrow> Inr (total', addCalls spawnedShadow (addCalls n n'))))"
  by pat_completeness auto

termination
  apply (relation "measures [
     (\<lambda>x. case x of
        Inl (T, r, ps, ls, d) \<Rightarrow>
          (if d = - 1 then 0 else 2 * nat (m_maxRecursionDepth T + 1 - d) + 3)
      | Inr (Inl (T, p, n, dc, m, tc, ls, gd, d)) \<Rightarrow>
          2 * nat (m_maxRecursionDepth T + 1 - d) + 2
      | Inr (Inr (T, p, n, dc, m, tc, ls, gd, rest, tot)) \<Rightarrow> 1),
     (\<lambda>x. case x of
        Inl (T, r, ps, ls, d) \<Rightarrow> 0
      | Inr (Inl (T, p, n, dc, m, tc, ls, gd, d)) \<Rightarrow> 0
      | Inr (Inr (T, p, n, dc, m, tc, ls, gd, rest, tot)) \<Rightarrow> length rest)]")
  apply simp_all
  apply arith
  done

declare traceRay.simps [simp del] phong.simps [simp del]

subsection \<open>render\<close>

text \<open>
  One pixel of \<^verbatim>\<open>render\<close>: the ray through the pixel centre, traced at depth 0.
\<close>

definition tracePixel :: "RayTracer \<Rightarrow> RayTraceScene \<Rightarrow> Camera \<Rightarrow> int \<Rightarrow> int \<Rightarrow> fault + RGBA" where
  "tracePixel T scene camera row col =
     (let k = Fin 1;
          uvk = getViewPlaneCoords row col k scene;
          rayDirCamSpace = uvk;
          rayDirWorldSpace = vec3_of (m4mulv (getCameraMatrix camera) (vec4_of rayDirCamSpace (Fin 0)));
          ray = Ray_ctor rayDirWorldSpace (Camera_getPos camera)
      in case traceRay T ray (m_primitives T) (getLights scene) 0 of
           Inl e \<Rightarrow> Inl e
         | Inr (c, ray', n) \<Rightarrow> Inr c)"

text \<open>
  The two loops. \<^verbatim>\<open>imageData\<close> is a pointer to the caller's buffer, here the list of
  its pixels; a write outside of it is a fault.
\<close>

fun renderCols ::
  "RayTracer \<Rightarrow> RayTraceScene \<Rightarrow> Camera \<Rightarrow> int \<Rightarrow> int list \<Rightarrow> RGBA list \<Rightarrow> fault + RGBA list" where
  "renderCols T scene camera row [] imageData = Inr imageData"
| "renderCols T scene camera row (col # cols) imageData =
     (case tracePixel T scene camera row col of
        Inl e \<Rightarrow> Inl e
      | Inr c \<Rightarrow>
          if 0 \<le> col + row * RayTraceScene_width scene
             \<and> col + row * RayTraceScene_width scene < int (length imageData)
          then renderCols T scene camera row cols
                 (imageData[nat (col + row * RayTraceScene_width scene) := c])
          else Inl IndexOutOfRange)"

fun renderRows ::
  "RayTracer \<Rightarrow> RayTraceScene \<Rightarrow> Camera \<Rightarrow> int list \<Rightarrow> RGBA list \<Rightarrow> fault + RGBA list" where
  "renderRows T scene camera [] imageData = Inr imageData"
| "renderRows T scene camera (row # rows) imageData =
     (case renderCols T scene camera row [0 .. RayTraceScene_width scene - 1] imageData of
        Inl e \<Rightarrow> Inl e
      | Inr imageData' \<Rightarrow> renderRows T scene camera rows imageData')"

text \<open>
  \<^verbatim>\<open>render\<close> assigns the members \<^verbatim>\<open>m_primitives\<close> and \<^verbatim>\<open>m_globalData\<close> and fills the
  buffer; it returns the tracer and the buffer.
\<close>

definition render :: "RayTracer \<Rightarrow> RGBA list \<Rightarrow> RayTraceScene \<Rightarrow> fault + RayTracer \<times> RGBA list" where
  "render T imageData scene =
     (let camera = getCamera scene;
          T' = T\<lparr> m_primitives := getPrimitives scene, m_globalData := getGlobalData scene \<rparr>
      in case renderRows T' scene camera [0 .. RayTraceScene_height scene - 1] imageData of
           Inl e \<Rightarrow> Inl e
         | Inr imageData' \<Rightarrow> Inr (T', imageData'))"

section \<open>Finite values and affine transforms\<close>

text \<open>
  The predicates that the statements about exact arithmetic need: a scalar that is
  none of the special values, vectors and matrices of such scalars, and a matrix whose
  fourth row is \<open>(0, 0, 0, 1)\<close>, as every composition of scalings, rotations and
  translations has it.
\<close>

fun isfinite :: "fl \<Rightarrow> bool" where
  "isfinite (Fin a) = True"
| "isfinite _ = False"

fun finite_v3 :: "vec3 \<Rightarrow> bool" where
  "finite_v3 (Vec3 x y z) = (isfinite x \<and> isfinite y \<and> isfinite z)"

fun finite_v4 :: "vec4 \<Rightarrow> bool" where
  "finite_v4 (Vec4 x y z w) = (isfinite x \<and> isfinite y \<and> isfinite z \<and> isfinite w)"

fun finite_m4 :: "mat4 \<Rightarrow> bool" where
  "finite_m4 (Mat4 a b c d) = (finite_v4 a \<and> finite_v4 b \<and> finite_v4 c \<and> finite_v4 d)"

fun affine_m4 :: "mat4 \<Rightarrow> bool" where
  "affine_m4 (Mat4 a b c d) =
     (v4w a = Fin 0 \<and> v4w b = Fin 0 \<and> v4w c = Fin 0 \<and> v4w d = Fin 1)"

section \<open>Valid intersections\<close>

text \<open>
  What the specification counts as a valid intersection of a ray with a shape, after
  its table of surfaces and bounds: a parameter that is strictly positive and finite,
  whose point lies on the surface and within the bounds. Sphere: \<open>\<parallel>p + t d\<parallel>\<^sup>2 = r\<^sup>2\<close>.
  Cube: one of the six planes at half the side, within the square of the other two axes.
  Cylinder: the lateral surface with \<open>y\<close> within \<open>[-h/2, h/2]\<close>, or a cap at
  \<open>y = \<plusminus>h/2\<close> with \<open>x\<^sup>2 + z\<^sup>2 \<le> r\<^sup>2\<close>. Cone: the lateral surface with its apex at
  \<open>y = h/2\<close> and \<open>y\<close> within \<open>[-h/2, h/2]\<close>, or the base at \<open>y = -h/2\<close> with
  \<open>x\<^sup>2 + z\<^sup>2 \<le> r\<^sup>2\<close>. This predicate follows the specification, not the code; the
  code is compared with it.
\<close>

definition spec_validIntersection :: "Shape \<Rightarrow> Ray \<Rightarrow> fl \<Rightarrow> bool" where
  "spec_validIntersection sh ray t =
     (t > Fin 0 \<and> t < infinity \<and>
      (let x = v3x (getPos ray t); y = v3y (getPos ray t); z = v3z (getPos ray t) in
       case sh of
         Sphere r \<Rightarrow> feq (pow2 x + pow2 y + pow2 z) (pow2 r)
       | Cube s \<Rightarrow>
           ((feq z (s / Fin 2) \<or> feq z (- s / Fin 2)) \<and> \<bar>x\<bar> \<le> s / Fin 2 \<and> \<bar>y\<bar> \<le> s / Fin 2)
         \<or> ((feq y (s / Fin 2) \<or> feq y (- s / Fin 2)) \<and> \<bar>x\<bar> \<le> s / Fin 2 \<and> \<bar>z\<bar> \<le> s / Fin 2)
         \<or> ((feq x (s / Fin 2) \<or> feq x (- s / Fin 2)) \<and> \<bar>y\<bar> \<le> s / Fin 2 \<and> \<bar>z\<bar> \<le> s / Fin 2)
       | Cylinder h r \<Rightarrow>
           (feq (pow2 x + pow2 z) (pow2 r) \<and> y \<ge> - h / Fin 2 \<and> y \<le> h / Fin 2)
         \<or> ((feq y (h / Fin 2) \<or> feq y (- h / Fin 2)) \<and> pow2 x + pow2 z \<le> pow2 r)
       | Cone r h \<Rightarrow>
           (feq (pow2 x + pow2 z) (pow2 (r * (h / Fin 2 - y) / h))
              \<and> y \<ge> - h / Fin 2 \<and> y \<le> h / Fin 2)
         \<or> (feq y (- h / Fin 2) \<and> pow2 x + pow2 z \<le> pow2 r)))"

section \<open>A small scene\<close>

text \<open>
  The theorems below are instantiated at this scene: a sphere of radius one half under
  the identity transform, hit by the ray from \<open>(0, 0, 5)\<close> along \<open>-z\<close>; a second sphere
  at the same place with another material; no texture.
\<close>

definition idM :: mat4 where
  "idM = Mat4 (Vec4 (Fin 1) (Fin 0) (Fin 0) (Fin 0)) (Vec4 (Fin 0) (Fin 1) (Fin 0) (Fin 0))
              (Vec4 (Fin 0) (Fin 0) (Fin 1) (Fin 0)) (Vec4 (Fin 0) (Fin 0) (Fin 0) (Fin 1))"

definition noTexture :: SceneFileMap where
  "noTexture = \<lparr> isUsed = False, filename = [], repeatU = 1, repeatV = 1 \<rparr>"

definition grey :: SceneColor where
  "grey = Vec4 (Fin (1 / 2)) (Fin (1 / 2)) (Fin (1 / 2)) (Fin 1)"

definition mat0 :: SceneMaterial where
  "mat0 = \<lparr> cAmbient = grey, cDiffuse = grey, cSpecular = grey, cReflective = grey,
            shininess = Fin 1, blend = Fin 0, textureMap = noTexture \<rparr>"

definition mat1 :: SceneMaterial where
  "mat1 = mat0\<lparr> cAmbient := Vec4 (Fin 1) (Fin 0) (Fin 0) (Fin 1) \<rparr>"

definition sphereData :: RenderShapeData where
  "sphereData = \<lparr> primitive = \<lparr> prim_type = PRIMITIVE_SPHERE, material = mat0 \<rparr>, ctm = idM \<rparr>"

definition sphereData1 :: RenderShapeData where
  "sphereData1 = \<lparr> primitive = \<lparr> prim_type = PRIMITIVE_SPHERE, material = mat1 \<rparr>, ctm = idM \<rparr>"

definition unitSphere :: Primitive where
  "unitSphere = fst (makePrimitive sphereData Map.empty)"

definition redSphere :: Primitive where
  "redSphere = fst (makePrimitive sphereData1 Map.empty)"

definition gd1 :: SceneGlobalData where
  "gd1 = \<lparr> ka = Fin 1, kd = Fin 1, ks = Fin 1 \<rparr>"

definition cfg0 :: Config where
  "cfg0 = \<lparr> enableShadow = False, enableReflection = False, enableRefraction = False,
            enableTextureMap = False, enableTextureFilter = False, enableParallelism = False,
            enableSuperSample = False, enableAcceleration = False, enableDepthOfField = False \<rparr>"

definition tracer1 :: RayTracer where
  "tracer1 = (RayTracer_ctor cfg0 gd1)\<lparr> m_primitives := [unitSphere] \<rparr>"

definition ray5 :: Ray where
  "ray5 = Ray_ctor (Vec3 (Fin 0) (Fin 0) (Fin (- 1))) (Vec3 (Fin 0) (Fin 0) (Fin 5))"

definition reflRay1 :: Ray where
  "reflRay1 = Ray_ctor (Vec3 (Fin 0) (Fin 0) (Fin 1)) (Vec3 (Fin 0) (Fin 0) (Fin (5001 / 10000)))"

text \<open>
  A transform that scales by 2 and translates by \<open>(1, 2, 3)\<close>, and an invertible
  matrix whose fourth row is \<open>(1, 0, 0, 1)\<close>, as a scene file may give one through a
  matrix transformation.
\<close>

definition moveM :: mat4 where
  "moveM = Mat4 (Vec4 (Fin 2) (Fin 0) (Fin 0) (Fin 0)) (Vec4 (Fin 0) (Fin 2) (Fin 0) (Fin 0))
                (Vec4 (Fin 0) (Fin 0) (Fin 2) (Fin 0)) (Vec4 (Fin 1) (Fin 2) (Fin 3) (Fin 1))"

definition skewM :: mat4 where
  "skewM = Mat4 (Vec4 (Fin 1) (Fin 0) (Fin 0) (Fin 1)) (Vec4 (Fin 0) (Fin 1) (Fin 0) (Fin 0))
                (Vec4 (Fin 0) (Fin 0) (Fin 1) (Fin 0)) (Vec4 (Fin 2) (Fin 0) (Fin 0) (Fin 1))"

definition movedSphere :: Primitive where
  "movedSphere = fst (makePrimitive (sphereData\<lparr> ctm := moveM \<rparr>) Map.empty)"

definition skewSphere :: Primitive where
  "skewSphere = fst (makePrimitive (sphereData\<lparr> ctm := skewM \<rparr>) Map.empty)"

text \<open>A cube whose material uses a texture file that no dictionary holds.\<close>

definition texturedData :: RenderShapeData where
  "texturedData =
     \<lparr> primitive = \<lparr> prim_type = PRIMITIVE_CUBE,
                     material = mat0\<lparr> textureMap :=
                       \<lparr> isUsed = True, filename = ''missing.png'', repeatU = 1, repeatV = 1 \<rparr> \<rparr> \<rparr>,
       ctm = idM \<rparr>"

definition texturedCube :: Primitive where
  "texturedCube = fst (makePrimitive texturedData Map.empty)"

text \<open>
  A white spot light at the origin that points along \<open>-z\<close>, with outer angle
  \<open>3 pi / 4\<close> and penumbra \<open>3 pi / 8\<close>, and a point light with the same data.
\<close>

definition spotData :: SceneLightData where
  "spotData =
     \<lparr> l_type = LIGHT_SPOT, l_color = Vec4 (Fin 1) (Fin 1) (Fin 1) (Fin 1),
       l_function = Vec3 (Fin 1) (Fin 0) (Fin 0),
       l_pos = Vec4 (Fin 0) (Fin 0) (Fin 0) (Fin 1),
       l_dir = Vec4 (Fin 0) (Fin 0) (Fin (- 1)) (Fin 0),
       l_penumbra = Fin (3 * pi / 8), l_angle = Fin (3 * pi / 4) \<rparr>"

definition spot1 :: Light where
  "spot1 = Light_ctor spotData"

definition point1 :: Light where
  "point1 = Light_ctor (spotData\<lparr> l_type := LIGHT_POINT \<rparr>)"

text \<open>
  A camera at \<open>(0, 0, 5)\<close> that looks along \<open>-z\<close>, the scene of the one sphere on an
  image of one pixel, and a configuration with every flag but shadow and reflection
  switched on.
\<close>

definition cam1 :: SceneCameraData where
  "cam1 = \<lparr> cam_pos = Vec4 (Fin 0) (Fin 0) (Fin 5) (Fin 1),
            cam_look = Vec4 (Fin 0) (Fin 0) (Fin (- 1)) (Fin 0),
            cam_up = Vec4 (Fin 0) (Fin 1) (Fin 0) (Fin 0),
            cam_heightAngle = Fin 1, cam_aperture = Fin 0, cam_focalLength = Fin 0 \<rparr>"

definition renderData1 :: RenderData where
  "renderData1 = \<lparr> rd_globalData = gd1, rd_cameraData = cam1, rd_lights = [],
                   rd_shapes = [sphereData] \<rparr>"

definition scene1 :: RayTraceScene where
  "scene1 = RayTraceScene_ctor (\<lambda>f. Texture_default) 1 1 renderData1"

definition cfg1 :: Config where
  "cfg1 = \<lparr> enableShadow = False, enableReflection = False, enableRefraction = True,
            enableTextureMap = True, enableTextureFilter = True, enableParallelism = True,
            enableSuperSample = True, enableAcceleration = True, enableDepthOfField = True \<rparr>"

text \<open>
  A ray that starts above the apex of the cone and points away from it, and a ray that
  passes every shape at a distance.
\<close>

definition upRay :: Ray where
  "upRay = Ray_ctor (Vec3 (Fin 0) (Fin 1) (Fin 0)) (Vec3 (Fin 0) (Fin 5) (Fin 0))"

definition missRay :: Ray where
  "missRay = Ray_ctor (Vec3 (Fin 0) (Fin 0) (Fin (- 1))) (Vec3 (Fin 5) (Fin 5) (Fin 5))"

section \<open>Properties\<close>

lemmas ray_defs =
  Ray_ctor_def getDir_def getOrigin_def getPos_def infinity_def pow2_def Let_def

subsection \<open>C1: what getIntersectionT returns\<close>

text \<open>
  C1 says that every shape returns its smallest strictly positive in-bounds root, and
  never a value at or below zero. The evaluation below runs the code at two rays that
  start inside the surface. For the sphere of radius 0.5 and the ray from the centre
  along +z, the point at \<open>t = 0.5\<close> lies on the sphere, yet \<open>solveQuadratic\<close> sees
  \<open>t1 = -0.5\<close>, \<open>t2 = 0.5\<close>, takes neither branch (\<open>t2 < t1\<close> fails) and returns
  infinity. For the cone and the ray from the centre towards the apex, the base plane
  lies behind the origin at \<open>t = -0.5\<close>; that value enters the candidate list unfiltered
  and is returned as the minimum.
\<close>

theorem C1_inside_origin_evaluation:
  "getIntersectionT (Sphere (Fin 0.5))
       (Ray_ctor (Vec3 (Fin 0) (Fin 0) (Fin 1)) (Vec3 (Fin 0) (Fin 0) (Fin 0))) = PInf
   \<and> (let p = getPos (Ray_ctor (Vec3 (Fin 0) (Fin 0) (Fin 1)) (Vec3 (Fin 0) (Fin 0) (Fin 0)))
                  (Fin 0.5)
      in pow2 (v3x p) + pow2 (v3y p) + pow2 (v3z p) = pow2 (Fin 0.5))
   \<and> getIntersectionT (Cone (Fin 0.5) (Fin 1))
       (Ray_ctor (Vec3 (Fin 0) (Fin 1) (Fin 0)) (Vec3 (Fin 0) (Fin 0) (Fin 0))) = Fin (- 0.5)"
  by (simp add: ray_defs Sphere_getIntersectionT_def Cone_getIntersectionT_def
      solveQuadratic_def solveQuadraticBothSolutions_def getSmallest_def)

subsection \<open>The order of the scalars\<close>

lemma flt_trans: "flt a b \<Longrightarrow> flt b c \<Longrightarrow> flt a c"
  by (cases a; cases b; cases c) auto

lemma flt_irrefl: "\<not> flt a a"
  by (cases a) auto

subsection \<open>The nearest-hit scan\<close>

lemma scanStep_fst:
  "fst (scanStep P i st) = (fst st)\<lparr> m_tIntersect := m_tIntersect (fst (scanStep P i st)) \<rparr>
   \<and> (m_tIntersect (fst (scanStep P i st)) = m_tIntersect (fst st)
      \<or> (flt (Fin 0) (m_tIntersect (fst (scanStep P i st)))
          \<and> flt (m_tIntersect (fst (scanStep P i st))) (m_tIntersect (fst st))))"
  by (cases st) (simp add: scanStep_def Let_def setIntersectionT_def Ray_getIntersectionT_def)

lemma scanPrimitives_fst:
  "fst (scanPrimitives ps i st)
     = (fst st)\<lparr> m_tIntersect := m_tIntersect (fst (scanPrimitives ps i st)) \<rparr>
   \<and> (m_tIntersect (fst (scanPrimitives ps i st)) = m_tIntersect (fst st)
      \<or> (flt (Fin 0) (m_tIntersect (fst (scanPrimitives ps i st)))
          \<and> flt (m_tIntersect (fst (scanPrimitives ps i st))) (m_tIntersect (fst st))))"
proof (induction ps arbitrary: i st)
  case Nil
  show ?case by simp
next
  case (Cons P ps)
  let ?s1 = "scanStep P i st"
  let ?s2 = "scanPrimitives ps (Suc i) ?s1"
  have step: "fst ?s1 = (fst st)\<lparr> m_tIntersect := m_tIntersect (fst ?s1) \<rparr>"
    and stepT: "m_tIntersect (fst ?s1) = m_tIntersect (fst st)
      \<or> (flt (Fin 0) (m_tIntersect (fst ?s1))
          \<and> flt (m_tIntersect (fst ?s1)) (m_tIntersect (fst st)))"
    using scanStep_fst [of P i st] by blast+
  have rest: "fst ?s2 = (fst ?s1)\<lparr> m_tIntersect := m_tIntersect (fst ?s2) \<rparr>"
    and restT: "m_tIntersect (fst ?s2) = m_tIntersect (fst ?s1)
      \<or> (flt (Fin 0) (m_tIntersect (fst ?s2))
          \<and> flt (m_tIntersect (fst ?s2)) (m_tIntersect (fst ?s1)))"
    using Cons.IH [of "Suc i" ?s1] by blast+
  have a: "fst ?s2 = (fst st)\<lparr> m_tIntersect := m_tIntersect (fst ?s2) \<rparr>"
    by (subst rest, subst step) simp
  have b: "m_tIntersect (fst ?s2) = m_tIntersect (fst st)
      \<or> (flt (Fin 0) (m_tIntersect (fst ?s2))
          \<and> flt (m_tIntersect (fst ?s2)) (m_tIntersect (fst st)))"
    using stepT restT by (auto intro: flt_trans)
  show ?case using a b by simp
qed

lemma scanPrimitives_snoc:
  "scanPrimitives (ps @ [P]) i st = scanStep P (i + length ps) (scanPrimitives ps i st)"
  by (induction ps arbitrary: i st) simp_all

lemma currTOf_cong:
  "m_dir r = m_dir r' \<Longrightarrow> m_pos r = m_pos r' \<Longrightarrow> currTOf P r = currTOf P r'"
  by (simp add: currTOf_def objSpaceRayOf_def getDir_def getOrigin_def)

lemma scanPrimitives_same_ray:
  "m_dir (fst (scanPrimitives ps i st)) = m_dir (fst st)
   \<and> m_pos (fst (scanPrimitives ps i st)) = m_pos (fst st)"
proof -
  let ?r = "fst (scanPrimitives ps i st)"
  have "?r = (fst st)\<lparr> m_tIntersect := m_tIntersect ?r \<rparr>"
    using scanPrimitives_fst [of ps i st] by blast
  then have "m_dir ?r = m_dir ((fst st)\<lparr> m_tIntersect := m_tIntersect ?r \<rparr>)"
    and "m_pos ?r = m_pos ((fst st)\<lparr> m_tIntersect := m_tIntersect ?r \<rparr>)"
    by simp_all
  then show ?thesis by simp
qed

text \<open>
  The invariant of the scan, from a state whose two locals are unassigned: an unassigned
  index means an untouched \<open>tHit\<close>; an assigned index \<open>k\<close> lies in the list, its
  primitive returned the recorded \<open>tHit\<close>, no primitive before it returned the same
  value, and no primitive at all returned a positive value below the recorded one.
\<close>

lemma scan_inv:
  "scanPrimitives ps 0 (r0, None, None) = (r, idx, pt) \<Longrightarrow>
     (idx = None \<longrightarrow> pt = None \<and> m_tIntersect r = m_tIntersect r0)
   \<and> (\<forall>k. idx = Some k \<longrightarrow>
          k < length ps \<and> pt \<noteq> None \<and> currTOf (ps ! k) r0 = m_tIntersect r
          \<and> flt (Fin 0) (m_tIntersect r)
          \<and> (\<forall>j<k. currTOf (ps ! j) r0 \<noteq> m_tIntersect r))
   \<and> (\<forall>j<length ps. flt (Fin 0) (currTOf (ps ! j) r0)
          \<longrightarrow> \<not> flt (currTOf (ps ! j) r0) (m_tIntersect r))"
proof (induction ps arbitrary: r idx pt rule: rev_induct)
  case Nil
  then show ?case by simp
next
  case (snoc P ps)
  obtain r1 idx1 pt1 where s1: "scanPrimitives ps 0 (r0, None, None) = (r1, idx1, pt1)"
    by (cases "scanPrimitives ps 0 (r0, None, None)") auto
  note IH = snoc.IH [OF s1]
  have same: "m_dir r1 = m_dir r0" "m_pos r1 = m_pos r0"
    using scanPrimitives_same_ray [of ps 0 "(r0, None, None)"] s1 by simp_all
  have ct: "currTOf P r1 = currTOf P r0"
    by (rule currTOf_cong) (simp_all add: same)
  have step: "scanStep P (length ps) (r1, idx1, pt1) = (r, idx, pt)"
    using snoc.prems s1 by (simp add: scanPrimitives_snoc)
  let ?t = "currTOf P r0"
  show ?case
  proof (cases "flt (Fin 0) ?t \<and> flt ?t (m_tIntersect r1)")
    case True
    then have res: "r = r1\<lparr> m_tIntersect := ?t \<rparr>" "idx = Some (length ps)" "pt \<noteq> None"
      using step ct
      by (auto simp add: scanStep_def Let_def setIntersectionT_def Ray_getIntersectionT_def)
    have tr: "m_tIntersect r = ?t" using res by simp
    have older: "\<forall>j<length ps. currTOf (ps ! j) r0 \<noteq> ?t"
    proof (intro allI impI notI)
      fix j assume j: "j < length ps" and e: "currTOf (ps ! j) r0 = ?t"
      from True e have "flt (Fin 0) (currTOf (ps ! j) r0)"
        and "flt (currTOf (ps ! j) r0) (m_tIntersect r1)"
        by simp_all
      with IH j show False by blast
    qed
    have least: "\<forall>j<length (ps @ [P]). flt (Fin 0) (currTOf ((ps @ [P]) ! j) r0)
          \<longrightarrow> \<not> flt (currTOf ((ps @ [P]) ! j) r0) (m_tIntersect r)"
    proof (intro allI impI)
      fix j assume j: "j < length (ps @ [P])"
        and pos: "flt (Fin 0) (currTOf ((ps @ [P]) ! j) r0)"
      show "\<not> flt (currTOf ((ps @ [P]) ! j) r0) (m_tIntersect r)"
      proof (cases "j < length ps")
        case jl: True
        then have e: "(ps @ [P]) ! j = ps ! j" by (simp add: nth_append)
        show ?thesis
        proof
          assume "flt (currTOf ((ps @ [P]) ! j) r0) (m_tIntersect r)"
          then have "flt (currTOf (ps ! j) r0) ?t" using e tr by simp
          then have "flt (currTOf (ps ! j) r0) (m_tIntersect r1)"
            using True flt_trans by blast
          moreover have "flt (Fin 0) (currTOf (ps ! j) r0)" using pos e by simp
          ultimately show False using IH jl by blast
        qed
      next
        case False
        then have "j = length ps" using j by simp
        then have "(ps @ [P]) ! j = P" by simp
        then show ?thesis using tr flt_irrefl by simp
      qed
    qed
    show ?thesis
      using res tr True older least by (auto simp add: nth_append)
  next
    case False
    then have res: "r = r1" "idx = idx1" "pt = pt1"
      using step ct
      by (auto simp add: scanStep_def Let_def setIntersectionT_def Ray_getIntersectionT_def)
    have least: "\<forall>j<length (ps @ [P]). flt (Fin 0) (currTOf ((ps @ [P]) ! j) r0)
          \<longrightarrow> \<not> flt (currTOf ((ps @ [P]) ! j) r0) (m_tIntersect r)"
    proof (intro allI impI)
      fix j assume j: "j < length (ps @ [P])"
        and pos: "flt (Fin 0) (currTOf ((ps @ [P]) ! j) r0)"
      show "\<not> flt (currTOf ((ps @ [P]) ! j) r0) (m_tIntersect r)"
      proof (cases "j < length ps")
        case jl: True
        then have e: "(ps @ [P]) ! j = ps ! j" by (simp add: nth_append)
        show ?thesis using IH jl pos e res by simp
      next
        case F2: False
        then have "j = length ps" using j by simp
        then have e: "(ps @ [P]) ! j = P" by simp
        show ?thesis using False pos e res by auto
      qed
    qed
    have a: "idx = None \<longrightarrow> pt = None \<and> m_tIntersect r = m_tIntersect r0"
      using IH res by simp
    have b: "\<forall>k. idx = Some k \<longrightarrow>
          k < length (ps @ [P]) \<and> pt \<noteq> None \<and> currTOf ((ps @ [P]) ! k) r0 = m_tIntersect r
          \<and> flt (Fin 0) (m_tIntersect r)
          \<and> (\<forall>j<k. currTOf ((ps @ [P]) ! j) r0 \<noteq> m_tIntersect r)"
    proof (intro allI impI)
      fix k assume k: "idx = Some k"
      then have k1: "idx1 = Some k" using res by simp
      with IH have kl: "k < length ps" and p: "pt1 \<noteq> None"
        and e: "currTOf (ps ! k) r0 = m_tIntersect r1" and ps: "flt (Fin 0) (m_tIntersect r1)"
        and o: "\<forall>j<k. currTOf (ps ! j) r0 \<noteq> m_tIntersect r1" by blast+
      show "k < length (ps @ [P]) \<and> pt \<noteq> None
          \<and> currTOf ((ps @ [P]) ! k) r0 = m_tIntersect r
          \<and> flt (Fin 0) (m_tIntersect r)
          \<and> (\<forall>j<k. currTOf ((ps @ [P]) ! j) r0 \<noteq> m_tIntersect r)"
        using kl p e ps o res by (auto simp add: nth_append)
    qed
    show ?thesis using a b least by blast
  qed
qed

text \<open>
  When the scan ends with an index, the recorded \<open>tHit\<close> lies strictly below the one
  the ray came with, and the recorded point is the point of the object-space ray of
  that primitive at the recorded \<open>tHit\<close>.
\<close>

lemma flt_below_inf: "flt a b \<Longrightarrow> flt a PInf"
  by (cases a; cases b) auto

lemma objSpaceRayOf_cong:
  "m_dir r = m_dir r' \<Longrightarrow> m_pos r = m_pos r' \<Longrightarrow> objSpaceRayOf P r = objSpaceRayOf P r'"
  by (simp add: objSpaceRayOf_def getDir_def getOrigin_def)

lemma scan_some:
  "scanPrimitives ps 0 (r0, None, None) = (r, Some k, pt) \<Longrightarrow>
     flt (m_tIntersect r) (m_tIntersect r0)
   \<and> pt = Some (getPos (objSpaceRayOf (ps ! k) r0) (m_tIntersect r))"
proof (induction ps arbitrary: r k pt rule: rev_induct)
  case Nil
  then show ?case by simp
next
  case (snoc P ps)
  obtain r1 idx1 pt1 where s1: "scanPrimitives ps 0 (r0, None, None) = (r1, idx1, pt1)"
    by (cases "scanPrimitives ps 0 (r0, None, None)") auto
  have same: "m_dir r1 = m_dir r0" "m_pos r1 = m_pos r0"
    using scanPrimitives_same_ray [of ps 0 "(r0, None, None)"] s1 by simp_all
  have ct: "currTOf P r1 = currTOf P r0"
    by (rule currTOf_cong) (simp_all add: same)
  have oc: "objSpaceRayOf P r1 = objSpaceRayOf P r0"
    by (rule objSpaceRayOf_cong) (simp_all add: same)
  have below: "m_tIntersect r1 = m_tIntersect r0 \<or> flt (m_tIntersect r1) (m_tIntersect r0)"
    using scanPrimitives_fst [of ps 0 "(r0, None, None)"] s1 by auto
  have step: "scanStep P (length ps) (r1, idx1, pt1) = (r, Some k, pt)"
    using snoc.prems s1 by (simp add: scanPrimitives_snoc)
  let ?t = "currTOf P r0"
  show ?case
  proof (cases "flt (Fin 0) ?t \<and> flt ?t (m_tIntersect r1)")
    case True
    then have res: "r = r1\<lparr> m_tIntersect := ?t \<rparr>" "k = length ps"
      "pt = Some (getPos (objSpaceRayOf P r0) ?t)"
      using step ct oc
      by (auto simp add: scanStep_def Let_def setIntersectionT_def Ray_getIntersectionT_def)
    have "flt ?t (m_tIntersect r0)"
      using True below flt_trans by auto
    then show ?thesis using res by simp
  next
    case False
    then have res: "r = r1" "idx1 = Some k" "pt = pt1"
      using step ct
      by (auto simp add: scanStep_def Let_def setIntersectionT_def Ray_getIntersectionT_def)
    have s1': "scanPrimitives ps 0 (r0, None, None) = (r1, Some k, pt1)"
      using s1 res by simp
    have kl: "k < length ps" using scan_inv [OF s1'] by blast
    from snoc.IH [OF s1'] kl res show ?thesis by (simp add: nth_append)
  qed
qed

subsection \<open>The small scene, evaluated\<close>

lemma idM_inverse: "m4inverse idM = idM"
  by (simp add: idM_def m4inverse_def m4cofactors_def m4determinant_def Let_def)

lemma unitSphere_eval:
  "unitSphere = \<lparr> m_CTM = idM, m_inverseCTM = idM,
      m_objToWorldNormalTransformation =
        Mat3 (Vec3 (Fin 1) (Fin 0) (Fin 0)) (Vec3 (Fin 0) (Fin 1) (Fin 0))
             (Vec3 (Fin 0) (Fin 0) (Fin 1)),
      m_primitiveInfo = \<lparr> prim_type = PRIMITIVE_SPHERE, material = mat0 \<rparr>,
      m_texture = Texture_default, m_textureInfo = noTexture, shape = Sphere (Fin (1 / 2)) \<rparr>"
  by (simp add: unitSphere_def makePrimitive_def Primitive_ctor_def sphereData_def idM_inverse
      map_index_def mat0_def noTexture_def)
     (simp add: idM_def m3inverse_def Let_def)

lemma redSphere_eval:
  "redSphere = \<lparr> m_CTM = idM, m_inverseCTM = idM,
      m_objToWorldNormalTransformation =
        Mat3 (Vec3 (Fin 1) (Fin 0) (Fin 0)) (Vec3 (Fin 0) (Fin 1) (Fin 0))
             (Vec3 (Fin 0) (Fin 0) (Fin 1)),
      m_primitiveInfo = \<lparr> prim_type = PRIMITIVE_SPHERE, material = mat1 \<rparr>,
      m_texture = Texture_default, m_textureInfo = noTexture, shape = Sphere (Fin (1 / 2)) \<rparr>"
  by (simp add: redSphere_def makePrimitive_def Primitive_ctor_def sphereData1_def idM_inverse
      map_index_def mat0_def mat1_def noTexture_def)
     (simp add: idM_def m3inverse_def Let_def)

lemma currT_unitSphere: "currTOf unitSphere ray5 = Fin (9 / 2)"
  by (simp add: unitSphere_eval currTOf_def objSpaceRayOf_def applyInverseCTM_def idM_def ray5_def
      ray_defs Sphere_getIntersectionT_def solveQuadratic_def)

lemma currT_redSphere: "currTOf redSphere ray5 = Fin (9 / 2)"
  by (simp add: redSphere_eval currTOf_def objSpaceRayOf_def applyInverseCTM_def idM_def ray5_def
      ray_defs Sphere_getIntersectionT_def solveQuadratic_def)

lemma ray5_fresh: "m_tIntersect ray5 = PInf"
  by (simp add: ray5_def Ray_ctor_def infinity_def)

lemma hitPoint5:
  "getPos (objSpaceRayOf unitSphere ray5) (Fin (9 / 2)) = Vec3 (Fin 0) (Fin 0) (Fin (1 / 2))"
  by (simp add: ray5_def ray_defs objSpaceRayOf_def unitSphere_eval applyInverseCTM_def idM_def)

lemma scan1: "scanPrimitives [unitSphere] 0 (ray5, None, None)
   = (ray5\<lparr> m_tIntersect := Fin (9 / 2) \<rparr>, Some 0, Some (Vec3 (Fin 0) (Fin 0) (Fin (1 / 2))))"
  by (simp add: scanStep_def currT_unitSphere Let_def Ray_getIntersectionT_def setIntersectionT_def
      ray5_fresh hitPoint5)

lemma scan2: "scanPrimitives [unitSphere, redSphere] 0 (ray5, None, None)
   = (ray5\<lparr> m_tIntersect := Fin (9 / 2) \<rparr>, Some 0, Some (Vec3 (Fin 0) (Fin 0) (Fin (1 / 2))))"
  by (simp add: scanStep_def currT_unitSphere currT_redSphere Let_def Ray_getIntersectionT_def
      setIntersectionT_def ray5_fresh hitPoint5 currTOf_cong [of _ ray5])

subsection \<open>C4: the scan only lowers tHit\<close>

text \<open>
  C4: in the scan of \<open>traceRay\<close>, one step and any run of steps leave the origin and
  the direction of the ray as they were, and leave \<open>tHit\<close> either unchanged or at a value
  that is strictly positive and strictly below the value before. So \<open>tHit\<close> never
  increases along the primitives, and once it was assigned it is positive. The only
  mutator of a ray, \<open>setIntersectionT\<close>, does not touch origin or direction.
\<close>

theorem C4_scan_only_lowers_tHit:
  "m_dir (fst (scanStep P i st)) = m_dir (fst st)
   \<and> m_pos (fst (scanStep P i st)) = m_pos (fst st)
   \<and> (m_tIntersect (fst (scanStep P i st)) = m_tIntersect (fst st)
      \<or> (Fin 0 < m_tIntersect (fst (scanStep P i st))
          \<and> m_tIntersect (fst (scanStep P i st)) < m_tIntersect (fst st)))
   \<and> m_dir (fst (scanPrimitives ps i st)) = m_dir (fst st)
   \<and> m_pos (fst (scanPrimitives ps i st)) = m_pos (fst st)
   \<and> (m_tIntersect (fst (scanPrimitives ps i st)) = m_tIntersect (fst st)
      \<or> (Fin 0 < m_tIntersect (fst (scanPrimitives ps i st))
          \<and> m_tIntersect (fst (scanPrimitives ps i st)) < m_tIntersect (fst st)))
   \<and> m_dir (setIntersectionT r t) = m_dir r
   \<and> m_pos (setIntersectionT r t) = m_pos r"
proof -
  have one: "scanPrimitives [P] i st = scanStep P i st" by simp
  have a: "m_dir (fst (scanStep P i st)) = m_dir (fst st)
           \<and> m_pos (fst (scanStep P i st)) = m_pos (fst st)"
    using scanPrimitives_same_ray [of "[P]" i st] by (simp only: one)
  have b: "m_tIntersect (fst (scanStep P i st)) = m_tIntersect (fst st)
      \<or> (flt (Fin 0) (m_tIntersect (fst (scanStep P i st)))
          \<and> flt (m_tIntersect (fst (scanStep P i st))) (m_tIntersect (fst st)))"
    using scanStep_fst [of P i st] by blast
  have c: "m_tIntersect (fst (scanPrimitives ps i st)) = m_tIntersect (fst st)
      \<or> (flt (Fin 0) (m_tIntersect (fst (scanPrimitives ps i st)))
          \<and> flt (m_tIntersect (fst (scanPrimitives ps i st))) (m_tIntersect (fst st)))"
    using scanPrimitives_fst [of ps i st] by blast
  show ?thesis
    using a b c scanPrimitives_same_ray [of ps i st]
    by (simp add: setIntersectionT_def)
qed

subsection \<open>Shading: what a call returns and counts\<close>

lemma traceRay_shadow:
  "traceRay T r ps ls (- 1) = Inr (black, fst (scanPrimitives ps 0 (r, None, None)), noCalls)"
  by (simp add: traceRay.simps split: prod.splits)

lemma traceRay_miss:
  "scanPrimitives ps 0 (r, None, None) = (r', idx, pt)
    \<Longrightarrow> \<not> (flt (Fin 0) (m_tIntersect r') \<and> flt (m_tIntersect r') PInf)
    \<Longrightarrow> traceRay T r ps ls d = Inr (black, r', noCalls)"
  by (auto simp add: traceRay.simps Ray_getIntersectionT_def infinity_def)

lemma traceRay_hit:
  "scanPrimitives ps 0 (r, None, None) = (r', idx, pt)
    \<Longrightarrow> d \<noteq> - 1 \<Longrightarrow> flt (Fin 0) (m_tIntersect r') \<Longrightarrow> flt (m_tIntersect r') PInf
    \<Longrightarrow> hitData ps idx pt r' = Inr (wi, wn, dc, m, tex)
    \<Longrightarrow> traceRay T r ps ls d =
          (case phong T wi wn dc m tex ls (m_globalData T) d of
             Inl e \<Rightarrow> Inl e | Inr (c, n) \<Rightarrow> Inr (c, r', n))"
  by (simp add: traceRay.simps Ray_getIntersectionT_def infinity_def)

lemma phong_reflect_no_lights:
  "d < m_maxRecursionDepth T
    \<Longrightarrow> reflectionRayOf p (v3normalize n0) (v3normalize dc) = rr
    \<Longrightarrow> traceRay T rr (m_primitives T) [] (d + 1) = Inr (c', rr', n')
    \<Longrightarrow> phong T p n0 dc m tc [] gd d =
          finishPhong (addReflection gd m c' (ambientTerm gd m))
            (addCalls calledPhong (addCalls noCalls (addCalls spawnedReflection n')))"
  by (simp add: phong.simps)

lemma phongLights_calls:
  "phongLights T p n dc m tc ls gd rest tot = Inr (t, c) \<Longrightarrow>
     phongCalls c = 0 \<and> reflectionRays c = 0 \<and> shadowRays c = length rest"
proof (induction rest arbitrary: tot t c)
  case Nil
  then show ?case by (auto simp add: noCalls_def)
next
  case (Cons light rest)
  from Cons.prems obtain t' c' where
    rec: "phongLights T p n dc m tc ls gd rest
            (lightContribution light (fst (scanPrimitives (m_primitives T) 0
                 (shadowRayOf light p, None, None))) p n dc m tc gd tot) = Inr (t', c')"
    and c: "c = addCalls spawnedShadow (addCalls noCalls c')"
    by (auto simp add: traceRay_shadow split: sum.splits)
  from Cons.IH [OF rec] c show ?case
    by (simp add: addCalls_def spawnedShadow_def noCalls_def)
qed

lemma phongLights_total:
  "\<exists>t c. phongLights T p n dc m tc ls gd rest tot = Inr (t, c)"
proof (induction rest arbitrary: tot)
  case Nil
  show ?case by simp
next
  case (Cons light rest)
  obtain t c where "phongLights T p n dc m tc ls gd rest
            (lightContribution light (fst (scanPrimitives (m_primitives T) 0
                 (shadowRayOf light p, None, None))) p n dc m tc gd tot) = Inr (t, c)"
    using Cons.IH by blast
  then show ?case by (simp add: traceRay_shadow)
qed

lemma finishPhong_Inr:
  "finishPhong tot n = Inr (c, n') \<Longrightarrow> n' = n"
  by (auto simp add: finishPhong_def split: sum.splits)

lemma phong_result:
  assumes "phong T p n0 dc m tc ls gd d = Inr (c, n)"
  shows "(d < m_maxRecursionDepth T
           \<and> (\<exists>c' rr n'. traceRay T (reflectionRayOf p (v3normalize n0) (v3normalize dc))
                            (m_primitives T) ls (d + 1) = Inr (c', rr, n')
                 \<and> phongCalls n = Suc (phongCalls n')
                 \<and> reflectionRays n = Suc (reflectionRays n')))
       \<or> (\<not> d < m_maxRecursionDepth T \<and> phongCalls n = 1 \<and> reflectionRays n = 0)"
proof -
  obtain t c1 where pl: "phongLights T p (v3normalize n0) (v3normalize dc) m tc ls gd ls
                            (ambientTerm gd m) = Inr (t, c1)"
    using phongLights_total by blast
  have z: "phongCalls c1 = 0" "reflectionRays c1 = 0"
    using phongLights_calls [OF pl] by simp_all
  show ?thesis
  proof (cases "d < m_maxRecursionDepth T")
    case True
    with assms pl obtain c' rr n' where
      tr: "traceRay T (reflectionRayOf p (v3normalize n0) (v3normalize dc))
                            (m_primitives T) ls (d + 1) = Inr (c', rr, n')"
      and fin: "finishPhong (addReflection gd m c' t)
                   (addCalls calledPhong (addCalls c1 (addCalls spawnedReflection n')))
                 = Inr (c, n)"
      by (auto simp add: phong.simps split: sum.splits)
    from finishPhong_Inr [OF fin] z
    have "phongCalls n = Suc (phongCalls n')" "reflectionRays n = Suc (reflectionRays n')"
      by (simp_all add: addCalls_def calledPhong_def spawnedReflection_def)
    with True tr show ?thesis by blast
  next
    case False
    with assms pl have fin: "finishPhong t (addCalls calledPhong c1) = Inr (c, n)"
      by (auto simp add: phong.simps split: sum.splits)
    from finishPhong_Inr [OF fin] z
    have "phongCalls n = 1" "reflectionRays n = 0"
      by (simp_all add: addCalls_def calledPhong_def)
    with False show ?thesis by blast
  qed
qed

lemma traceRay_result:
  assumes "traceRay T r ps ls d = Inr (c, r', n)"
  shows "r' = fst (scanPrimitives ps 0 (r, None, None))
         \<and> (n = noCalls
            \<or> (\<exists>p n0 dc m tc. phong T p n0 dc m tc ls (m_globalData T) d = Inr (c, n)))"
  using assms
  by (auto simp add: traceRay.simps split: prod.splits if_splits sum.splits)

lemma traceRay_reflection_bound:
  "nat (m_maxRecursionDepth T - d) = k \<Longrightarrow> traceRay T r ps ls d = Inr (c, r', n)
     \<Longrightarrow> reflectionRays n \<le> k \<and> reflectionRays n \<le> phongCalls n"
proof (induction k arbitrary: d r ps c r' n)
  case 0
  from traceRay_result [OF "0.prems"(2)]
  consider "n = noCalls"
    | p n0 dc m tc where "phong T p n0 dc m tc ls (m_globalData T) d = Inr (c, n)"
    by blast
  then show ?case
  proof cases
    case 1
    then show ?thesis by (simp add: noCalls_def)
  next
    case 2
    from phong_result [OF 2] "0.prems"(1) show ?thesis by auto
  qed
next
  case (Suc k)
  from traceRay_result [OF Suc.prems(2)]
  consider "n = noCalls"
    | p n0 dc m tc where "phong T p n0 dc m tc ls (m_globalData T) d = Inr (c, n)"
    by blast
  then show ?case
  proof cases
    case 1
    then show ?thesis by (simp add: noCalls_def)
  next
    case 2
    from phong_result [OF 2] show ?thesis
    proof (elim disjE conjE exE)
      fix c' rr n'
      assume lt: "d < m_maxRecursionDepth T"
        and tr: "traceRay T (reflectionRayOf p (v3normalize n0) (v3normalize dc))
                            (m_primitives T) ls (d + 1) = Inr (c', rr, n')"
        and pc: "phongCalls n = Suc (phongCalls n')"
        and rc: "reflectionRays n = Suc (reflectionRays n')"
      have "nat (m_maxRecursionDepth T - (d + 1)) = k" using Suc.prems(1) by arith
      from Suc.IH [OF this tr] pc rc show ?thesis by simp
    next
      assume "phongCalls n = 1" "reflectionRays n = 0"
      then show ?thesis by simp
    qed
  qed
qed

text \<open>
  The recursion of \<open>traceRay\<close>, \<open>phong\<close> and \<open>phongLights\<close> ends on every argument:
  each argument lies in the accessible part of the call relation.
\<close>

lemma traceRay_phong_terminate: "traceRay_phong_phongLights_dom x"
proof -
  have "All traceRay_phong_phongLights_dom"
    apply (relation "measures [
     (\<lambda>x. case x of
        Inl (T, r, ps, ls, d) \<Rightarrow>
          (if d = - 1 then 0 else 2 * nat (m_maxRecursionDepth T + 1 - d) + 3)
      | Inr (Inl (T, p, n, dc, m, tc, ls, gd, d)) \<Rightarrow>
          2 * nat (m_maxRecursionDepth T + 1 - d) + 2
      | Inr (Inr (T, p, n, dc, m, tc, ls, gd, rest, tot)) \<Rightarrow> 1),
     (\<lambda>x. case x of
        Inl (T, r, ps, ls, d) \<Rightarrow> 0
      | Inr (Inl (T, p, n, dc, m, tc, ls, gd, d)) \<Rightarrow> 0
      | Inr (Inr (T, p, n, dc, m, tc, ls, gd, rest, tot)) \<Rightarrow> length rest)]")
    apply simp_all
    apply arith
    done
  then show ?thesis by blast
qed

subsection \<open>The small scene, traced\<close>

lemma hit1: "hitData [unitSphere] (Some 0) (Some (Vec3 (Fin 0) (Fin 0) (Fin (1 / 2))))
        (ray5\<lparr> m_tIntersect := Fin (9 / 2) \<rparr>)
   = Inr (Vec3 (Fin 0) (Fin 0) (Fin (1 / 2)), Vec3 (Fin 0) (Fin 0) (Fin 1),
          Vec3 (Fin 0) (Fin 0) (Fin 1), mat0, Vec4 (Fin 0) (Fin 0) (Fin 0) (Fin 1))"
  by (simp add: hitData_def unitSphere_eval getTexture_def noTexture_def getWorldSpaceNormal_def
      Sphere_getObjSpaceNormal_def v3normalize_def getIntersectionPoint_def ray5_def ray_defs
      getMaterial_def)

lemma refl1:
  "reflectionRayOf (Vec3 (Fin 0) (Fin 0) (Fin (1 / 2)))
      (v3normalize (Vec3 (Fin 0) (Fin 0) (Fin 1)))
      (v3normalize (Vec3 (Fin 0) (Fin 0) (Fin 1))) = reflRay1"
  by (simp add: reflectionRayOf_def v3normalize_def v3reflect_def Let_def reflRay1_def)

lemma currT_refl: "currTOf unitSphere reflRay1 = PInf"
  by (simp add: unitSphere_eval currTOf_def objSpaceRayOf_def applyInverseCTM_def idM_def
      reflRay1_def ray_defs Sphere_getIntersectionT_def solveQuadratic_def)

lemma reflRay1_fresh: "m_tIntersect reflRay1 = PInf"
  by (simp add: reflRay1_def Ray_ctor_def infinity_def)

lemma scan_refl: "scanPrimitives [unitSphere] 0 (reflRay1, None, None) = (reflRay1, None, None)"
  by (simp add: scanStep_def currT_refl Let_def Ray_getIntersectionT_def reflRay1_fresh)

lemma tracer1_fields:
  "m_primitives tracer1 = [unitSphere]" "m_maxRecursionDepth tracer1 = 4"
  "m_globalData tracer1 = gd1"
  by (simp_all add: tracer1_def RayTracer_ctor_def)

lemma trace_refl:
  "traceRay tracer1 reflRay1 (m_primitives tracer1) [] (0 + 1) = Inr (black, reflRay1, noCalls)"
  unfolding tracer1_fields
  by (rule traceRay_miss [OF scan_refl]) (simp add: reflRay1_fresh)

lemma grey_rgba:
  "toRGBA (Vec4 (Fin (1 / 2)) (Fin (1 / 2)) (Fin (1 / 2)) (Fin 3))
     = Inr \<lparr> r8 = 127, g8 = 127, b8 = 127, a8 = 255 \<rparr>"
  by (simp add: toRGBA_def std_clamp_def to_uint8_def truncate_real_def)

lemma phong1:
  "phong tracer1 (Vec3 (Fin 0) (Fin 0) (Fin (1 / 2))) (Vec3 (Fin 0) (Fin 0) (Fin 1))
      (Vec3 (Fin 0) (Fin 0) (Fin 1)) mat0 (Vec4 (Fin 0) (Fin 0) (Fin 0) (Fin 1)) [] gd1 0
    = Inr (\<lparr> r8 = 127, g8 = 127, b8 = 127, a8 = 255 \<rparr>,
          \<lparr> phongCalls = 1, reflectionRays = 1, shadowRays = 0 \<rparr>)"
proof -
  have lt: "0 < m_maxRecursionDepth tracer1" by (simp add: tracer1_fields)
  show ?thesis
    by (subst phong_reflect_no_lights [OF lt refl1 trace_refl])
       (simp add: finishPhong_def addReflection_def ambientTerm_def gd1_def mat0_def
        RGBAtoSceneColor_def black_def grey_def grey_rgba addCalls_def calledPhong_def
        spawnedReflection_def noCalls_def)
qed

lemma trace1: "traceRay tracer1 ray5 [unitSphere] [] 0
   = Inr (\<lparr> r8 = 127, g8 = 127, b8 = 127, a8 = 255 \<rparr>, ray5\<lparr> m_tIntersect := Fin (9 / 2) \<rparr>,
          \<lparr> phongCalls = 1, reflectionRays = 1, shadowRays = 0 \<rparr>)"
  by (subst traceRay_hit [OF scan1 _ _ _ hit1]) (simp_all add: tracer1_fields phong1)

subsection \<open>C3: a shadow probe scans and does nothing else\<close>

text \<open>
  C3: \<open>traceRay\<close> at depth \<open>-1\<close> returns the ray that the scan over the primitives
  leaves, with the origin and the direction it came with and the nearest hit in its
  \<open>tHit\<close>. No primitive returns a positive parameter below the recorded \<open>tHit\<close>, and
  the recorded value is attained: either some primitive \<open>k\<close> of the list returned
  exactly this value, which is strictly positive and strictly below the \<open>tHit\<close> the ray
  came with, and no primitive before \<open>k\<close> returned it; or \<open>tHit\<close> is as it came and
  no primitive returned a positive parameter below it. The call returns black, and while
  it runs \<open>phong\<close> is not called and no reflection ray and no shadow ray is traced.
  This holds for every tracer, ray, list of primitives and list of lights.
\<close>

theorem C3_shadow_probe_only_scans:
  "traceRay T r ps ls (- 1)
     = Inr (\<lparr> r8 = 0, g8 = 0, b8 = 0, a8 = 255 \<rparr>,
            fst (scanPrimitives ps 0 (r, None, None)),
            \<lparr> phongCalls = 0, reflectionRays = 0, shadowRays = 0 \<rparr>)
   \<and> (\<forall>j<length ps. Fin 0 < currTOf (ps ! j) r
          \<longrightarrow> \<not> currTOf (ps ! j) r < m_tIntersect (fst (scanPrimitives ps 0 (r, None, None))))
   \<and> m_dir (fst (scanPrimitives ps 0 (r, None, None))) = m_dir r
   \<and> m_pos (fst (scanPrimitives ps 0 (r, None, None))) = m_pos r
   \<and> ((\<exists>k<length ps.
          currTOf (ps ! k) r = m_tIntersect (fst (scanPrimitives ps 0 (r, None, None)))
          \<and> Fin 0 < m_tIntersect (fst (scanPrimitives ps 0 (r, None, None)))
          \<and> m_tIntersect (fst (scanPrimitives ps 0 (r, None, None))) < m_tIntersect r
          \<and> (\<forall>j<k. currTOf (ps ! j) r
                     \<noteq> m_tIntersect (fst (scanPrimitives ps 0 (r, None, None)))))
       \<or> (m_tIntersect (fst (scanPrimitives ps 0 (r, None, None))) = m_tIntersect r
          \<and> (\<forall>j<length ps. \<not> (Fin 0 < currTOf (ps ! j) r
                                 \<and> currTOf (ps ! j) r < m_tIntersect r))))"
proof -
  obtain r' idx pt where scan: "scanPrimitives ps 0 (r, None, None) = (r', idx, pt)"
    by (cases "scanPrimitives ps 0 (r, None, None)") auto
  note inv = scan_inv [OF scan]
  have fs: "fst (scanPrimitives ps 0 (r, None, None)) = r'" using scan by simp
  have least: "\<forall>j<length ps. flt (Fin 0) (currTOf (ps ! j) r)
          \<longrightarrow> \<not> flt (currTOf (ps ! j) r) (m_tIntersect r')"
    using inv by blast
  have same: "m_dir r' = m_dir r \<and> m_pos r' = m_pos r"
    using scanPrimitives_same_ray [of ps 0 "(r, None, None)"] fs by simp
  have attained:
    "(\<exists>k<length ps. currTOf (ps ! k) r = m_tIntersect r'
          \<and> flt (Fin 0) (m_tIntersect r') \<and> flt (m_tIntersect r') (m_tIntersect r)
          \<and> (\<forall>j<k. currTOf (ps ! j) r \<noteq> m_tIntersect r'))
       \<or> (m_tIntersect r' = m_tIntersect r
          \<and> (\<forall>j<length ps. \<not> (flt (Fin 0) (currTOf (ps ! j) r)
                                 \<and> flt (currTOf (ps ! j) r) (m_tIntersect r))))"
  proof (cases idx)
    case None
    then have "m_tIntersect r' = m_tIntersect r" using inv by blast
    then show ?thesis using least by auto
  next
    case (Some k)
    then have sk: "scanPrimitives ps 0 (r, None, None) = (r', Some k, pt)" using scan by simp
    have "flt (m_tIntersect r') (m_tIntersect r)" using scan_some [OF sk] by blast
    moreover have "k < length ps" "currTOf (ps ! k) r = m_tIntersect r'"
      "flt (Fin 0) (m_tIntersect r')" "\<forall>j<k. currTOf (ps ! j) r \<noteq> m_tIntersect r'"
      using inv Some by blast+
    ultimately show ?thesis by blast
  qed
  show ?thesis
    unfolding fs using least same attained
    by (simp add: traceRay_shadow black_def noCalls_def fs)
qed

theorem C3_shadow_probe_only_scans_witness:
  "traceRay tracer1 ray5 [unitSphere] [] (- 1)
     = Inr (\<lparr> r8 = 0, g8 = 0, b8 = 0, a8 = 255 \<rparr>, ray5\<lparr> m_tIntersect := Fin (9 / 2) \<rparr>,
            \<lparr> phongCalls = 0, reflectionRays = 0, shadowRays = 0 \<rparr>)
   \<and> (0::nat) < length [unitSphere]
   \<and> currTOf ([unitSphere] ! 0) ray5 = Fin (9 / 2)
   \<and> m_tIntersect (fst (scanPrimitives [unitSphere] 0 (ray5, None, None))) = Fin (9 / 2)
   \<and> Fin 0 < currTOf ([unitSphere] ! 0) ray5
   \<and> \<not> currTOf ([unitSphere] ! 0) ray5 < Fin (9 / 2)
   \<and> Fin (9 / 2) < m_tIntersect ray5"
  using C3_shadow_probe_only_scans [of tracer1 ray5 "[unitSphere]" "[]"] scan1 currT_unitSphere
    ray5_fresh
  by simp

subsection \<open>C10: of two equal hits the earlier primitive wins\<close>

lemma redSphere_material: "getMaterial redSphere = mat1" "getMaterial unitSphere = mat0"
  by (simp_all add: getMaterial_def redSphere_eval unitSphere_eval)

lemma hitPoint5r:
  "getPos (objSpaceRayOf redSphere ray5) (Fin (9 / 2)) = Vec3 (Fin 0) (Fin 0) (Fin (1 / 2))"
  by (simp add: ray5_def ray_defs objSpaceRayOf_def redSphere_eval applyInverseCTM_def idM_def)

lemma scan2r: "scanPrimitives [redSphere, unitSphere] 0 (ray5, None, None)
   = (ray5\<lparr> m_tIntersect := Fin (9 / 2) \<rparr>, Some 0, Some (Vec3 (Fin 0) (Fin 0) (Fin (1 / 2))))"
  by (simp add: scanStep_def currT_unitSphere currT_redSphere Let_def Ray_getIntersectionT_def
      setIntersectionT_def ray5_fresh hitPoint5r currTOf_cong [of _ ray5])

lemma red_rgba:
  "toRGBA (Vec4 (Fin 1) (Fin 0) (Fin 0) (Fin 3))
     = Inr \<lparr> r8 = 255, g8 = 0, b8 = 0, a8 = 255 \<rparr>"
  by (simp add: toRGBA_def std_clamp_def to_uint8_def truncate_real_def)

lemma phong1r:
  "phong tracer1 (Vec3 (Fin 0) (Fin 0) (Fin (1 / 2))) (Vec3 (Fin 0) (Fin 0) (Fin 1))
      (Vec3 (Fin 0) (Fin 0) (Fin 1)) mat1 (Vec4 (Fin 0) (Fin 0) (Fin 0) (Fin 1)) [] gd1 0
    = Inr (\<lparr> r8 = 255, g8 = 0, b8 = 0, a8 = 255 \<rparr>,
          \<lparr> phongCalls = 1, reflectionRays = 1, shadowRays = 0 \<rparr>)"
proof -
  have lt: "0 < m_maxRecursionDepth tracer1" by (simp add: tracer1_fields)
  show ?thesis
    by (subst phong_reflect_no_lights [OF lt refl1 trace_refl])
       (simp add: finishPhong_def addReflection_def ambientTerm_def gd1_def mat0_def mat1_def
        RGBAtoSceneColor_def black_def grey_def red_rgba addCalls_def calledPhong_def
        spawnedReflection_def noCalls_def)
qed

lemma shade_data:
  "getTexture unitSphere p = Inr (Vec4 (Fin 0) (Fin 0) (Fin 0) (Fin 1))"
  "getTexture redSphere p = Inr (Vec4 (Fin 0) (Fin 0) (Fin 0) (Fin 1))"
  "getWorldSpaceNormal unitSphere (Vec3 (Fin 0) (Fin 0) (Fin (1 / 2)))
     = Vec3 (Fin 0) (Fin 0) (Fin 1)"
  "getWorldSpaceNormal redSphere (Vec3 (Fin 0) (Fin 0) (Fin (1 / 2)))
     = Vec3 (Fin 0) (Fin 0) (Fin 1)"
  "getIntersectionPoint (ray5\<lparr> m_tIntersect := Fin (9 / 2) \<rparr>)
     = Vec3 (Fin 0) (Fin 0) (Fin (1 / 2))"
  "v3neg (getDir (ray5\<lparr> m_tIntersect := Fin (9 / 2) \<rparr>)) = Vec3 (Fin 0) (Fin 0) (Fin 1)"
  by (simp_all add: unitSphere_eval redSphere_eval getTexture_def noTexture_def
      getWorldSpaceNormal_def Sphere_getObjSpaceNormal_def v3normalize_def
      getIntersectionPoint_def ray5_def ray_defs)

text \<open>
  C10: the update condition of the scan is strict. When the scan from a fresh state
  ends with the index \<open>k\<close>, then \<open>k\<close> is in the list, primitive \<open>k\<close> returned the
  recorded \<open>tHit\<close>, and no primitive before \<open>k\<close> returned that value: of several
  primitives hit at the same parameter, the first in the list is kept. No primitive
  returned a positive value below the recorded one. The recorded point is the point of
  the object-space ray of primitive \<open>k\<close> at the recorded \<open>tHit\<close>. At every depth but
  the shadow probe's, \<open>traceRay\<close> then returns what \<open>phong\<close> returns on the normal,
  the material and the texture colour of primitive \<open>k\<close> at that point; a fault of
  \<open>getTexture\<close> or of \<open>phong\<close> is passed on. In the small scene two spheres with
  different materials lie at the same place: the pixel has the colour of the one that
  comes first in the list, whichever that is.
\<close>

theorem C10_earlier_primitive_wins_ties:
  assumes "scanPrimitives ps 0 (r, None, None) = (r', Some k, pt)"
  shows "k < length ps
     \<and> currTOf (ps ! k) r = m_tIntersect r'
     \<and> (\<forall>j<k. currTOf (ps ! j) r \<noteq> m_tIntersect r')
     \<and> (\<forall>j<length ps. Fin 0 < currTOf (ps ! j) r
            \<longrightarrow> \<not> currTOf (ps ! j) r < m_tIntersect r')
     \<and> (\<exists>p. pt = Some p
          \<and> hitData ps (Some k) pt r' =
              (case getTexture (ps ! k) p of
                 Inl e \<Rightarrow> Inl e
               | Inr tex \<Rightarrow>
                   Inr (getIntersectionPoint r', getWorldSpaceNormal (ps ! k) p,
                        v3neg (getDir r'), getMaterial (ps ! k), tex))
          \<and> p = getPos (objSpaceRayOf (ps ! k) r) (m_tIntersect r')
          \<and> (d \<noteq> - 1 \<longrightarrow>
               traceRay T r ps ls d =
                 (case getTexture (ps ! k) p of
                    Inl e \<Rightarrow> Inl e
                  | Inr tex \<Rightarrow>
                      (case phong T (getIntersectionPoint r') (getWorldSpaceNormal (ps ! k) p)
                              (v3neg (getDir r')) (getMaterial (ps ! k)) tex ls
                              (m_globalData T) d of
                         Inl e \<Rightarrow> Inl e
                       | Inr (c, n) \<Rightarrow> Inr (c, r', n)))))"
proof -
  note inv = scan_inv [OF assms]
  note some = scan_some [OF assms]
  from inv have kl: "k < length ps" and pos: "flt (Fin 0) (m_tIntersect r')" by blast+
  define p where "p = getPos (objSpaceRayOf (ps ! k) r) (m_tIntersect r')"
  have p: "pt = Some p" using some p_def by simp
  have fin: "flt (m_tIntersect r') PInf" using some flt_below_inf by blast
  have hd: "hitData ps (Some k) pt r' =
              (case getTexture (ps ! k) p of
                 Inl e \<Rightarrow> Inl e
               | Inr tex \<Rightarrow>
                   Inr (getIntersectionPoint r', getWorldSpaceNormal (ps ! k) p,
                        v3neg (getDir r'), getMaterial (ps ! k), tex))"
    using kl p by (simp add: hitData_def Let_def)
  have tr: "d \<noteq> - 1 \<longrightarrow>
               traceRay T r ps ls d =
                 (case getTexture (ps ! k) p of
                    Inl e \<Rightarrow> Inl e
                  | Inr tex \<Rightarrow>
                      (case phong T (getIntersectionPoint r') (getWorldSpaceNormal (ps ! k) p)
                              (v3neg (getDir r')) (getMaterial (ps ! k)) tex ls
                              (m_globalData T) d of
                         Inl e \<Rightarrow> Inl e
                       | Inr (c, n) \<Rightarrow> Inr (c, r', n)))"
    using assms pos fin
    by (simp add: traceRay.simps Ray_getIntersectionT_def infinity_def hd split: sum.splits)
  have scan: "k < length ps
     \<and> currTOf (ps ! k) r = m_tIntersect r'
     \<and> (\<forall>j<k. currTOf (ps ! j) r \<noteq> m_tIntersect r')
     \<and> (\<forall>j<length ps. Fin 0 < currTOf (ps ! j) r
            \<longrightarrow> \<not> currTOf (ps ! j) r < m_tIntersect r')"
    using inv by simp
  have shade: "\<exists>p. pt = Some p
          \<and> hitData ps (Some k) pt r' =
              (case getTexture (ps ! k) p of
                 Inl e \<Rightarrow> Inl e
               | Inr tex \<Rightarrow>
                   Inr (getIntersectionPoint r', getWorldSpaceNormal (ps ! k) p,
                        v3neg (getDir r'), getMaterial (ps ! k), tex))
          \<and> p = getPos (objSpaceRayOf (ps ! k) r) (m_tIntersect r')
          \<and> (d \<noteq> - 1 \<longrightarrow>
               traceRay T r ps ls d =
                 (case getTexture (ps ! k) p of
                    Inl e \<Rightarrow> Inl e
                  | Inr tex \<Rightarrow>
                      (case phong T (getIntersectionPoint r') (getWorldSpaceNormal (ps ! k) p)
                              (v3neg (getDir r')) (getMaterial (ps ! k)) tex ls
                              (m_globalData T) d of
                         Inl e \<Rightarrow> Inl e
                       | Inr (c, n) \<Rightarrow> Inr (c, r', n))))"
    by (intro exI [of _ p] conjI) (rule p hd p_def tr)+
  show ?thesis using scan shade by blast
qed

theorem C10_earlier_primitive_wins_ties_witness:
  "scanPrimitives [unitSphere, redSphere] 0 (ray5, None, None)
     = (ray5\<lparr> m_tIntersect := Fin (9 / 2) \<rparr>, Some 0, Some (Vec3 (Fin 0) (Fin 0) (Fin (1 / 2))))
   \<and> currTOf ([unitSphere, redSphere] ! 0) ray5 = Fin (9 / 2)
   \<and> currTOf ([unitSphere, redSphere] ! 1) ray5 = Fin (9 / 2)
   \<and> (0::nat) < length [unitSphere, redSphere]
   \<and> currTOf ([unitSphere, redSphere] ! 0) ray5
        = m_tIntersect (ray5\<lparr> m_tIntersect := Fin (9 / 2) \<rparr>)
   \<and> getMaterial ([unitSphere, redSphere] ! 0) = mat0
   \<and> getMaterial ([unitSphere, redSphere] ! 1) = mat1
   \<and> traceRay tracer1 ray5 [unitSphere, redSphere] [] 0
       = Inr (\<lparr> r8 = 127, g8 = 127, b8 = 127, a8 = 255 \<rparr>,
              ray5\<lparr> m_tIntersect := Fin (9 / 2) \<rparr>,
              \<lparr> phongCalls = 1, reflectionRays = 1, shadowRays = 0 \<rparr>)
   \<and> scanPrimitives [redSphere, unitSphere] 0 (ray5, None, None)
     = (ray5\<lparr> m_tIntersect := Fin (9 / 2) \<rparr>, Some 0, Some (Vec3 (Fin 0) (Fin 0) (Fin (1 / 2))))
   \<and> traceRay tracer1 ray5 [redSphere, unitSphere] [] 0
       = Inr (\<lparr> r8 = 255, g8 = 0, b8 = 0, a8 = 255 \<rparr>,
              ray5\<lparr> m_tIntersect := Fin (9 / 2) \<rparr>,
              \<lparr> phongCalls = 1, reflectionRays = 1, shadowRays = 0 \<rparr>)"
proof -
  have a: "traceRay tracer1 ray5 [unitSphere, redSphere] [] 0
       = Inr (\<lparr> r8 = 127, g8 = 127, b8 = 127, a8 = 255 \<rparr>,
              ray5\<lparr> m_tIntersect := Fin (9 / 2) \<rparr>,
              \<lparr> phongCalls = 1, reflectionRays = 1, shadowRays = 0 \<rparr>)"
    using C10_earlier_primitive_wins_ties [OF scan2, of 0 tracer1 "[]"]
    by (simp add: shade_data redSphere_material tracer1_fields phong1)
  have b: "traceRay tracer1 ray5 [redSphere, unitSphere] [] 0
       = Inr (\<lparr> r8 = 255, g8 = 0, b8 = 0, a8 = 255 \<rparr>,
              ray5\<lparr> m_tIntersect := Fin (9 / 2) \<rparr>,
              \<lparr> phongCalls = 1, reflectionRays = 1, shadowRays = 0 \<rparr>)"
    using C10_earlier_primitive_wins_ties [OF scan2r, of 0 tracer1 "[]"]
    by (simp add: shade_data redSphere_material tracer1_fields phong1r)
  show ?thesis
    using C10_earlier_primitive_wins_ties [OF scan2] a b scan2 scan2r currT_redSphere
    by (simp add: redSphere_material)
qed

subsection \<open>C2: the reflection recursion is bounded by the depth\<close>

text \<open>
  C2: with the maximal depth 4 and a starting depth \<open>d \<le> 4\<close>, the recursion of
  \<open>traceRay\<close> ends, and a call that returns has traced at most \<open>4 - d\<close> reflection
  rays, never more than it made calls of \<open>phong\<close>. A call of \<open>phong\<close> at depth \<open>d\<close>
  that returns has either \<open>d < 4\<close> and traced exactly one reflection ray of its own, through
  \<open>traceRay\<close> at depth \<open>d + 1\<close>, or \<open>d = 4\<close> and traced none.
\<close>

theorem C2_reflection_recursion_bounded:
  assumes "m_maxRecursionDepth T = 4" and "d \<le> 4"
  shows "traceRay_phong_phongLights_dom (Inl (T, r, ps, ls, d))
     \<and> (\<forall>c r' n. traceRay T r ps ls d = Inr (c, r', n)
           \<longrightarrow> reflectionRays n \<le> nat (4 - d) \<and> reflectionRays n \<le> phongCalls n)
     \<and> (\<forall>p n0 dc m tc gd c n. phong T p n0 dc m tc ls gd d = Inr (c, n)
           \<longrightarrow> (d < 4
                 \<and> (\<exists>c' rr n'.
                       traceRay T (reflectionRayOf p (v3normalize n0) (v3normalize dc))
                         (m_primitives T) ls (d + 1) = Inr (c', rr, n')
                       \<and> reflectionRays n = Suc (reflectionRays n')))
               \<or> (\<not> d < 4 \<and> reflectionRays n = 0))"
proof -
  have k: "nat (m_maxRecursionDepth T - d) = nat (4 - d)" using assms by simp
  have a: "\<forall>c r' n. traceRay T r ps ls d = Inr (c, r', n)
           \<longrightarrow> reflectionRays n \<le> nat (4 - d) \<and> reflectionRays n \<le> phongCalls n"
    using traceRay_reflection_bound [OF k] by blast
  have b: "\<forall>p n0 dc m tc gd c n. phong T p n0 dc m tc ls gd d = Inr (c, n)
           \<longrightarrow> (d < 4
                 \<and> (\<exists>c' rr n'.
                       traceRay T (reflectionRayOf p (v3normalize n0) (v3normalize dc))
                         (m_primitives T) ls (d + 1) = Inr (c', rr, n')
                       \<and> reflectionRays n = Suc (reflectionRays n')))
               \<or> (\<not> d < 4 \<and> reflectionRays n = 0)"
  proof (intro allI impI)
    fix p n0 dc m tc gd c n
    assume "phong T p n0 dc m tc ls gd d = Inr (c, n)"
    from phong_result [OF this] assms(1)
    show "(d < 4
                 \<and> (\<exists>c' rr n'.
                       traceRay T (reflectionRayOf p (v3normalize n0) (v3normalize dc))
                         (m_primitives T) ls (d + 1) = Inr (c', rr, n')
                       \<and> reflectionRays n = Suc (reflectionRays n')))
               \<or> (\<not> d < 4 \<and> reflectionRays n = 0)"
      by auto
  qed
  show ?thesis using a b traceRay_phong_terminate by blast
qed

theorem C2_reflection_recursion_bounded_witness:
  "m_maxRecursionDepth tracer1 = 4 \<and> (0::int) \<le> 4
   \<and> traceRay tracer1 ray5 [unitSphere] [] 0
       = Inr (\<lparr> r8 = 127, g8 = 127, b8 = 127, a8 = 255 \<rparr>, ray5\<lparr> m_tIntersect := Fin (9 / 2) \<rparr>,
              \<lparr> phongCalls = 1, reflectionRays = 1, shadowRays = 0 \<rparr>)
   \<and> reflectionRays \<lparr> phongCalls = 1, reflectionRays = 1, shadowRays = 0 \<rparr> \<le> nat (4 - 0)
   \<and> traceRay_phong_phongLights_dom (Inl (tracer1, ray5, [unitSphere], [], 0))"
proof -
  have h1: "m_maxRecursionDepth tracer1 = 4" by (simp add: tracer1_fields)
  have h2: "(0::int) \<le> 4" by simp
  show ?thesis
    using C2_reflection_recursion_bounded [OF h1 h2, of ray5 "[unitSphere]" "[]"] trace1 h1
    by simp
qed

subsection \<open>C9: no read of an unassigned local\<close>

lemma to_int_fault: "to_int x = Inl e \<Longrightarrow> e = FloatToIntUndefined"
  by (auto simp add: to_int_def split: fl.splits if_splits)

lemma to_uint8_fault: "to_uint8 x = Inl e \<Longrightarrow> e = FloatToIntUndefined"
  by (auto simp add: to_uint8_def split: fl.splits if_splits)

lemma c_rem_fault: "c_rem x y = Inl e \<Longrightarrow> e = DivisionByZero"
  by (auto simp add: c_rem_def split: if_splits)

lemma toRGBA_fault: "toRGBA v = Inl e \<Longrightarrow> e = FloatToIntUndefined"
  by (auto simp add: toRGBA_def split: sum.splits dest: to_uint8_fault)

lemma finishPhong_fault: "finishPhong v n = Inl e \<Longrightarrow> e = FloatToIntUndefined"
  by (auto simp add: finishPhong_def split: sum.splits dest: toRGBA_fault)

lemma UVtoImgCoord_fault: "UVtoImgCoord tex UV ru rv = Inl e \<Longrightarrow> e \<noteq> UninitializedRead"
  by (auto simp add: UVtoImgCoord_def Let_def split: sum.splits dest: to_int_fault c_rem_fault)

lemma getTextureColorAtUV_fault:
  "getTextureColorAtUV tex UV ru rv = Inl e \<Longrightarrow> e \<noteq> UninitializedRead"
  by (auto simp add: getTextureColorAtUV_def Let_def split: sum.splits prod.splits if_splits
      dest: UVtoImgCoord_fault)

lemma getTexture_fault: "getTexture P p = Inl e \<Longrightarrow> e \<noteq> UninitializedRead"
  by (auto simp add: getTexture_def Let_def split: sum.splits if_splits
      dest: getTextureColorAtUV_fault)

lemma scan_assigned:
  assumes scan: "scanPrimitives ps 0 (r0, None, None) = (r, idx, pt)"
    and init: "m_tIntersect r0 = PInf"
    and hit: "flt (m_tIntersect r) PInf"
  shows "\<exists>k p. idx = Some k \<and> pt = Some p \<and> k < length ps"
proof -
  note inv = scan_inv [OF scan]
  have "idx \<noteq> None"
  proof
    assume "idx = None"
    with inv init have "m_tIntersect r = PInf" by simp
    with hit show False by simp
  qed
  then obtain k where k: "idx = Some k" by auto
  with inv have kl: "k < length ps" and "pt \<noteq> None" by blast+
  then obtain p where p: "pt = Some p" by auto
  show ?thesis using k p kl by simp
qed

lemma hitData_assigned:
  assumes scan: "scanPrimitives ps 0 (r0, None, None) = (r, idx, pt)"
    and init: "m_tIntersect r0 = PInf"
    and hit: "flt (m_tIntersect r) PInf"
  shows "hitData ps idx pt r \<noteq> Inl UninitializedRead"
proof -
  from scan_assigned [OF scan init hit]
  obtain k p where "idx = Some k" "pt = Some p" "k < length ps" by blast
  then show ?thesis
    by (auto simp add: hitData_def Let_def split: sum.splits dest: getTexture_fault)
qed

lemma phong_fault:
  assumes "phong T p n0 dc m tc ls gd d = Inl e"
  shows "e = FloatToIntUndefined
       \<or> (d < m_maxRecursionDepth T
           \<and> traceRay T (reflectionRayOf p (v3normalize n0) (v3normalize dc))
                (m_primitives T) ls (d + 1) = Inl e)"
proof -
  obtain t c1 where pl: "phongLights T p (v3normalize n0) (v3normalize dc) m tc ls gd ls
                            (ambientTerm gd m) = Inr (t, c1)"
    using phongLights_total by blast
  show ?thesis
    using assms pl
    by (auto simp add: phong.simps split: sum.splits if_splits dest: finishPhong_fault)
qed

lemma reflectionRay_fresh: "m_tIntersect (reflectionRayOf p n dc) = PInf"
  by (simp add: reflectionRayOf_def Let_def Ray_ctor_def infinity_def)

lemma traceRay_uninit_step:
  assumes init: "m_tIntersect r = PInf"
    and f: "traceRay T r ps ls d = Inl UninitializedRead"
  shows "d < m_maxRecursionDepth T
     \<and> (\<exists>rr. m_tIntersect rr = PInf
           \<and> traceRay T rr (m_primitives T) ls (d + 1) = Inl UninitializedRead)"
proof -
  obtain r' idx pt where scan: "scanPrimitives ps 0 (r, None, None) = (r', idx, pt)"
    by (cases "scanPrimitives ps 0 (r, None, None)") auto
  from f have hit: "flt (m_tIntersect r') PInf"
    using scan
    by (auto simp add: traceRay.simps Ray_getIntersectionT_def infinity_def split: if_splits)
  have hd: "hitData ps idx pt r' \<noteq> Inl UninitializedRead"
    by (rule hitData_assigned [OF scan init hit])
  from f scan hd obtain p n0 dc m tc where
    ph: "phong T p n0 dc m tc ls (m_globalData T) d = Inl UninitializedRead"
    by (auto simp add: traceRay.simps split: if_splits sum.splits)
  from phong_fault [OF ph] reflectionRay_fresh show ?thesis by blast
qed

lemma traceRay_no_uninit:
  "nat (m_maxRecursionDepth T - d) = k \<Longrightarrow> m_tIntersect r = PInf
     \<Longrightarrow> traceRay T r ps ls d \<noteq> Inl UninitializedRead"
proof (induction k arbitrary: d r ps)
  case 0
  show ?case
  proof
    assume "traceRay T r ps ls d = Inl UninitializedRead"
    from traceRay_uninit_step [OF "0.prems"(2) this] "0.prems"(1) show False by simp
  qed
next
  case (Suc k)
  show ?case
  proof
    assume "traceRay T r ps ls d = Inl UninitializedRead"
    from traceRay_uninit_step [OF Suc.prems(2) this]
    obtain rr where lt: "d < m_maxRecursionDepth T" and fr: "m_tIntersect rr = PInf"
      and tr: "traceRay T rr (m_primitives T) ls (d + 1) = Inl UninitializedRead" by blast
    have "nat (m_maxRecursionDepth T - (d + 1)) = k" using Suc.prems(1) by arith
    from Suc.IH [OF this fr] tr show False by blast
  qed
qed

text \<open>
  C9: when the ray handed to \<open>traceRay\<close> carries \<open>tHit = +infinity\<close>, the call never
  ends in the fault of reading an unassigned local, at any depth and with the calls
  nested in it; and whenever the scan leaves a \<open>tHit\<close> that passes the test of the
  shading branch, both locals hold a value and the index lies in the list.
\<close>

theorem C9_shading_reads_assigned_locals:
  assumes "m_tIntersect r = PInf"
  shows "traceRay T r ps ls d \<noteq> Inl UninitializedRead
     \<and> (\<forall>r' idx pt. scanPrimitives ps 0 (r, None, None) = (r', idx, pt)
            \<and> Fin 0 < Ray_getIntersectionT r' \<and> Ray_getIntersectionT r' < infinity
          \<longrightarrow> (\<exists>k p. idx = Some k \<and> pt = Some p \<and> k < length ps))"
proof -
  have a: "traceRay T r ps ls d \<noteq> Inl UninitializedRead"
    using traceRay_no_uninit [OF refl assms] .
  have b: "\<forall>r' idx pt. scanPrimitives ps 0 (r, None, None) = (r', idx, pt)
            \<and> Fin 0 < Ray_getIntersectionT r' \<and> Ray_getIntersectionT r' < infinity
          \<longrightarrow> (\<exists>k p. idx = Some k \<and> pt = Some p \<and> k < length ps)"
  proof (intro allI impI)
    fix r' idx pt
    assume h: "scanPrimitives ps 0 (r, None, None) = (r', idx, pt)
            \<and> Fin 0 < Ray_getIntersectionT r' \<and> Ray_getIntersectionT r' < infinity"
    then have scan: "scanPrimitives ps 0 (r, None, None) = (r', idx, pt)"
      and hit: "flt (m_tIntersect r') PInf"
      by (simp_all add: Ray_getIntersectionT_def infinity_def)
    from scan_assigned [OF scan assms hit]
    show "\<exists>k p. idx = Some k \<and> pt = Some p \<and> k < length ps" .
  qed
  show ?thesis using a b by blast
qed

theorem C9_shading_reads_assigned_locals_witness:
  "m_tIntersect ray5 = PInf
   \<and> traceRay tracer1 ray5 [unitSphere] [] 0 \<noteq> Inl UninitializedRead
   \<and> scanPrimitives [unitSphere] 0 (ray5, None, None)
       = (ray5\<lparr> m_tIntersect := Fin (9 / 2) \<rparr>, Some 0, Some (Vec3 (Fin 0) (Fin 0) (Fin (1 / 2))))
   \<and> Fin 0 < Ray_getIntersectionT (ray5\<lparr> m_tIntersect := Fin (9 / 2) \<rparr>)
   \<and> Ray_getIntersectionT (ray5\<lparr> m_tIntersect := Fin (9 / 2) \<rparr>) < infinity"
  using C9_shading_reads_assigned_locals [OF ray5_fresh, of tracer1 "[unitSphere]" "[]" 0]
    ray5_fresh scan1
  by (simp add: Ray_getIntersectionT_def infinity_def)

text \<open>
  The hypothesis is needed: a ray that carries a finite \<open>tHit\<close> from before passes
  the test of the shading branch although the scan assigned nothing.
\<close>

lemma stale_tHit_reads_unassigned_local:
  "traceRay T (r\<lparr> m_tIntersect := Fin 1 \<rparr>) [] ls 0 = Inl UninitializedRead"
  by (simp add: traceRay.simps Ray_getIntersectionT_def infinity_def hitData_def)

subsection \<open>C5: object space to world space and back\<close>

lemma isfinite_ex: "isfinite x \<Longrightarrow> \<exists>a. x = Fin a"
  by (cases x) auto

lemma finite_v4_ex: "finite_v4 v \<Longrightarrow> \<exists>a b c d. v = Vec4 (Fin a) (Fin b) (Fin c) (Fin d)"
  by (cases v) (auto dest!: isfinite_ex)

lemma finite_v3_ex: "finite_v3 v \<Longrightarrow> \<exists>a b c. v = Vec3 (Fin a) (Fin b) (Fin c)"
  by (cases v) (auto dest!: isfinite_ex)

lemma adjugate_real:
  "\<exists>k00 k01 k02 k03 k10 k11 k12 k13 k20 k21 k22 k23 k30 k31 k32 k33 d.
     m4cofactors (Mat4 (Vec4 (Fin a00) (Fin a01) (Fin a02) (Fin a03)) (Vec4 (Fin a10) (Fin a11) (Fin a12) (Fin a13)) (Vec4 (Fin a20) (Fin a21) (Fin a22) (Fin a23)) (Vec4 (Fin a30) (Fin a31) (Fin a32) (Fin a33)))
       = Mat4 (Vec4 (Fin k00) (Fin k01) (Fin k02) (Fin k03)) (Vec4 (Fin k10) (Fin k11) (Fin k12) (Fin k13)) (Vec4 (Fin k20) (Fin k21) (Fin k22) (Fin k23)) (Vec4 (Fin k30) (Fin k31) (Fin k32) (Fin k33))
   \<and> m4determinant (Mat4 (Vec4 (Fin a00) (Fin a01) (Fin a02) (Fin a03)) (Vec4 (Fin a10) (Fin a11) (Fin a12) (Fin a13)) (Vec4 (Fin a20) (Fin a21) (Fin a22) (Fin a23)) (Vec4 (Fin a30) (Fin a31) (Fin a32) (Fin a33))) = Fin d
   \<and> k00 * a00 + k10 * a01 + k20 * a02 + k30 * a03 = d
   \<and> k00 * a10 + k10 * a11 + k20 * a12 + k30 * a13 = 0
   \<and> k00 * a20 + k10 * a21 + k20 * a22 + k30 * a23 = 0
   \<and> k00 * a30 + k10 * a31 + k20 * a32 + k30 * a33 = 0
   \<and> k01 * a00 + k11 * a01 + k21 * a02 + k31 * a03 = 0
   \<and> k01 * a10 + k11 * a11 + k21 * a12 + k31 * a13 = d
   \<and> k01 * a20 + k11 * a21 + k21 * a22 + k31 * a23 = 0
   \<and> k01 * a30 + k11 * a31 + k21 * a32 + k31 * a33 = 0
   \<and> k02 * a00 + k12 * a01 + k22 * a02 + k32 * a03 = 0
   \<and> k02 * a10 + k12 * a11 + k22 * a12 + k32 * a13 = 0
   \<and> k02 * a20 + k12 * a21 + k22 * a22 + k32 * a23 = d
   \<and> k02 * a30 + k12 * a31 + k22 * a32 + k32 * a33 = 0"
  apply (simp add: m4cofactors_def m4determinant_def Let_def)
  apply (intro conjI)
  apply algebra+
  done

lemma affine_roundtrip_real:
  assumes det: "m4determinant (Mat4 (Vec4 (Fin a00) (Fin a01) (Fin a02) (Fin 0)) (Vec4 (Fin a10) (Fin a11) (Fin a12) (Fin 0)) (Vec4 (Fin a20) (Fin a21) (Fin a22) (Fin 0)) (Vec4 (Fin a30) (Fin a31) (Fin a32) (Fin 1))) \<noteq> Fin 0"
  shows "vec3_of (m4mulv (m4inverse (Mat4 (Vec4 (Fin a00) (Fin a01) (Fin a02) (Fin 0)) (Vec4 (Fin a10) (Fin a11) (Fin a12) (Fin 0)) (Vec4 (Fin a20) (Fin a21) (Fin a22) (Fin 0)) (Vec4 (Fin a30) (Fin a31) (Fin a32) (Fin 1))))
           (vec4_of (vec3_of (m4mulv (Mat4 (Vec4 (Fin a00) (Fin a01) (Fin a02) (Fin 0)) (Vec4 (Fin a10) (Fin a11) (Fin a12) (Fin 0)) (Vec4 (Fin a20) (Fin a21) (Fin a22) (Fin 0)) (Vec4 (Fin a30) (Fin a31) (Fin a32) (Fin 1))) (Vec4 (Fin x) (Fin y) (Fin z) (Fin w)))) (Fin w)))
         = Vec3 (Fin x) (Fin y) (Fin z)"
proof -
  obtain k00 k01 k02 k03 k10 k11 k12 k13 k20 k21 k22 k23 k30 k31 k32 k33 d where
    cof: "m4cofactors (Mat4 (Vec4 (Fin a00) (Fin a01) (Fin a02) (Fin 0)) (Vec4 (Fin a10) (Fin a11) (Fin a12) (Fin 0)) (Vec4 (Fin a20) (Fin a21) (Fin a22) (Fin 0)) (Vec4 (Fin a30) (Fin a31) (Fin a32) (Fin 1))) = Mat4 (Vec4 (Fin k00) (Fin k01) (Fin k02) (Fin k03)) (Vec4 (Fin k10) (Fin k11) (Fin k12) (Fin k13)) (Vec4 (Fin k20) (Fin k21) (Fin k22) (Fin k23)) (Vec4 (Fin k30) (Fin k31) (Fin k32) (Fin k33))"
    and dt: "m4determinant (Mat4 (Vec4 (Fin a00) (Fin a01) (Fin a02) (Fin 0)) (Vec4 (Fin a10) (Fin a11) (Fin a12) (Fin 0)) (Vec4 (Fin a20) (Fin a21) (Fin a22) (Fin 0)) (Vec4 (Fin a30) (Fin a31) (Fin a32) (Fin 1))) = Fin d"
    and ids0: "k00 * a00 + k10 * a01 + k20 * a02 + k30 * 0 = d" "k00 * a10 + k10 * a11 + k20 * a12 + k30 * 0 = 0" "k00 * a20 + k10 * a21 + k20 * a22 + k30 * 0 = 0" "k00 * a30 + k10 * a31 + k20 * a32 + k30 * 1 = 0" "k01 * a00 + k11 * a01 + k21 * a02 + k31 * 0 = 0" "k01 * a10 + k11 * a11 + k21 * a12 + k31 * 0 = d" "k01 * a20 + k11 * a21 + k21 * a22 + k31 * 0 = 0" "k01 * a30 + k11 * a31 + k21 * a32 + k31 * 1 = 0" "k02 * a00 + k12 * a01 + k22 * a02 + k32 * 0 = 0" "k02 * a10 + k12 * a11 + k22 * a12 + k32 * 0 = 0" "k02 * a20 + k12 * a21 + k22 * a22 + k32 * 0 = d" "k02 * a30 + k12 * a31 + k22 * a32 + k32 * 1 = 0"
    using adjugate_real [of a00 a01 a02 0 a10 a11 a12 0 a20 a21 a22 0 a30 a31 a32 1] by blast
  have ids: "k00 * a00 + k10 * a01 + k20 * a02 = d" "k00 * a10 + k10 * a11 + k20 * a12 = 0" "k00 * a20 + k10 * a21 + k20 * a22 = 0" "k00 * a30 + k10 * a31 + k20 * a32 + k30 = 0" "k01 * a00 + k11 * a01 + k21 * a02 = 0" "k01 * a10 + k11 * a11 + k21 * a12 = d" "k01 * a20 + k11 * a21 + k21 * a22 = 0" "k01 * a30 + k11 * a31 + k21 * a32 + k31 = 0" "k02 * a00 + k12 * a01 + k22 * a02 = 0" "k02 * a10 + k12 * a11 + k22 * a12 = 0" "k02 * a20 + k12 * a21 + k22 * a22 = d" "k02 * a30 + k12 * a31 + k22 * a32 + k32 = 0"
    using ids0 by simp_all
  have d0: "d \<noteq> 0" using det dt by simp
  have x: "(x * a00 + y * a10 + z * a20 + w * a30) * k00 + (x * a01 + y * a11 + z * a21 + w * a31) * k10 + (x * a02 + y * a12 + z * a22 + w * a32) * k20 + w * k30 = x * d"
  proof -
    have "(x * a00 + y * a10 + z * a20 + w * a30) * k00 + (x * a01 + y * a11 + z * a21 + w * a31) * k10 + (x * a02 + y * a12 + z * a22 + w * a32) * k20 + w * k30
          = x * (k00 * a00 + k10 * a01 + k20 * a02) + y * (k00 * a10 + k10 * a11 + k20 * a12) + z * (k00 * a20 + k10 * a21 + k20 * a22) + w * (k00 * a30 + k10 * a31 + k20 * a32 + k30)"
      by (simp add: algebra_simps)
    also have "\<dots> = x * d"
      using ids by simp
    finally show ?thesis .
  qed
  have y: "(x * a00 + y * a10 + z * a20 + w * a30) * k01 + (x * a01 + y * a11 + z * a21 + w * a31) * k11 + (x * a02 + y * a12 + z * a22 + w * a32) * k21 + w * k31 = y * d"
  proof -
    have "(x * a00 + y * a10 + z * a20 + w * a30) * k01 + (x * a01 + y * a11 + z * a21 + w * a31) * k11 + (x * a02 + y * a12 + z * a22 + w * a32) * k21 + w * k31
          = x * (k01 * a00 + k11 * a01 + k21 * a02) + y * (k01 * a10 + k11 * a11 + k21 * a12) + z * (k01 * a20 + k11 * a21 + k21 * a22) + w * (k01 * a30 + k11 * a31 + k21 * a32 + k31)"
      by (simp add: algebra_simps)
    also have "\<dots> = y * d"
      using ids by simp
    finally show ?thesis .
  qed
  have z: "(x * a00 + y * a10 + z * a20 + w * a30) * k02 + (x * a01 + y * a11 + z * a21 + w * a31) * k12 + (x * a02 + y * a12 + z * a22 + w * a32) * k22 + w * k32 = z * d"
  proof -
    have "(x * a00 + y * a10 + z * a20 + w * a30) * k02 + (x * a01 + y * a11 + z * a21 + w * a31) * k12 + (x * a02 + y * a12 + z * a22 + w * a32) * k22 + w * k32
          = x * (k02 * a00 + k12 * a01 + k22 * a02) + y * (k02 * a10 + k12 * a11 + k22 * a12) + z * (k02 * a20 + k12 * a21 + k22 * a22) + w * (k02 * a30 + k12 * a31 + k22 * a32 + k32)"
      by (simp add: algebra_simps)
    also have "\<dots> = z * d"
      using ids by simp
    finally show ?thesis .
  qed
  have gx: "(x * a00 + y * a10 + (z * a20 + w * a30)) * k00 / d + (x * a01 + y * a11 + (z * a21 + w * a31)) * k10 / d + ((x * a02 + y * a12 + (z * a22 + w * a32)) * k20 / d + w * k30 / d) = x"
  proof -
    have "(x * a00 + y * a10 + (z * a20 + w * a30)) * k00 / d + (x * a01 + y * a11 + (z * a21 + w * a31)) * k10 / d + ((x * a02 + y * a12 + (z * a22 + w * a32)) * k20 / d + w * k30 / d)
          = (((x * a00 + y * a10 + (z * a20 + w * a30)) * k00 + (x * a01 + y * a11 + (z * a21 + w * a31)) * k10) + ((x * a02 + y * a12 + (z * a22 + w * a32)) * k20 + w * k30)) / d"
      by (simp add: add_divide_distrib)
    also have "((x * a00 + y * a10 + (z * a20 + w * a30)) * k00 + (x * a01 + y * a11 + (z * a21 + w * a31)) * k10) + ((x * a02 + y * a12 + (z * a22 + w * a32)) * k20 + w * k30) = x * d"
      using x by (simp add: algebra_simps)
    finally show ?thesis using d0 by simp
  qed
  have gy: "(x * a00 + y * a10 + (z * a20 + w * a30)) * k01 / d + (x * a01 + y * a11 + (z * a21 + w * a31)) * k11 / d + ((x * a02 + y * a12 + (z * a22 + w * a32)) * k21 / d + w * k31 / d) = y"
  proof -
    have "(x * a00 + y * a10 + (z * a20 + w * a30)) * k01 / d + (x * a01 + y * a11 + (z * a21 + w * a31)) * k11 / d + ((x * a02 + y * a12 + (z * a22 + w * a32)) * k21 / d + w * k31 / d)
          = (((x * a00 + y * a10 + (z * a20 + w * a30)) * k01 + (x * a01 + y * a11 + (z * a21 + w * a31)) * k11) + ((x * a02 + y * a12 + (z * a22 + w * a32)) * k21 + w * k31)) / d"
      by (simp add: add_divide_distrib)
    also have "((x * a00 + y * a10 + (z * a20 + w * a30)) * k01 + (x * a01 + y * a11 + (z * a21 + w * a31)) * k11) + ((x * a02 + y * a12 + (z * a22 + w * a32)) * k21 + w * k31) = y * d"
      using y by (simp add: algebra_simps)
    finally show ?thesis using d0 by simp
  qed
  have gz: "(x * a00 + y * a10 + (z * a20 + w * a30)) * k02 / d + (x * a01 + y * a11 + (z * a21 + w * a31)) * k12 / d + ((x * a02 + y * a12 + (z * a22 + w * a32)) * k22 / d + w * k32 / d) = z"
  proof -
    have "(x * a00 + y * a10 + (z * a20 + w * a30)) * k02 / d + (x * a01 + y * a11 + (z * a21 + w * a31)) * k12 / d + ((x * a02 + y * a12 + (z * a22 + w * a32)) * k22 / d + w * k32 / d)
          = (((x * a00 + y * a10 + (z * a20 + w * a30)) * k02 + (x * a01 + y * a11 + (z * a21 + w * a31)) * k12) + ((x * a02 + y * a12 + (z * a22 + w * a32)) * k22 + w * k32)) / d"
      by (simp add: add_divide_distrib)
    also have "((x * a00 + y * a10 + (z * a20 + w * a30)) * k02 + (x * a01 + y * a11 + (z * a21 + w * a31)) * k12) + ((x * a02 + y * a12 + (z * a22 + w * a32)) * k22 + w * k32) = z * d"
      using z by (simp add: algebra_simps)
    finally show ?thesis using d0 by simp
  qed
  show ?thesis
    by (simp add: m4inverse_def cof dt d0 gx gy gz)
qed

lemma affine_roundtrip:
  assumes fin: "finite_m4 M" and aff: "affine_m4 M" and det: "m4determinant M \<noteq> Fin 0"
    and v: "finite_v3 v"
  shows "vec3_of (m4mulv (m4inverse M) (vec4_of (vec3_of (m4mulv M (vec4_of v (Fin w)))) (Fin w))) = v"
proof -
  obtain c0 c1 c2 c3 where M: "M = Mat4 c0 c1 c2 c3" by (cases M)
  from fin M have f: "finite_v4 c0" "finite_v4 c1" "finite_v4 c2" "finite_v4 c3" by simp_all
  from finite_v4_ex [OF f(1)] obtain a00 a01 a02 a03 where
    c0: "c0 = Vec4 (Fin a00) (Fin a01) (Fin a02) (Fin a03)" by blast
  from finite_v4_ex [OF f(2)] obtain a10 a11 a12 a13 where
    c1: "c1 = Vec4 (Fin a10) (Fin a11) (Fin a12) (Fin a13)" by blast
  from finite_v4_ex [OF f(3)] obtain a20 a21 a22 a23 where
    c2: "c2 = Vec4 (Fin a20) (Fin a21) (Fin a22) (Fin a23)" by blast
  from finite_v4_ex [OF f(4)] obtain a30 a31 a32 a33 where
    c3: "c3 = Vec4 (Fin a30) (Fin a31) (Fin a32) (Fin a33)" by blast
  from aff have row: "a03 = 0" "a13 = 0" "a23 = 0" "a33 = 1"
    by (simp_all add: M c0 c1 c2 c3)
  from finite_v3_ex [OF v] obtain x y z where vv: "v = Vec3 (Fin x) (Fin y) (Fin z)" by blast
  have det': "m4determinant (Mat4 (Vec4 (Fin a00) (Fin a01) (Fin a02) (Fin 0))
                 (Vec4 (Fin a10) (Fin a11) (Fin a12) (Fin 0))
                 (Vec4 (Fin a20) (Fin a21) (Fin a22) (Fin 0))
                 (Vec4 (Fin a30) (Fin a31) (Fin a32) (Fin 1))) \<noteq> Fin 0"
    using det by (simp add: M c0 c1 c2 c3 row)
  show ?thesis
    using affine_roundtrip_real [OF det', of x y z w]
    by (simp add: M c0 c1 c2 c3 row vv)
qed

lemma Primitive_ctor_matrices:
  "m_CTM (fst (Primitive_ctor shapeData dict sh)) = ctm shapeData"
  "m_inverseCTM (fst (Primitive_ctor shapeData dict sh)) = m4inverse (ctm shapeData)"
  "m_textureInfo (fst (Primitive_ctor shapeData dict sh)) = textureMap (material (primitive shapeData))"
  by (simp_all add: Primitive_ctor_def Let_def split: prod.splits)

lemma moveM_det: "m4determinant moveM = Fin 8"
  by (simp add: moveM_def m4determinant_def m4cofactors_def Let_def)

lemma skewM_inverse:
  "m4inverse skewM = Mat4 (Vec4 (Fin (- 1)) (Fin 0) (Fin 0) (Fin 1)) (Vec4 (Fin 0) (Fin 1) (Fin 0) (Fin 0))
                (Vec4 (Fin 0) (Fin 0) (Fin 1) (Fin 0)) (Vec4 (Fin 2) (Fin 0) (Fin 0) (Fin (- 1)))"
  by (simp add: skewM_def m4inverse_def m4determinant_def m4cofactors_def Let_def)

lemma skewSphere_matrices: "m_CTM skewSphere = skewM" "m_inverseCTM skewSphere = m4inverse skewM"
  by (simp_all add: skewSphere_def makePrimitive_def sphereData_def Primitive_ctor_matrices)

text \<open>
  C5 as stated, for every invertible transform, fails. Take an invertible transform
  whose fourth row is not \<open>(0, 0, 0, 1)\<close>: \<open>applyCTM\<close> drops
  the fourth coordinate of the product and \<open>applyInverseCTM\<close> puts 1 (or 0) in its
  place, so the way back starts from another vector. The point \<open>(1, 0, 0)\<close> goes to
  \<open>(3, 0, 0)\<close> and comes back as \<open>(-1, 0, 0)\<close>; the direction \<open>(1, 0, 0)\<close> comes
  back as \<open>(-1, 0, 0)\<close> too.
\<close>

theorem C5_roundtrip_counterexample:
  "finite_m4 skewM \<and> m4determinant skewM = Fin (- 1)
   \<and> applyCTM skewSphere (Vec3 (Fin 1) (Fin 0) (Fin 0)) False = Vec3 (Fin 3) (Fin 0) (Fin 0)
   \<and> applyInverseCTM skewSphere (applyCTM skewSphere (Vec3 (Fin 1) (Fin 0) (Fin 0)) False) False
        = Vec3 (Fin (- 1)) (Fin 0) (Fin 0)
   \<and> applyInverseCTM skewSphere (applyCTM skewSphere (Vec3 (Fin 1) (Fin 0) (Fin 0)) True) True
        = Vec3 (Fin (- 1)) (Fin 0) (Fin 0)"
  by (simp add: applyCTM_def applyInverseCTM_def skewSphere_matrices skewM_inverse)
     (simp add: skewM_def m4determinant_def m4cofactors_def Let_def)

text \<open>
  C5, amended: for a primitive built by the constructor from a transform with finite
  entries, a fourth row \<open>(0, 0, 0, 1)\<close> and a determinant other than zero, over exact
  arithmetic, \<open>applyInverseCTM\<close> after \<open>applyCTM\<close> returns every finite point
  (flag false) and every finite direction (flag true) unchanged.
\<close>

theorem C5_affine_transform_roundtrip:
  assumes "finite_m4 (ctm shapeData)" and "affine_m4 (ctm shapeData)"
    and "m4determinant (ctm shapeData) \<noteq> Fin 0"
    and "finite_v3 p" and "finite_v3 v"
  shows "applyInverseCTM (fst (Primitive_ctor shapeData dict sh))
           (applyCTM (fst (Primitive_ctor shapeData dict sh)) p False) False = p
     \<and> applyInverseCTM (fst (Primitive_ctor shapeData dict sh))
           (applyCTM (fst (Primitive_ctor shapeData dict sh)) v True) True = v"
  using affine_roundtrip [OF assms(1) assms(2) assms(3) assms(4), of 1]
    affine_roundtrip [OF assms(1) assms(2) assms(3) assms(5), of 0]
  by (simp add: applyCTM_def applyInverseCTM_def Primitive_ctor_matrices)

theorem C5_affine_transform_roundtrip_witness:
  "finite_m4 (ctm (sphereData\<lparr> ctm := moveM \<rparr>))
   \<and> affine_m4 (ctm (sphereData\<lparr> ctm := moveM \<rparr>))
   \<and> m4determinant (ctm (sphereData\<lparr> ctm := moveM \<rparr>)) = Fin 8
   \<and> finite_v3 (Vec3 (Fin 1) (Fin 1) (Fin 1)) \<and> finite_v3 (Vec3 (Fin 0) (Fin 0) (Fin 1))
   \<and> applyCTM (fst (Primitive_ctor (sphereData\<lparr> ctm := moveM \<rparr>) Map.empty (Sphere (Fin (1 / 2)))))
        (Vec3 (Fin 1) (Fin 1) (Fin 1)) False = Vec3 (Fin 3) (Fin 4) (Fin 5)
   \<and> applyInverseCTM (fst (Primitive_ctor (sphereData\<lparr> ctm := moveM \<rparr>) Map.empty (Sphere (Fin (1 / 2)))))
        (applyCTM (fst (Primitive_ctor (sphereData\<lparr> ctm := moveM \<rparr>) Map.empty (Sphere (Fin (1 / 2)))))
           (Vec3 (Fin 1) (Fin 1) (Fin 1)) False) False = Vec3 (Fin 1) (Fin 1) (Fin 1)
   \<and> applyInverseCTM (fst (Primitive_ctor (sphereData\<lparr> ctm := moveM \<rparr>) Map.empty (Sphere (Fin (1 / 2)))))
        (applyCTM (fst (Primitive_ctor (sphereData\<lparr> ctm := moveM \<rparr>) Map.empty (Sphere (Fin (1 / 2)))))
           (Vec3 (Fin 0) (Fin 0) (Fin 1)) True) True = Vec3 (Fin 0) (Fin 0) (Fin 1)"
proof -
  have h1: "finite_m4 (ctm (sphereData\<lparr> ctm := moveM \<rparr>))" by (simp add: moveM_def)
  have h2: "affine_m4 (ctm (sphereData\<lparr> ctm := moveM \<rparr>))" by (simp add: moveM_def)
  have h3: "m4determinant (ctm (sphereData\<lparr> ctm := moveM \<rparr>)) \<noteq> Fin 0" by (simp add: moveM_det)
  have h4: "finite_v3 (Vec3 (Fin 1) (Fin 1) (Fin 1))" by simp
  have h5: "finite_v3 (Vec3 (Fin 0) (Fin 0) (Fin 1))" by simp
  have ap: "applyCTM (fst (Primitive_ctor (sphereData\<lparr> ctm := moveM \<rparr>) Map.empty (Sphere (Fin (1 / 2)))))
        (Vec3 (Fin 1) (Fin 1) (Fin 1)) False = Vec3 (Fin 3) (Fin 4) (Fin 5)"
    by (simp add: applyCTM_def Primitive_ctor_matrices moveM_def)
  show ?thesis
    using C5_affine_transform_roundtrip [OF h1 h2 h3 h4 h5, of Map.empty "Sphere (Fin (1 / 2))"]
      h1 h2 h4 h5 ap moveM_det
    by simp
qed

subsection \<open>C6: the configuration does not reach the pixels\<close>

text \<open>
  No function of the tracer reads \<open>m_config\<close>: a tracer with another configuration
  traces, shades and renders the same.
\<close>

lemma phongLights_config:
  "phongLights (T\<lparr> m_config := c \<rparr>) p n dc m tc ls gd rest tot
     = phongLights T p n dc m tc ls gd rest tot"
  by (induction rest arbitrary: tot) (simp_all add: traceRay_shadow)

lemma phong_config_step:
  assumes "d < m_maxRecursionDepth T \<Longrightarrow>
             (\<And>r ps. traceRay (T\<lparr> m_config := c \<rparr>) r ps ls (d + 1) = traceRay T r ps ls (d + 1))"
  shows "phong (T\<lparr> m_config := c \<rparr>) p n0 dc m tc ls gd d = phong T p n0 dc m tc ls gd d"
proof (cases "d < m_maxRecursionDepth T")
  case True
  from assms [OF True] show ?thesis
    by (simp add: phong.simps phongLights_config cong: sum.case_cong prod.case_cong if_cong)
next
  case False
  then show ?thesis
    by (simp add: phong.simps phongLights_config cong: sum.case_cong prod.case_cong if_cong)
qed

lemma traceRay_config_step:
  assumes "\<And>p n0 dc m tc gd. phong (T\<lparr> m_config := c \<rparr>) p n0 dc m tc ls gd d
              = phong T p n0 dc m tc ls gd d"
  shows "traceRay (T\<lparr> m_config := c \<rparr>) r ps ls d = traceRay T r ps ls d"
  by (simp add: traceRay.simps assms cong: sum.case_cong prod.case_cong if_cong)

lemma traceRay_config_k:
  "nat (m_maxRecursionDepth T - d) = k \<Longrightarrow>
     traceRay (T\<lparr> m_config := c \<rparr>) r ps ls d = traceRay T r ps ls d"
proof (induction k arbitrary: d r ps)
  case 0
  show ?case
  proof (rule traceRay_config_step, rule phong_config_step)
    assume "d < m_maxRecursionDepth T"
    with "0.prems" show "\<And>r ps. traceRay (T\<lparr> m_config := c \<rparr>) r ps ls (d + 1) = traceRay T r ps ls (d + 1)"
      by simp
  qed
next
  case (Suc k)
  show ?case
  proof (rule traceRay_config_step, rule phong_config_step)
    fix r ps
    assume "d < m_maxRecursionDepth T"
    have "nat (m_maxRecursionDepth T - (d + 1)) = k" using Suc.prems by arith
    from Suc.IH [OF this]
    show "traceRay (T\<lparr> m_config := c \<rparr>) r ps ls (d + 1) = traceRay T r ps ls (d + 1)" .
  qed
qed

lemma traceRay_config:
  "traceRay (T\<lparr> m_config := c \<rparr>) r ps ls d = traceRay T r ps ls d"
  using traceRay_config_k [OF refl] .

lemma tracePixel_config:
  "tracePixel (T\<lparr> m_config := c \<rparr>) scene camera row col = tracePixel T scene camera row col"
  by (simp add: tracePixel_def traceRay_config)

lemma renderCols_config:
  "renderCols (T\<lparr> m_config := c \<rparr>) scene camera row cols img
     = renderCols T scene camera row cols img"
  by (induction cols arbitrary: img)
     (simp_all add: tracePixel_config cong: sum.case_cong if_cong)

lemma renderRows_config:
  "renderRows (T\<lparr> m_config := c \<rparr>) scene camera rows img
     = renderRows T scene camera rows img"
  by (induction rows arbitrary: img)
     (simp_all add: renderCols_config cong: sum.case_cong)

lemma render_config:
  "map_sum id snd (render (RayTracer_ctor c g) img scene)
     = map_sum id snd (render (RayTracer_ctor c' g') img scene)"
proof -
  let ?T = "\<lambda>c g. (RayTracer_ctor c g)\<lparr> m_primitives := getPrimitives scene,
                                          m_globalData := getGlobalData scene \<rparr>"
  have e: "?T c g = (?T c' g')\<lparr> m_config := c \<rparr>"
    by (simp add: RayTracer_ctor_def)
  have "renderRows (?T c g) scene (getCamera scene) [0 .. RayTraceScene_height scene - 1] img
        = renderRows (?T c' g') scene (getCamera scene) [0 .. RayTraceScene_height scene - 1] img"
    by (subst e) (rule renderRows_config)
  then show ?thesis
    by (simp add: render_def Let_def split: sum.splits)
qed

subsection \<open>The small scene, rendered\<close>

lemma scene1_fields:
  "m_imgWidth scene1 = 1" "m_imgHeight scene1 = 1" "m_primitiveList scene1 = [unitSphere]"
  "m_lights scene1 = []" "rd_globalData (m_renderData scene1) = gd1"
  by (simp_all add: scene1_def RayTraceScene_ctor_def renderData1_def sphereData_def mat0_def
      noTexture_def unitSphere_def split: prod.splits)

lemma camera1:
  "m_camera scene1 =
     \<lparr> m_aspectRatio = Fin 1, m_heightAngle = Fin 1, m_widthAngle = Fin 1,
       m_focalLength = Fin 0, m_aperature = Fin 0,
       m_camPos = Vec4 (Fin 0) (Fin 0) (Fin 5) (Fin 1),
       m_look = Vec4 (Fin 0) (Fin 0) (Fin (- 1)) (Fin 0),
       m_up = Vec4 (Fin 0) (Fin 1) (Fin 0) (Fin 0),
       m_u = Vec3 (Fin 1) (Fin 0) (Fin 0), m_v = Vec3 (Fin 0) (Fin 1) (Fin 0),
       m_w = Vec3 (Fin 0) (Fin 0) (Fin 1) \<rparr>"
  by (simp add: scene1_def RayTraceScene_ctor_def renderData1_def Camera_ctor_def cam1_def
      constructBasisVectors_def v3normalize_def Let_def split: prod.splits)

lemma pixelRay1:
  "Ray_ctor (vec3_of (m4mulv (getCameraMatrix (getCamera scene1))
               (vec4_of (getViewPlaneCoords 0 0 (Fin 1) scene1) (Fin 0))))
            (Camera_getPos (getCamera scene1)) = ray5"
  by (simp add: getCamera_def camera1 getCameraMatrix_def getViewPlaneCoords_def Let_def
      getWidthAngle_def getHeightAngle_def RayTraceScene_width_def RayTraceScene_height_def
      scene1_fields Camera_getPos_def ray5_def)

lemma tracer1_eq:
  "(RayTracer_ctor cfg0 gd1)\<lparr> m_primitives := [unitSphere], m_globalData := gd1 \<rparr> = tracer1"
  by (simp add: tracer1_def RayTracer_ctor_def)

lemma tracePixel1:
  "tracePixel tracer1 scene1 (getCamera scene1) 0 0 = Inr \<lparr> r8 = 127, g8 = 127, b8 = 127, a8 = 255 \<rparr>"
  by (simp add: tracePixel_def Let_def pixelRay1 tracer1_fields getLights_def scene1_fields trace1)

lemma render1:
  "render (RayTracer_ctor cfg0 gd1) [black] scene1
     = Inr (tracer1, [\<lparr> r8 = 127, g8 = 127, b8 = 127, a8 = 255 \<rparr>])"
  by (simp add: render_def Let_def getPrimitives_def getGlobalData_def scene1_fields tracer1_eq
      RayTraceScene_height_def RayTraceScene_width_def tracePixel1 upto.simps)

text \<open>
  C6: two tracers whose configurations agree on \<open>enableShadow\<close> and
  \<open>enableReflection\<close> and differ in any way in the other seven flags fill the same
  buffer for every scene (or stop with the same fault). The initial content of
  \<open>m_globalData\<close> does not matter either.
\<close>

theorem C6_other_flags_do_not_change_pixels:
  assumes "enableShadow cfgA = enableShadow cfgB" and "enableReflection cfgA = enableReflection cfgB"
  shows "map_sum id snd (render (RayTracer_ctor cfgA gdA) imageData scene)
       = map_sum id snd (render (RayTracer_ctor cfgB gdB) imageData scene)"
  by (rule render_config)

theorem C6_other_flags_do_not_change_pixels_witness:
  "enableShadow cfg0 = enableShadow cfg1 \<and> enableReflection cfg0 = enableReflection cfg1
   \<and> enableRefraction cfg0 \<noteq> enableRefraction cfg1
   \<and> map_sum id snd (render (RayTracer_ctor cfg0 gd1) [black] scene1)
        = Inr [\<lparr> r8 = 127, g8 = 127, b8 = 127, a8 = 255 \<rparr>]
   \<and> map_sum id snd (render (RayTracer_ctor cfg1 gd1) [black] scene1)
        = Inr [\<lparr> r8 = 127, g8 = 127, b8 = 127, a8 = 255 \<rparr>]"
proof -
  have h1: "enableShadow cfg0 = enableShadow cfg1" by (simp add: cfg0_def cfg1_def)
  have h2: "enableReflection cfg0 = enableReflection cfg1" by (simp add: cfg0_def cfg1_def)
  show ?thesis
    using C6_other_flags_do_not_change_pixels [OF h1 h2, of gd1 "[black]" scene1 gd1] render1
    by (simp add: cfg0_def cfg1_def)
qed

subsection \<open>C7: the colour of a light\<close>

lemma pi_not_le_zero: "\<not> pi \<le> 0"
  using pi_gt_zero by linarith

lemma spot1_fields:
  "m_type spot1 = LIGHT_SPOT" "m_lightData spot1 = spotData"
  "m_type point1 = LIGHT_POINT" "m_lightData point1 = spotData\<lparr> l_type := LIGHT_POINT \<rparr>"
  by (simp_all add: spot1_def point1_def Light_ctor_def spotData_def)

lemma theta_side: "spotTheta spot1 (Vec3 (Fin 1) (Fin 0) (Fin 0)) = Fin (pi / 2)"
  by (simp add: spotTheta_def spot1_fields spotData_def v3normalize_def v3length_def Let_def)

lemma theta_behind: "spotTheta spot1 (Vec3 (Fin 0) (Fin 0) (Fin 1)) = Fin pi"
  by (simp add: spotTheta_def spot1_fields spotData_def v3normalize_def v3length_def Let_def)

lemma theta_axis: "spotTheta spot1 (Vec3 (Fin 0) (Fin 0) (Fin (- 1))) = Fin 0"
  by (simp add: spotTheta_def spot1_fields spotData_def v3normalize_def v3length_def Let_def)

lemma falloff_side: "smoothFallOff spot1 (Fin (pi / 2)) = Fin (7 / 27)"
  by (simp add: smoothFallOff_def spot1_fields spotData_def Let_def pow2_def pow3_def field_simps)

lemma color_side:
  "getColor spot1 (Vec3 (Fin 1) (Fin 0) (Fin 0))
     = Vec4 (Fin (20 / 27)) (Fin (20 / 27)) (Fin (20 / 27)) (Fin 1)"
  by (simp add: getColor_def Let_def theta_side falloff_side spot1_fields)
     (simp add: spotData_def)

lemma color_behind:
  "getColor spot1 (Vec3 (Fin 0) (Fin 0) (Fin 1)) = Vec4 (Fin 0) (Fin 0) (Fin 0) (Fin 1)"
  by (simp add: getColor_def Let_def theta_behind spot1_fields)
     (simp add: spotData_def)

lemma color_axis:
  "getColor spot1 (Vec3 (Fin 0) (Fin 0) (Fin (- 1))) = Vec4 (Fin 1) (Fin 1) (Fin 1) (Fin 1)"
  by (simp add: getColor_def Let_def theta_axis spot1_fields)
     (simp add: spotData_def pi_not_le_zero)

lemma ease_bounds:
  fixes s :: real
  assumes "0 \<le> s" "s \<le> 1"
  shows "0 \<le> 1 - (- 2 * (s * s * s) + 3 * (s * s))" "1 - (- 2 * (s * s * s) + 3 * (s * s)) \<le> 1"
proof -
  have e: "1 - (- 2 * (s * s * s) + 3 * (s * s)) = (1 - s) * (1 - s) * (1 + 2 * s)"
    by (simp add: algebra_simps)
  have "0 \<le> (1 - s) * (1 - s) * (1 + 2 * s)"
    using assms by (intro mult_nonneg_nonneg) simp_all
  then show "0 \<le> 1 - (- 2 * (s * s * s) + 3 * (s * s))" by (simp only: e)
  have "0 \<le> s * s * (3 - 2 * s)"
    using assms by (intro mult_nonneg_nonneg) simp_all
  then show "1 - (- 2 * (s * s * s) + 3 * (s * s)) \<le> 1" by (simp add: algebra_simps)
qed

lemma falloff_factor:
  assumes spot: "m_type L = LIGHT_SPOT"
    and an: "l_angle (m_lightData L) = Fin a" and pn: "l_penumbra (m_lightData L) = Fin q"
    and q: "0 < q" and s: "s = (t - (a - q)) / q"
  shows "Fin 1 - smoothFallOff L (Fin t) = Fin (1 - (- 2 * (s * s * s) + 3 * (s * s)))"
proof -
  have "(Fin t - (Fin a - Fin q)) / (Fin a - (Fin a - Fin q)) = Fin s"
    using q by (simp add: s)
  then show ?thesis
    by (simp add: smoothFallOff_def spot an pn Let_def pow2_def pow3_def)
qed

lemma falloff_ends:
  assumes spot: "m_type L = LIGHT_SPOT"
    and an: "l_angle (m_lightData L) = Fin a" and pn: "l_penumbra (m_lightData L) = Fin q"
    and q: "0 < q"
  shows "Fin 1 - smoothFallOff L (Fin (a - q)) = Fin 1"
    and "Fin 1 - smoothFallOff L (Fin a) = Fin 0"
    and "a - q \<le> t \<Longrightarrow> t \<le> a \<Longrightarrow>
           Fin 0 \<le> Fin 1 - smoothFallOff L (Fin t) \<and> Fin 1 - smoothFallOff L (Fin t) \<le> Fin 1"
proof -
  have "(0::real) = (a - q - (a - q)) / q" by simp
  from falloff_factor [OF spot an pn q this]
  show "Fin 1 - smoothFallOff L (Fin (a - q)) = Fin 1" by simp
  have "(1::real) = (a - (a - q)) / q" using q by simp
  from falloff_factor [OF spot an pn q this]
  show "Fin 1 - smoothFallOff L (Fin a) = Fin 0" by simp
  assume t: "a - q \<le> t" "t \<le> a"
  let ?s = "(t - (a - q)) / q"
  have s0: "0 \<le> ?s" using t q by simp
  have s1: "?s \<le> 1" using t q by simp
  from ease_bounds [OF s0 s1] falloff_factor [OF spot an pn q refl, of t]
  show "Fin 0 \<le> Fin 1 - smoothFallOff L (Fin t) \<and> Fin 1 - smoothFallOff L (Fin t) \<le> Fin 1"
    by simp
qed

text \<open>
  C7 as stated fails in the penumbra band. Take a position in the band of the spot light: the angle is \<open>pi / 2\<close>, strictly
  between the inner angle \<open>3 pi / 8\<close> and the outer angle \<open>3 pi / 4\<close>, the normalised
  offset is \<open>1 / 3\<close> and the cubic ease there is \<open>7 / 27\<close>. The code returns the colour
  scaled by \<open>20 / 27\<close>, one minus the ease, not by the ease.
\<close>

theorem C7_penumbra_scale_counterexample:
  "spotTheta spot1 (Vec3 (Fin 1) (Fin 0) (Fin 0)) = Fin (pi / 2)
   \<and> l_angle spotData - l_penumbra spotData < Fin (pi / 2)
   \<and> Fin (pi / 2) < l_angle spotData
   \<and> (Fin (pi / 2) - (l_angle spotData - l_penumbra spotData))
        / (l_angle spotData - (l_angle spotData - l_penumbra spotData)) = Fin (1 / 3)
   \<and> Fin (- 2) * pow3 (Fin (1 / 3)) + Fin 3 * pow2 (Fin (1 / 3)) = Fin (7 / 27)
   \<and> getColor spot1 (Vec3 (Fin 1) (Fin 0) (Fin 0))
        = Vec4 (Fin (20 / 27)) (Fin (20 / 27)) (Fin (20 / 27)) (Fin 1)
   \<and> getColor spot1 (Vec3 (Fin 1) (Fin 0) (Fin 0))
        \<noteq> vec4_of (v3scale (Fin (7 / 27)) (vec3_of (l_color spotData))) (Fin 1)"
  by (simp add: theta_side color_side)
     (simp add: spotData_def pow2_def pow3_def field_simps)

text \<open>
  C7, amended: for a spot light with the angle \<open>theta\<close> between the direction of the
  spot and the vector from the light to the position, \<open>getColor\<close> returns
  \<open>(0, 0, 0, 1)\<close> when \<open>theta\<close> exceeds the outer angle; in the band from the inner
  angle (outer angle minus penumbra) to the outer angle it returns the red, green and
  blue of the light scaled by \<open>1 - (-2 x^3 + 3 x^2)\<close>, with
  \<open>x = (theta - inner) / (outer - inner)\<close>, and alpha 1; below the inner angle it
  returns the colour of the light. For a point or directional light it returns the
  colour of the light at every position. With finite angles and a positive penumbra
  the scale is 1 at the inner angle, 0 at the outer angle and between 0 and 1 in the
  band, so the colour falls smoothly from full to none.
\<close>

theorem C7_getColor_by_cases:
  "(m_type L = LIGHT_SPOT \<and> spotTheta L p > l_angle (m_lightData L)
      \<longrightarrow> getColor L p = Vec4 (Fin 0) (Fin 0) (Fin 0) (Fin 1))
   \<and> (m_type L = LIGHT_SPOT \<and> \<not> spotTheta L p > l_angle (m_lightData L)
        \<and> spotTheta L p \<ge> l_angle (m_lightData L) - l_penumbra (m_lightData L)
      \<longrightarrow> getColor L p =
            vec4_of
              (v3scale
                 (Fin 1 - (Fin (- 2) * pow3 ((spotTheta L p
                              - (l_angle (m_lightData L) - l_penumbra (m_lightData L)))
                            / (l_angle (m_lightData L)
                                 - (l_angle (m_lightData L) - l_penumbra (m_lightData L))))
                           + Fin 3 * pow2 ((spotTheta L p
                              - (l_angle (m_lightData L) - l_penumbra (m_lightData L)))
                            / (l_angle (m_lightData L)
                                 - (l_angle (m_lightData L) - l_penumbra (m_lightData L))))))
                 (vec3_of (l_color (m_lightData L))))
              (Fin 1))
   \<and> (m_type L = LIGHT_SPOT \<and> \<not> spotTheta L p > l_angle (m_lightData L)
        \<and> \<not> spotTheta L p \<ge> l_angle (m_lightData L) - l_penumbra (m_lightData L)
      \<longrightarrow> getColor L p = l_color (m_lightData L))
   \<and> (m_type L \<noteq> LIGHT_SPOT \<longrightarrow> getColor L p = l_color (m_lightData L))
   \<and> (m_type L = LIGHT_SPOT \<and> l_angle (m_lightData L) = Fin a
        \<and> l_penumbra (m_lightData L) = Fin q \<and> 0 < q
      \<longrightarrow> Fin 1 - smoothFallOff L (Fin (a - q)) = Fin 1
          \<and> Fin 1 - smoothFallOff L (Fin a) = Fin 0
          \<and> (a - q \<le> t \<and> t \<le> a
               \<longrightarrow> Fin 0 \<le> Fin 1 - smoothFallOff L (Fin t)
                   \<and> Fin 1 - smoothFallOff L (Fin t) \<le> Fin 1))"
proof -
  have cases: "(m_type L = LIGHT_SPOT \<and> spotTheta L p > l_angle (m_lightData L)
      \<longrightarrow> getColor L p = Vec4 (Fin 0) (Fin 0) (Fin 0) (Fin 1))
   \<and> (m_type L = LIGHT_SPOT \<and> \<not> spotTheta L p > l_angle (m_lightData L)
        \<and> spotTheta L p \<ge> l_angle (m_lightData L) - l_penumbra (m_lightData L)
      \<longrightarrow> getColor L p =
            vec4_of
              (v3scale
                 (Fin 1 - (Fin (- 2) * pow3 ((spotTheta L p
                              - (l_angle (m_lightData L) - l_penumbra (m_lightData L)))
                            / (l_angle (m_lightData L)
                                 - (l_angle (m_lightData L) - l_penumbra (m_lightData L))))
                           + Fin 3 * pow2 ((spotTheta L p
                              - (l_angle (m_lightData L) - l_penumbra (m_lightData L)))
                            / (l_angle (m_lightData L)
                                 - (l_angle (m_lightData L) - l_penumbra (m_lightData L))))))
                 (vec3_of (l_color (m_lightData L))))
              (Fin 1))
   \<and> (m_type L = LIGHT_SPOT \<and> \<not> spotTheta L p > l_angle (m_lightData L)
        \<and> \<not> spotTheta L p \<ge> l_angle (m_lightData L) - l_penumbra (m_lightData L)
      \<longrightarrow> getColor L p = l_color (m_lightData L))
   \<and> (m_type L \<noteq> LIGHT_SPOT \<longrightarrow> getColor L p = l_color (m_lightData L))"
    by (simp add: getColor_def smoothFallOff_def Let_def)
  have ends: "m_type L = LIGHT_SPOT \<and> l_angle (m_lightData L) = Fin a
        \<and> l_penumbra (m_lightData L) = Fin q \<and> 0 < q
      \<longrightarrow> Fin 1 - smoothFallOff L (Fin (a - q)) = Fin 1
          \<and> Fin 1 - smoothFallOff L (Fin a) = Fin 0
          \<and> (a - q \<le> t \<and> t \<le> a
               \<longrightarrow> Fin 0 \<le> Fin 1 - smoothFallOff L (Fin t)
                   \<and> Fin 1 - smoothFallOff L (Fin t) \<le> Fin 1)"
    using falloff_ends(1,2) [of L a q] falloff_ends(3) [of L a q t] by blast
  show ?thesis using cases ends by blast
qed

theorem C7_getColor_by_cases_witness:
  "m_type spot1 = LIGHT_SPOT
   \<and> spotTheta spot1 (Vec3 (Fin 0) (Fin 0) (Fin 1)) > l_angle (m_lightData spot1)
   \<and> getColor spot1 (Vec3 (Fin 0) (Fin 0) (Fin 1)) = Vec4 (Fin 0) (Fin 0) (Fin 0) (Fin 1)
   \<and> \<not> spotTheta spot1 (Vec3 (Fin 1) (Fin 0) (Fin 0)) > l_angle (m_lightData spot1)
   \<and> spotTheta spot1 (Vec3 (Fin 1) (Fin 0) (Fin 0))
        \<ge> l_angle (m_lightData spot1) - l_penumbra (m_lightData spot1)
   \<and> getColor spot1 (Vec3 (Fin 1) (Fin 0) (Fin 0))
        = Vec4 (Fin (20 / 27)) (Fin (20 / 27)) (Fin (20 / 27)) (Fin 1)
   \<and> \<not> spotTheta spot1 (Vec3 (Fin 0) (Fin 0) (Fin (- 1))) > l_angle (m_lightData spot1)
   \<and> \<not> spotTheta spot1 (Vec3 (Fin 0) (Fin 0) (Fin (- 1)))
        \<ge> l_angle (m_lightData spot1) - l_penumbra (m_lightData spot1)
   \<and> getColor spot1 (Vec3 (Fin 0) (Fin 0) (Fin (- 1))) = l_color (m_lightData spot1)
   \<and> m_type point1 \<noteq> LIGHT_SPOT
   \<and> getColor point1 (Vec3 (Fin 1) (Fin 0) (Fin 0)) = l_color (m_lightData point1)
   \<and> l_angle (m_lightData spot1) = Fin (3 * pi / 4)
   \<and> l_penumbra (m_lightData spot1) = Fin (3 * pi / 8)
   \<and> 0 < 3 * pi / 8
   \<and> Fin 1 - smoothFallOff spot1 (Fin (3 * pi / 4 - 3 * pi / 8)) = Fin 1
   \<and> Fin 1 - smoothFallOff spot1 (Fin (3 * pi / 4)) = Fin 0
   \<and> 3 * pi / 4 - 3 * pi / 8 \<le> pi / 2 \<and> pi / 2 \<le> 3 * pi / 4
   \<and> Fin 1 - smoothFallOff spot1 (Fin (pi / 2)) = Fin (20 / 27)"
proof -
  have a: "l_angle (m_lightData spot1) = Fin (3 * pi / 4)"
    and q: "l_penumbra (m_lightData spot1) = Fin (3 * pi / 8)"
    by (simp_all add: spot1_fields spotData_def)
  have q0: "0 < 3 * pi / 8" "3 * pi / 4 - 3 * pi / 8 \<le> pi / 2" "pi / 2 \<le> 3 * pi / 4"
    using pi_gt_zero by simp_all
  have e: "m_type spot1 = LIGHT_SPOT \<and> l_angle (m_lightData spot1) = Fin (3 * pi / 4)
        \<and> l_penumbra (m_lightData spot1) = Fin (3 * pi / 8) \<and> 0 < 3 * pi / 8"
    using a q q0 by (simp add: spot1_fields)
  have ends: "Fin 1 - smoothFallOff spot1 (Fin (3 * pi / 4 - 3 * pi / 8)) = Fin 1"
    "Fin 1 - smoothFallOff spot1 (Fin (3 * pi / 4)) = Fin 0"
    using C7_getColor_by_cases
            [of spot1 "Vec3 (Fin 1) (Fin 0) (Fin 0)" "3 * pi / 4" "3 * pi / 8" "pi / 2"] e
    by blast+
  have f: "Fin 1 - smoothFallOff spot1 (Fin (pi / 2)) = Fin (20 / 27)"
    by (simp add: falloff_side)
  have rest: "m_type spot1 = LIGHT_SPOT
   \<and> spotTheta spot1 (Vec3 (Fin 0) (Fin 0) (Fin 1)) > l_angle (m_lightData spot1)
   \<and> getColor spot1 (Vec3 (Fin 0) (Fin 0) (Fin 1)) = Vec4 (Fin 0) (Fin 0) (Fin 0) (Fin 1)
   \<and> \<not> spotTheta spot1 (Vec3 (Fin 1) (Fin 0) (Fin 0)) > l_angle (m_lightData spot1)
   \<and> spotTheta spot1 (Vec3 (Fin 1) (Fin 0) (Fin 0))
        \<ge> l_angle (m_lightData spot1) - l_penumbra (m_lightData spot1)
   \<and> getColor spot1 (Vec3 (Fin 1) (Fin 0) (Fin 0))
        = Vec4 (Fin (20 / 27)) (Fin (20 / 27)) (Fin (20 / 27)) (Fin 1)
   \<and> \<not> spotTheta spot1 (Vec3 (Fin 0) (Fin 0) (Fin (- 1))) > l_angle (m_lightData spot1)
   \<and> \<not> spotTheta spot1 (Vec3 (Fin 0) (Fin 0) (Fin (- 1)))
        \<ge> l_angle (m_lightData spot1) - l_penumbra (m_lightData spot1)
   \<and> getColor spot1 (Vec3 (Fin 0) (Fin 0) (Fin (- 1))) = l_color (m_lightData spot1)
   \<and> m_type point1 \<noteq> LIGHT_SPOT
   \<and> getColor point1 (Vec3 (Fin 1) (Fin 0) (Fin 0)) = l_color (m_lightData point1)"
    using C7_getColor_by_cases [of spot1 "Vec3 (Fin 0) (Fin 0) (Fin 1)" 0 1 0]
      C7_getColor_by_cases [of spot1 "Vec3 (Fin 1) (Fin 0) (Fin 0)" 0 1 0]
      C7_getColor_by_cases [of spot1 "Vec3 (Fin 0) (Fin 0) (Fin (- 1))" 0 1 0]
      C7_getColor_by_cases [of point1 "Vec3 (Fin 1) (Fin 0) (Fin 0)" 0 1 0]
    by (simp add: theta_side theta_behind theta_axis spot1_fields color_side)
       (simp add: spotData_def pi_not_le_zero pow2_def pow3_def)
  show ?thesis using rest a q q0 ends f by blast
qed

subsection \<open>C8: the colour of a primitive without texture\<close>

lemma texturedCube_fields:
  "m_texture texturedCube = Texture_default"
  "m_textureInfo texturedCube
     = \<lparr> isUsed = True, filename = ''missing.png'', repeatU = 1, repeatV = 1 \<rparr>"
  "shape texturedCube = Cube (Fin 1)"
  by (simp_all add: texturedCube_def makePrimitive_def texturedData_def Primitive_ctor_def
      map_index_def Let_def)

lemma texturedCube_faults:
  "getTexture texturedCube (Vec3 (Fin (1 / 2)) (Fin 0) (Fin 0)) = Inl DivisionByZero"
  by (simp add: getTexture_def texturedCube_fields Cube_XYZtoUV_def Let_def glm_clamp_def
      std_min_def std_max_def getTextureColorAtUV_def UVtoImgCoord_def Texture_default_def
      to_int_def truncate_real_def c_rem_def)

text \<open>
  The scalars that an operation maps to a finite value are finite themselves, and a
  quotient that is positive and finite has a divisor other than zero.
\<close>

lemma fdiv_Fin_pos:
  "fdiv x y = Fin t \<Longrightarrow> 0 < t \<Longrightarrow> \<exists>a b. x = Fin a \<and> y = Fin b \<and> b \<noteq> 0 \<and> t = a / b"
  by (cases x; cases y) (auto split: if_splits)

lemma fadd_Fin: "fadd x y = Fin s \<Longrightarrow> \<exists>a b. x = Fin a \<and> y = Fin b \<and> s = a + b"
  by (cases x; cases y) auto

lemma fmul_Fin: "fmul x y = Fin s \<Longrightarrow> \<exists>a b. x = Fin a \<and> y = Fin b \<and> s = a * b"
  by (cases x; cases y) (auto split: if_splits)

lemma fneg_Fin: "fneg x = Fin s \<Longrightarrow> x = Fin (- s)"
  by (cases x) auto

lemma fsqrt_Fin: "fsqrt x = Fin s \<Longrightarrow> \<exists>a. x = Fin a \<and> 0 \<le> a \<and> s = sqrt a"
  by (cases x) (auto split: if_splits)

lemma pos_below: "flt (Fin 0) x \<Longrightarrow> flt x y \<Longrightarrow> \<exists>t. x = Fin t \<and> 0 < t"
  by (cases x; cases y) auto

lemma pos_cases: "flt (Fin 0) x \<Longrightarrow> x = PInf \<or> (\<exists>t. x = Fin t \<and> 0 < t)"
  by (cases x) auto

lemma quadratic_root:
  fixes a b c t s :: real
  assumes a0: "a \<noteq> 0" and d0: "0 \<le> b * b - 4 * a * c" and s: "s = sqrt (b * b - 4 * a * c)"
    and t: "t = (- b - s) / (2 * a) \<or> t = (- b + s) / (2 * a)"
  shows "a * t * t + b * t + c = 0"
proof -
  have ss: "s * s = b * b - 4 * a * c" using d0 s by simp
  have "2 * a * t + b = - s \<or> 2 * a * t + b = s" using a0 t by (auto simp add: field_simps)
  then have "(2 * a * t + b) * (2 * a * t + b) = s * s" by auto
  then have "4 * a * (a * t * t + b * t + c) = 0" using ss by (simp add: algebra_simps)
  then show ?thesis using a0 by simp
qed

lemma root_of_formula:
  assumes q: "fdiv (fadd (fneg B) X) (fmul (Fin 2) A) = Fin t" and t0: "0 < t"
    and X: "X = fsqrt D \<or> X = fneg (fsqrt D)"
    and D: "D = fadd (fmul B B) (fneg (fmul (fmul (Fin 4) A) C))"
  shows "\<exists>a b c. A = Fin a \<and> B = Fin b \<and> C = Fin c \<and> a * t * t + b * t + c = 0"
proof -
  obtain n m where n: "fadd (fneg B) X = Fin n" and m: "fmul (Fin 2) A = Fin m"
    and m0: "m \<noteq> 0" and tn: "t = n / m"
    using fdiv_Fin_pos [OF q t0] by blast
  obtain a where a: "A = Fin a" and ma: "m = 2 * a" using fmul_Fin [OF m] by auto
  obtain nb x where nb: "fneg B = Fin nb" and x: "X = Fin x" and nx: "n = nb + x"
    using fadd_Fin [OF n] by blast
  define b where "b = - nb"
  have b: "B = Fin b" using fneg_Fin [OF nb] by (simp add: b_def)
  obtain s where s: "fsqrt D = Fin s" and xs: "x = s \<or> x = - s"
    using X x by (cases "fsqrt D") auto
  obtain d where d: "D = Fin d" and d0: "0 \<le> d" and sd: "s = sqrt d"
    using fsqrt_Fin [OF s] by blast
  obtain c where c: "C = Fin c"
    using D d a b by (cases C) (auto split: if_splits)
  have dd: "d = b * b - 4 * a * c" using D d a b c by simp
  have a0: "a \<noteq> 0" using m0 ma by simp
  have "t = (- b - s) / (2 * a) \<or> t = (- b + s) / (2 * a)"
    using tn nx xs ma b_def by auto
  from quadratic_root [OF a0 _ _ this, of c] d0 sd dd
  have "a * t * t + b * t + c = 0" by simp
  then show ?thesis using a b c by blast
qed

lemma solveQuadratic_cases:
  "solveQuadratic A B C = PInf
   \<or> (\<exists>t a b c. solveQuadratic A B C = Fin t \<and> 0 < t
         \<and> A = Fin a \<and> B = Fin b \<and> C = Fin c \<and> a * t * t + b * t + c = 0)"
proof -
  define D where "D = fadd (fmul B B) (fneg (fmul (fmul (Fin 4) A) C))"
  define t1 where "t1 = fdiv (fadd (fneg B) (fneg (fsqrt D))) (fmul (Fin 2) A)"
  define t2 where "t2 = fdiv (fadd (fneg B) (fsqrt D)) (fmul (Fin 2) A)"
  have sq: "solveQuadratic A B C =
     (if fle (Fin 0) D then
        if flt (Fin 0) t1 \<and> flt t1 t2 then t1
        else if flt (Fin 0) t2 \<and> flt t2 t1 then t2 else PInf
      else PInf)"
    by (simp add: solveQuadratic_def Let_def pow2_def D_def t1_def t2_def infinity_def)
  consider (one) "solveQuadratic A B C = t1" "flt (Fin 0) t1" "flt t1 t2"
    | (two) "solveQuadratic A B C = t2" "flt (Fin 0) t2" "flt t2 t1"
    | (none) "solveQuadratic A B C = PInf"
    using sq by (auto split: if_splits)
  then show ?thesis
  proof cases
    case one
    obtain t where t: "t1 = Fin t" "0 < t" using pos_below [OF one(2,3)] by blast
    have "fdiv (fadd (fneg B) (fneg (fsqrt D))) (fmul (Fin 2) A) = Fin t"
      using t t1_def by simp
    from root_of_formula [OF this t(2) _ D_def] one(1) t show ?thesis by auto
  next
    case two
    obtain t where t: "t2 = Fin t" "0 < t" using pos_below [OF two(2,3)] by blast
    have "fdiv (fadd (fneg B) (fsqrt D)) (fmul (Fin 2) A) = Fin t"
      using t t2_def by simp
    from root_of_formula [OF this t(2) _ D_def] two(1) t show ?thesis by auto
  next
    case none
    then show ?thesis by simp
  qed
qed

lemma sum_sq_Fin:
  "fadd (fmul x x) (fmul y y) = Fin s \<Longrightarrow> \<exists>a b. x = Fin a \<and> y = Fin b"
  by (cases x; cases y) auto

lemma ray_vecs:
  obtains dx dy dz px py pz where "m_dir ray = Vec3 dx dy dz" "m_pos ray = Vec3 px py pz"
  by (cases "m_dir ray"; cases "m_pos ray") auto

lemma Sphere_valid:
  "getIntersectionT (Sphere rad) ray = infinity
   \<or> spec_validIntersection (Sphere rad) ray (getIntersectionT (Sphere rad) ray)"
proof -
  obtain dx dy dz px py pz where v: "m_dir ray = Vec3 dx dy dz" "m_pos ray = Vec3 px py pz"
    by (rule ray_vecs)
  define A where "A = fadd (fadd (fmul dx dx) (fmul dy dy)) (fmul dz dz)"
  define B where "B = fadd (fadd (fmul (fmul (Fin 2) px) dx) (fmul (fmul (Fin 2) py) dy))
                        (fmul (fmul (Fin 2) pz) dz)"
  define C where "C = fadd (fadd (fadd (fmul px px) (fmul py py)) (fmul pz pz))
                        (fneg (fmul rad rad))"
  have g: "getIntersectionT (Sphere rad) ray = solveQuadratic A B C"
    by (simp add: Sphere_getIntersectionT_def getDir_def getOrigin_def pow2_def Let_def v
        A_def B_def C_def)
  from solveQuadratic_cases [of A B C] show ?thesis
  proof
    assume "solveQuadratic A B C = PInf"
    then show ?thesis using g by (simp add: infinity_def)
  next
    assume "\<exists>t a b c. solveQuadratic A B C = Fin t \<and> 0 < t
         \<and> A = Fin a \<and> B = Fin b \<and> C = Fin c \<and> a * t * t + b * t + c = 0"
    then obtain t a b c where r: "solveQuadratic A B C = Fin t" and t0: "0 < t"
      and a: "A = Fin a" and b: "B = Fin b" and c: "C = Fin c"
      and root: "a * t * t + b * t + c = 0" by blast
    obtain s1 z1 where "fadd (fmul dx dx) (fmul dy dy) = Fin s1" "fmul dz dz = Fin z1"
      using fadd_Fin [OF a [unfolded A_def]] by blast
    then obtain dx' dy' dz' where d: "dx = Fin dx'" "dy = Fin dy'" "dz = Fin dz'"
      using sum_sq_Fin fmul_Fin by metis
    obtain s2 r2 where s2: "fadd (fadd (fmul px px) (fmul py py)) (fmul pz pz) = Fin s2"
      and r2: "fneg (fmul rad rad) = Fin r2"
      using fadd_Fin [OF c [unfolded C_def]] by blast
    obtain s3 z3 where "fadd (fmul px px) (fmul py py) = Fin s3" "fmul pz pz = Fin z3"
      using fadd_Fin [OF s2] by blast
    then obtain px' py' pz' where p: "px = Fin px'" "py = Fin py'" "pz = Fin pz'"
      using sum_sq_Fin fmul_Fin by metis
    obtain rad' where rd: "rad = Fin rad'"
      using fmul_Fin [OF fneg_Fin [OF r2]] by blast
    have a': "a = dx' * dx' + dy' * dy' + dz' * dz'" using a d by (simp add: A_def)
    have b': "b = 2 * px' * dx' + 2 * py' * dy' + 2 * pz' * dz'" using b d p by (simp add: B_def)
    have c': "c = px' * px' + py' * py' + pz' * pz' - rad' * rad'"
      using c p rd by (simp add: C_def)
    have "(px' + t * dx') * (px' + t * dx') + (py' + t * dy') * (py' + t * dy')
            + (pz' + t * dz') * (pz' + t * dz') - rad' * rad' = a * t * t + b * t + c"
      unfolding a' b' c' by (simp add: algebra_simps)
    then have "(px' + t * dx') * (px' + t * dx') + (py' + t * dy') * (py' + t * dy')
            + (pz' + t * dz') * (pz' + t * dz') = rad' * rad'"
      using root by simp
    then have "spec_validIntersection (Sphere rad) ray (Fin t)"
      using t0 by (simp add: spec_validIntersection_def getPos_def v d p rd pow2_def
          infinity_def)
    then show ?thesis using g r by simp
  qed
qed

lemma plane_scalar:
  "(if flt (Fin 0) (fdiv (fadd (Fin k) (fneg pc)) dc)
    then fdiv (fadd (Fin k) (fneg pc)) dc else PInf) = R
   \<Longrightarrow> R = PInf \<or> (\<exists>t. R = Fin t \<and> 0 < t \<and> fadd pc (fmul (Fin t) dc) = Fin k)"
proof (cases "flt (Fin 0) (fdiv (fadd (Fin k) (fneg pc)) dc)")
  case True
  assume "(if flt (Fin 0) (fdiv (fadd (Fin k) (fneg pc)) dc)
    then fdiv (fadd (Fin k) (fneg pc)) dc else PInf) = R"
  then have R: "fdiv (fadd (Fin k) (fneg pc)) dc = R" using True by simp
  from pos_cases [OF True] show ?thesis
  proof
    assume "fdiv (fadd (Fin k) (fneg pc)) dc = PInf"
    then show ?thesis using R by simp
  next
    assume "\<exists>t. fdiv (fadd (Fin k) (fneg pc)) dc = Fin t \<and> 0 < t"
    then obtain t where t: "fdiv (fadd (Fin k) (fneg pc)) dc = Fin t" and t0: "0 < t" by blast
    obtain n m where n: "fadd (Fin k) (fneg pc) = Fin n" and m: "dc = Fin m" and m0: "m \<noteq> 0"
      and tn: "t = n / m"
      using fdiv_Fin_pos [OF t t0] by blast
    obtain q where q: "fneg pc = Fin q" and nq: "n = k + q" using fadd_Fin [OF n] by auto
    have pc: "pc = Fin (- q)" using fneg_Fin [OF q] .
    have "fadd pc (fmul (Fin t) dc) = Fin k" using pc m m0 tn nq by simp
    then show ?thesis using R t t0 by auto
  qed
next
  case False
  assume "(if flt (Fin 0) (fdiv (fadd (Fin k) (fneg pc)) dc)
    then fdiv (fadd (Fin k) (fneg pc)) dc else PInf) = R"
  then show ?thesis using False by simp
qed

lemma intersectPlane_cases:
  "intersectPlane (Vec3 dx dy dz) (Vec3 px py pz) pl (Fin k) = R \<Longrightarrow>
     R = PInf
   \<or> (\<exists>t. R = Fin t \<and> 0 < t
        \<and> (case pl of XY \<Rightarrow> fadd pz (fmul (Fin t) dz)
                    | XZ \<Rightarrow> fadd py (fmul (Fin t) dy)
                    | YZ \<Rightarrow> fadd px (fmul (Fin t) dx)) = Fin k)"
proof -
  assume R: "intersectPlane (Vec3 dx dy dz) (Vec3 px py pz) pl (Fin k) = R"
  show ?thesis
  proof (cases pl)
    case XY
    have "(if flt (Fin 0) (fdiv (fadd (Fin k) (fneg pz)) dz)
           then fdiv (fadd (Fin k) (fneg pz)) dz else PInf) = R"
      using R XY unfolding intersectPlane_def infinity_def by (simp add: Let_def)
    from plane_scalar [OF this] show ?thesis using XY by simp
  next
    case XZ
    have "(if flt (Fin 0) (fdiv (fadd (Fin k) (fneg py)) dy)
           then fdiv (fadd (Fin k) (fneg py)) dy else PInf) = R"
      using R XZ unfolding intersectPlane_def infinity_def by (simp add: Let_def)
    from plane_scalar [OF this] show ?thesis using XZ by simp
  next
    case YZ
    have "(if flt (Fin 0) (fdiv (fadd (Fin k) (fneg px)) dx)
           then fdiv (fadd (Fin k) (fneg px)) dx else PInf) = R"
      using R YZ unfolding intersectPlane_def infinity_def by (simp add: Let_def)
    from plane_scalar [OF this] show ?thesis using YZ by simp
  qed
qed

lemma plane_pair:
  "std_min (intersectPlane (Vec3 dx dy dz) (Vec3 px py pz) pl (Fin k1))
           (intersectPlane (Vec3 dx dy dz) (Vec3 px py pz) pl (Fin k2)) = R \<Longrightarrow>
     R = PInf
   \<or> (\<exists>t. R = Fin t \<and> 0 < t
        \<and> ((case pl of XY \<Rightarrow> fadd pz (fmul (Fin t) dz)
                    | XZ \<Rightarrow> fadd py (fmul (Fin t) dy)
                    | YZ \<Rightarrow> fadd px (fmul (Fin t) dx)) = Fin k1
           \<or> (case pl of XY \<Rightarrow> fadd pz (fmul (Fin t) dz)
                    | XZ \<Rightarrow> fadd py (fmul (Fin t) dy)
                    | YZ \<Rightarrow> fadd px (fmul (Fin t) dx)) = Fin k2))"
proof -
  assume R: "std_min (intersectPlane (Vec3 dx dy dz) (Vec3 px py pz) pl (Fin k1))
           (intersectPlane (Vec3 dx dy dz) (Vec3 px py pz) pl (Fin k2)) = R"
  then have "R = intersectPlane (Vec3 dx dy dz) (Vec3 px py pz) pl (Fin k1)
     \<or> R = intersectPlane (Vec3 dx dy dz) (Vec3 px py pz) pl (Fin k2)"
    by (auto simp add: std_min_def split: if_splits)
  then show ?thesis
  proof
    assume "R = intersectPlane (Vec3 dx dy dz) (Vec3 px py pz) pl (Fin k1)"
    from intersectPlane_cases [OF this [symmetric]] show ?thesis by blast
  next
    assume "R = intersectPlane (Vec3 dx dy dz) (Vec3 px py pz) pl (Fin k2)"
    from intersectPlane_cases [OF this [symmetric]] show ?thesis by blast
  qed
qed

lemma min_element_mem: "min_element x xs \<in> set (x # xs)"
  by (induction xs arbitrary: x) auto

lemma getSmallest_mem: "getSmallest l = infinity \<or> getSmallest l \<in> set l"
  using min_element_mem by (cases l) (auto simp add: getSmallest_def simp del: min_element.simps)


lemma Cube_valid:
  "getIntersectionT (Cube (Fin 1)) ray = infinity
   \<or> spec_validIntersection (Cube (Fin 1)) ray (getIntersectionT (Cube (Fin 1)) ray)"
proof -
  obtain dx dy dz px py pz where v: "m_dir ray = Vec3 dx dy dz" "m_pos ray = Vec3 px py pz"
    by (rule ray_vecs)
  define c1 where "c1 = std_min (intersectPlane (Vec3 dx dy dz) (Vec3 px py pz) XY (Fin (1 / 2)))
                                (intersectPlane (Vec3 dx dy dz) (Vec3 px py pz) XY (Fin (- (1 / 2))))"
  define c2 where "c2 = std_min (intersectPlane (Vec3 dx dy dz) (Vec3 px py pz) XZ (Fin (1 / 2)))
                                (intersectPlane (Vec3 dx dy dz) (Vec3 px py pz) XZ (Fin (- (1 / 2))))"
  define c3 where "c3 = std_min (intersectPlane (Vec3 dx dy dz) (Vec3 px py pz) YZ (Fin (1 / 2)))
                                (intersectPlane (Vec3 dx dy dz) (Vec3 px py pz) YZ (Fin (- (1 / 2))))"
  define l1 where "l1 = (if flt c1 PInf
        \<and> isInSquare (v3x (getPos ray c1)) (v3y (getPos ray c1)) (Fin 1) then [c1] else [])"
  define l2 where "l2 = (if flt c2 PInf
        \<and> isInSquare (v3x (getPos ray c2)) (v3z (getPos ray c2)) (Fin 1) then [c2] else [])"
  define l3 where "l3 = (if flt c3 PInf
        \<and> isInSquare (v3y (getPos ray c3)) (v3z (getPos ray c3)) (Fin 1) then [c3] else [])"
  have g: "getIntersectionT (Cube (Fin 1)) ray = getSmallest (l1 @ l2 @ l3)"
    unfolding l1_def l2_def l3_def c1_def c2_def c3_def
    by (simp add: Cube_getIntersectionT_def Let_def getDir_def getOrigin_def v infinity_def)
  have e1: "spec_validIntersection (Cube (Fin 1)) ray e" if "e \<in> set l1" for e
  proof -
    from that have e: "e = c1" and f: "flt c1 PInf"
      and sq: "isInSquare (v3x (getPos ray c1)) (v3y (getPos ray c1)) (Fin 1)"
      by (auto simp add: l1_def split: if_splits)
    from plane_pair [OF c1_def [symmetric]] f obtain t where t: "c1 = Fin t" "0 < t"
      and z: "fadd pz (fmul (Fin t) dz) = Fin (1 / 2) \<or> fadd pz (fmul (Fin t) dz) = Fin (- (1 / 2))"
      by auto
    show ?thesis
      using t z sq unfolding e
      by (auto simp add: spec_validIntersection_def isInSquare_def getPos_def v infinity_def)
  qed
  have e2: "spec_validIntersection (Cube (Fin 1)) ray e" if "e \<in> set l2" for e
  proof -
    from that have e: "e = c2" and f: "flt c2 PInf"
      and sq: "isInSquare (v3x (getPos ray c2)) (v3z (getPos ray c2)) (Fin 1)"
      by (auto simp add: l2_def split: if_splits)
    from plane_pair [OF c2_def [symmetric]] f obtain t where t: "c2 = Fin t" "0 < t"
      and z: "fadd py (fmul (Fin t) dy) = Fin (1 / 2) \<or> fadd py (fmul (Fin t) dy) = Fin (- (1 / 2))"
      by auto
    show ?thesis
      using t z sq unfolding e
      by (auto simp add: spec_validIntersection_def isInSquare_def getPos_def v infinity_def)
  qed
  have e3: "spec_validIntersection (Cube (Fin 1)) ray e" if "e \<in> set l3" for e
  proof -
    from that have e: "e = c3" and f: "flt c3 PInf"
      and sq: "isInSquare (v3y (getPos ray c3)) (v3z (getPos ray c3)) (Fin 1)"
      by (auto simp add: l3_def split: if_splits)
    from plane_pair [OF c3_def [symmetric]] f obtain t where t: "c3 = Fin t" "0 < t"
      and z: "fadd px (fmul (Fin t) dx) = Fin (1 / 2) \<or> fadd px (fmul (Fin t) dx) = Fin (- (1 / 2))"
      by auto
    show ?thesis
      using t z sq unfolding e
      by (auto simp add: spec_validIntersection_def isInSquare_def getPos_def v infinity_def)
  qed
  from getSmallest_mem [of "l1 @ l2 @ l3"] show ?thesis
    unfolding g using e1 e2 e3 by auto
qed

lemma Cylinder_valid:
  "getIntersectionT (Cylinder (Fin 1) rad) ray = infinity
   \<or> spec_validIntersection (Cylinder (Fin 1) rad) ray
        (getIntersectionT (Cylinder (Fin 1) rad) ray)"
proof -
  obtain dx dy dz px py pz where v: "m_dir ray = Vec3 dx dy dz" "m_pos ray = Vec3 px py pz"
    by (rule ray_vecs)
  define c1 where "c1 = std_min (intersectPlane (Vec3 dx dy dz) (Vec3 px py pz) XZ (Fin (1 / 2)))
                                (intersectPlane (Vec3 dx dy dz) (Vec3 px py pz) XZ (Fin (- (1 / 2))))"
  define A where "A = fadd (fmul dx dx) (fmul dz dz)"
  define B where "B = fmul (Fin 2) (fadd (fmul dx px) (fmul dz pz))"
  define C where "C = fadd (fadd (fmul px px) (fmul pz pz)) (fneg (fmul rad rad))"
  define c2 where "c2 = solveQuadratic A B C"
  define l1 where "l1 = (if fle (fadd (pow2 (v3x (getPos ray c1))) (pow2 (v3z (getPos ray c1))))
                                (pow2 rad) then [c1] else [])"
  define l2 where "l2 = (if flt c2 PInf \<and> fle (Fin (- (1 / 2))) (v3y (getPos ray c2))
                            \<and> fle (v3y (getPos ray c2)) (Fin (1 / 2)) then [c2] else [])"
  have g: "getIntersectionT (Cylinder (Fin 1) rad) ray = getSmallest (l1 @ l2)"
    unfolding l1_def l2_def c1_def c2_def A_def B_def C_def
    by (simp add: Cylinder_getIntersectionT_def Let_def getDir_def getOrigin_def v infinity_def
        pow2_def)
  have e1: "e = infinity \<or> spec_validIntersection (Cylinder (Fin 1) rad) ray e"
    if "e \<in> set l1" for e
  proof -
    from that have e: "e = c1"
      and disk: "fle (fadd (pow2 (v3x (getPos ray c1))) (pow2 (v3z (getPos ray c1)))) (pow2 rad)"
      by (auto simp add: l1_def split: if_splits)
    from plane_pair [OF c1_def [symmetric]]
    consider "c1 = PInf"
      | t where "c1 = Fin t" "0 < t"
        "fadd py (fmul (Fin t) dy) = Fin (1 / 2) \<or> fadd py (fmul (Fin t) dy) = Fin (- (1 / 2))"
      by auto
    then show ?thesis
    proof cases
      case 1
      then show ?thesis using e by (simp add: infinity_def)
    next
      case 2
      then show ?thesis
        using disk unfolding e
        by (auto simp add: spec_validIntersection_def getPos_def v infinity_def)
    qed
  qed
  have e2: "spec_validIntersection (Cylinder (Fin 1) rad) ray e" if "e \<in> set l2" for e
  proof -
    from that have e: "e = c2" and f: "flt c2 PInf"
      and lo: "fle (Fin (- (1 / 2))) (v3y (getPos ray c2))"
      and hi: "fle (v3y (getPos ray c2)) (Fin (1 / 2))"
      by (auto simp add: l2_def split: if_splits)
    from solveQuadratic_cases [of A B C] f
    obtain t a b c where r: "c2 = Fin t" and t0: "0 < t"
      and a: "A = Fin a" and b: "B = Fin b" and c: "C = Fin c"
      and root: "a * t * t + b * t + c = 0"
      unfolding c2_def by auto
    obtain dx' dz' where d: "dx = Fin dx'" "dz = Fin dz'"
      using sum_sq_Fin [OF a [unfolded A_def]] by blast
    obtain s2 r2 where s2: "fadd (fmul px px) (fmul pz pz) = Fin s2"
      and r2: "fneg (fmul rad rad) = Fin r2"
      using fadd_Fin [OF c [unfolded C_def]] by blast
    obtain px' pz' where p: "px = Fin px'" "pz = Fin pz'"
      using sum_sq_Fin [OF s2] by blast
    obtain rad' where rd: "rad = Fin rad'"
      using fmul_Fin [OF fneg_Fin [OF r2]] by blast
    have a': "a = dx' * dx' + dz' * dz'" using a d by (simp add: A_def)
    have b': "b = 2 * (dx' * px' + dz' * pz')" using b d p by (simp add: B_def)
    have c': "c = px' * px' + pz' * pz' - rad' * rad'" using c p rd by (simp add: C_def)
    have "(px' + t * dx') * (px' + t * dx') + (pz' + t * dz') * (pz' + t * dz') - rad' * rad'
            = a * t * t + b * t + c"
      unfolding a' b' c' by (simp add: algebra_simps)
    then have on: "(px' + t * dx') * (px' + t * dx') + (pz' + t * dz') * (pz' + t * dz')
            = rad' * rad'"
      using root by simp
    show ?thesis
      using t0 on lo hi unfolding e r
      by (simp add: spec_validIntersection_def getPos_def v d p rd pow2_def infinity_def)
  qed
  from getSmallest_mem [of "l1 @ l2"] show ?thesis
    unfolding g using e1 e2 by auto
qed

lemma upRay_cone: "getIntersectionT (Cone (Fin (1 / 2)) (Fin 1)) upRay = Fin (- (11 / 2))"
  by (simp add: upRay_def ray_defs Cone_getIntersectionT_def solveQuadraticBothSolutions_def
      getSmallest_def)

lemma upRay_no_valid: "\<not> spec_validIntersection (Cone (Fin (1 / 2)) (Fin 1)) upRay t"
  by (cases t) (auto simp add: spec_validIntersection_def upRay_def ray_defs)

lemma missRay_no_valid: "\<not> spec_validIntersection (Sphere (Fin (1 / 2))) missRay t"
proof (cases t)
  case (Fin x)
  have "0 \<le> (5 - x) * (5 - x)" by simp
  then have "25 + 25 + (5 - x) * (5 - x) \<noteq> 1 / 4" by linarith
  then show ?thesis
    using Fin by (simp add: spec_validIntersection_def missRay_def ray_defs)
qed (simp_all add: spec_validIntersection_def infinity_def)

lemma Primitive_ctor_shape: "shape (fst (Primitive_ctor shapeData dict sh)) = sh"
  by (simp add: Primitive_ctor_def Let_def split: prod.splits)

lemma makePrimitive_shape:
  "shape (fst (makePrimitive shapeData dict)) =
     (case prim_type (primitive shapeData) of
        PRIMITIVE_SPHERE \<Rightarrow> Sphere (Fin (1 / 2))
      | PRIMITIVE_CONE \<Rightarrow> Cone (Fin (1 / 2)) (Fin 1)
      | PRIMITIVE_CUBE \<Rightarrow> Cube (Fin 1)
      | PRIMITIVE_CYLINDER \<Rightarrow> Cylinder (Fin 1) (Fin (1 / 2)))"
  by (cases "prim_type (primitive shapeData)")
     (simp_all add: makePrimitive_def Primitive_ctor_shape)

lemma built_shape_valid:
  assumes "prim_type (primitive shapeData) \<noteq> PRIMITIVE_CONE"
  shows "getIntersectionT (shape (fst (makePrimitive shapeData dict))) ray = infinity
     \<or> spec_validIntersection (shape (fst (makePrimitive shapeData dict))) ray
          (getIntersectionT (shape (fst (makePrimitive shapeData dict))) ray)"
proof (cases "prim_type (primitive shapeData)")
  case PRIMITIVE_SPHERE
  then show ?thesis
    using Sphere_valid [of "Fin (1 / 2)" ray] by (simp only: makePrimitive_shape PrimitiveType.case)
next
  case PRIMITIVE_CONE
  then show ?thesis using assms by simp
next
  case PRIMITIVE_CUBE
  then show ?thesis
    using Cube_valid [of ray] by (simp only: makePrimitive_shape PrimitiveType.case)
next
  case PRIMITIVE_CYLINDER
  then show ?thesis
    using Cylinder_valid [of "Fin (1 / 2)" ray]
    by (simp only: makePrimitive_shape PrimitiveType.case)
qed

lemma ray5_sphere:
  "getIntersectionT (Sphere (Fin (1 / 2))) ray5 = Fin (9 / 2)"
  "spec_validIntersection (Sphere (Fin (1 / 2))) ray5 (Fin (9 / 2))"
  by (simp_all add: ray5_def ray_defs Sphere_getIntersectionT_def solveQuadratic_def
      spec_validIntersection_def)

text \<open>
  C8 as stated fails. The sphere of the small scene uses no texture; \<open>getTexture\<close> returns black with
  alpha 1, which is opaque, not the transparent \<open>(0, 0, 0, 0)\<close>. The cube names a
  texture file that the dictionary does not hold, so the constructor gives it an empty
  texture of height 0; \<open>getTexture\<close> then takes a remainder by zero. The ray \<open>upRay\<close>
  starts above the apex of the cone and points away from it, so no parameter is a valid
  intersection; yet the parameter \<open>-5.5\<close> of the base plane enters the candidates
  without a test of its sign, as in C1, and comes back in place of infinity.
\<close>

theorem C8_no_texture_color_counterexample:
  "\<not> isUsed (m_textureInfo unitSphere)
   \<and> getTexture unitSphere (Vec3 (Fin 0) (Fin 0) (Fin (1 / 2)))
        = Inr (Vec4 (Fin 0) (Fin 0) (Fin 0) (Fin 1))
   \<and> getTexture unitSphere (Vec3 (Fin 0) (Fin 0) (Fin (1 / 2)))
        \<noteq> Inr (Vec4 (Fin 0) (Fin 0) (Fin 0) (Fin 0))
   \<and> m_texture texturedCube = Texture_default
   \<and> getTexture texturedCube (Vec3 (Fin (1 / 2)) (Fin 0) (Fin 0)) = Inl DivisionByZero
   \<and> (\<forall>t. \<not> spec_validIntersection (Cone (Fin (1 / 2)) (Fin 1)) upRay t)
   \<and> getIntersectionT (Cone (Fin (1 / 2)) (Fin 1)) upRay = Fin (- (11 / 2))
   \<and> getIntersectionT (Cone (Fin (1 / 2)) (Fin 1)) upRay \<noteq> infinity"
proof -
  have tex: "\<not> isUsed (m_textureInfo unitSphere)
   \<and> getTexture unitSphere (Vec3 (Fin 0) (Fin 0) (Fin (1 / 2)))
        = Inr (Vec4 (Fin 0) (Fin 0) (Fin 0) (Fin 1))
   \<and> getTexture unitSphere (Vec3 (Fin 0) (Fin 0) (Fin (1 / 2)))
        \<noteq> Inr (Vec4 (Fin 0) (Fin 0) (Fin 0) (Fin 0))
   \<and> m_texture texturedCube = Texture_default
   \<and> getTexture texturedCube (Vec3 (Fin (1 / 2)) (Fin 0) (Fin 0)) = Inl DivisionByZero"
    by (simp add: texturedCube_fields texturedCube_faults)
       (simp add: getTexture_def unitSphere_eval noTexture_def)
  have cone: "getIntersectionT (Cone (Fin (1 / 2)) (Fin 1)) upRay = Fin (- (11 / 2))
   \<and> getIntersectionT (Cone (Fin (1 / 2)) (Fin 1)) upRay \<noteq> infinity"
    by (simp only: upRay_cone) (simp add: infinity_def)
  have none: "\<forall>t. \<not> spec_validIntersection (Cone (Fin (1 / 2)) (Fin 1)) upRay t"
    using upRay_no_valid by blast
  show ?thesis using tex cone none by blast
qed

text \<open>
  C8, amended: for every primitive whose texture map is not used (\<open>isUsed\<close> false),
  whatever the texture dictionary holds, \<open>getTexture\<close> returns opaque black
  \<open>(0, 0, 0, 1)\<close> at every point and does not fail. Likewise a sphere, a cube or a
  cylinder with no valid intersection reports infinity: \<open>getIntersectionT\<close>, a total
  function into the scalars, returns on every ray either infinity or a parameter that is
  a valid intersection, for a sphere of any radius, the cube of side 1 and a cylinder of
  height 1 and any radius; so every primitive that the scene builds, the cone apart,
  reports infinity on a ray without valid intersection.
\<close>

theorem C8_unused_texture_is_opaque_black:
  "(\<not> isUsed (m_textureInfo P)
      \<longrightarrow> getTexture P p = Inr (Vec4 (Fin 0) (Fin 0) (Fin 0) (Fin 1)))
   \<and> (\<not> isUsed (textureMap (material (primitive shapeData)))
      \<longrightarrow> getTexture (fst (Primitive_ctor shapeData dict sh)) p
            = Inr (Vec4 (Fin 0) (Fin 0) (Fin 0) (Fin 1)))
   \<and> (getIntersectionT (Sphere rad) ray = infinity
      \<or> spec_validIntersection (Sphere rad) ray (getIntersectionT (Sphere rad) ray))
   \<and> (getIntersectionT (Cube (Fin 1)) ray = infinity
      \<or> spec_validIntersection (Cube (Fin 1)) ray (getIntersectionT (Cube (Fin 1)) ray))
   \<and> (getIntersectionT (Cylinder (Fin 1) rad) ray = infinity
      \<or> spec_validIntersection (Cylinder (Fin 1) rad) ray
           (getIntersectionT (Cylinder (Fin 1) rad) ray))
   \<and> (prim_type (primitive shapeData) \<noteq> PRIMITIVE_CONE
        \<and> (\<forall>t. \<not> spec_validIntersection (shape (fst (makePrimitive shapeData dict))) ray t)
      \<longrightarrow> getIntersectionT (shape (fst (makePrimitive shapeData dict))) ray = infinity)"
proof -
  have tex: "(\<not> isUsed (m_textureInfo P)
      \<longrightarrow> getTexture P p = Inr (Vec4 (Fin 0) (Fin 0) (Fin 0) (Fin 1)))
   \<and> (\<not> isUsed (textureMap (material (primitive shapeData)))
      \<longrightarrow> getTexture (fst (Primitive_ctor shapeData dict sh)) p
            = Inr (Vec4 (Fin 0) (Fin 0) (Fin 0) (Fin 1)))"
    by (simp add: getTexture_def Primitive_ctor_matrices)
  have built: "prim_type (primitive shapeData) \<noteq> PRIMITIVE_CONE
        \<and> (\<forall>t. \<not> spec_validIntersection (shape (fst (makePrimitive shapeData dict))) ray t)
      \<longrightarrow> getIntersectionT (shape (fst (makePrimitive shapeData dict))) ray = infinity"
    using built_shape_valid [of shapeData dict ray] by blast
  show ?thesis
    using tex built Sphere_valid [of rad ray] Cube_valid [of ray] Cylinder_valid [of rad ray]
    by blast
qed

theorem C8_unused_texture_is_opaque_black_witness:
  "\<not> isUsed (m_textureInfo unitSphere)
   \<and> getTexture unitSphere (Vec3 (Fin 0) (Fin 0) (Fin (1 / 2)))
        = Inr (Vec4 (Fin 0) (Fin 0) (Fin 0) (Fin 1))
   \<and> \<not> isUsed (textureMap (material (primitive sphereData)))
   \<and> getTexture (fst (Primitive_ctor sphereData (Map.empty(''wood.png'' \<mapsto> Texture_default))
                         (Sphere (Fin (1 / 2)))))
        (Vec3 (Fin 0) (Fin 0) (Fin (1 / 2))) = Inr (Vec4 (Fin 0) (Fin 0) (Fin 0) (Fin 1))
   \<and> prim_type (primitive sphereData) \<noteq> PRIMITIVE_CONE
   \<and> shape (fst (makePrimitive sphereData (Map.empty(''wood.png'' \<mapsto> Texture_default))))
        = Sphere (Fin (1 / 2))
   \<and> (\<forall>t. \<not> spec_validIntersection (Sphere (Fin (1 / 2))) missRay t)
   \<and> getIntersectionT
        (shape (fst (makePrimitive sphereData (Map.empty(''wood.png'' \<mapsto> Texture_default)))))
        missRay = infinity
   \<and> getIntersectionT (Cube (Fin 1)) missRay = infinity
   \<and> getIntersectionT (Cylinder (Fin 1) (Fin (1 / 2))) missRay = infinity
   \<and> getIntersectionT (Sphere (Fin (1 / 2))) ray5 = Fin (9 / 2)
   \<and> spec_validIntersection (Sphere (Fin (1 / 2))) ray5 (Fin (9 / 2))"
proof -
  have miss: "getIntersectionT (Cube (Fin 1)) missRay = infinity"
    "getIntersectionT (Cylinder (Fin 1) (Fin (1 / 2))) missRay = infinity"
    by (simp_all add: missRay_def ray_defs Cube_getIntersectionT_def
        Cylinder_getIntersectionT_def solveQuadratic_def intersectPlane_def std_min_def
        isInSquare_def getSmallest_def)
  have u: "\<not> isUsed (m_textureInfo unitSphere)"
    "\<not> isUsed (textureMap (material (primitive sphereData)))"
    "prim_type (primitive sphereData) \<noteq> PRIMITIVE_CONE"
    by (simp_all add: unitSphere_eval noTexture_def sphereData_def mat0_def)
  have sh: "shape (fst (makePrimitive sphereData (Map.empty(''wood.png'' \<mapsto> Texture_default))))
        = Sphere (Fin (1 / 2))"
    by (simp add: makePrimitive_shape sphereData_def)
  have none: "\<forall>t. \<not> spec_validIntersection (Sphere (Fin (1 / 2))) missRay t"
    using missRay_no_valid by blast
  show ?thesis
    using C8_unused_texture_is_opaque_black
            [of unitSphere "Vec3 (Fin 0) (Fin 0) (Fin (1 / 2))" sphereData
                "Map.empty(''wood.png'' \<mapsto> Texture_default)" "Sphere (Fin (1 / 2))"
                "Fin (1 / 2)" missRay]
      u miss sh none ray5_sphere
    by simp
qed

end
